theory Spec2Isabelle
  imports Complex_Main "HOL-Library.Word"
begin

section \<open>Bytes, hex strings and JavaScript numbers\<close>

text \<open>
  A \<open>Uint8Array\<close> is a list of bytes. Integer-valued \<open>number\<close> fields (timestamps, block
  heights, confirmation counts, output indices) are \<open>int\<close>; a \<open>bigint\<close> is \<open>int\<close> as well.
  A \<open>number\<close> that is used as a floating-point quantity (\<open>exchangeRate\<close>, \<open>feeRate\<close>,
  parsed decimal amounts) is a \<open>number\<close>: a finite value, read as the rational it denotes,
  or one of the three non-finite values. Comparisons of finite values are exact; the one
  product the model computes (the fee estimate) is rounded as a double is. A string is the
  list of its code units, and the model has the code units below 256.
\<close>

type_synonym byte = "8 word"
type_synonym bytes = "byte list"

datatype number = Num rat | NaN | PosInfinity | NegInfinity

text \<open>\<open>hex.encode\<close> of the base library: two lower-case digits per byte.\<close>

definition hexDigit :: "nat \<Rightarrow> char" where
  "hexDigit d = ''0123456789abcdef'' ! (d mod 16)"

definition hex_encode :: "bytes \<Rightarrow> string" where
  "hex_encode bs = concat (map (\<lambda>b. [hexDigit (unat b div 16), hexDigit (unat b mod 16)]) bs)"

text \<open>
  \<open>toString(radix)\<close> of a non-negative integer and \<open>toString()\<close> of a \<open>bigint\<close>.
\<close>

definition digitChar :: "nat \<Rightarrow> char" where
  "digitChar d = ''0123456789abcdefghijklmnopqrstuvwxyz'' ! (d mod 36)"

function digitsOf :: "nat \<Rightarrow> nat \<Rightarrow> string" where
  "digitsOf b n =
     (if b < 2 \<or> n < b then [digitChar n] else digitsOf b (n div b) @ [digitChar (n mod b)])"
  by pat_completeness auto
termination
  by (relation "measure snd") auto

declare digitsOf.simps [simp del]

definition bigintToString :: "int \<Rightarrow> string" where
  "bigintToString n = (if n < 0 then ''-'' else []) @ digitsOf 10 (nat \<bar>n\<bar>)"

section \<open>Swap state (lib/swap/state.ts)\<close>

datatype SwapPhase =
    QUOTE_REQUESTED
  | QUOTE_RECEIVED
  | SWAP_INITIATED
  | BTC_LOCK_TX_CREATED
  | BTC_LOCK_TX_BROADCAST
  | BTC_LOCK_TX_CONFIRMED
  | XMR_LOCK_TX_SEEN
  | XMR_LOCK_TX_CONFIRMED
  | ENCRYPTED_SIG_SENT
  | BTC_REDEEMED
  | XMR_REDEEMABLE
  | XMR_REDEEMED
  | REFUND_TIMELOCK_EXPIRED
  | BTC_REFUNDED
  | COMPLETED
  | REFUNDED
  | FAILED

datatype NetworkName = Mainnet | Testnet

record PhaseEntry =
  entryPhase :: SwapPhase
  timestamp :: int
  details :: "string option"

record SwapState =
  id :: string
  peerId :: string
  createdAt :: int
  updatedAt :: int
  phase :: SwapPhase
  phaseHistory :: "PhaseEntry list"
  btcAmount :: int
  xmrAmount :: int
  exchangeRate :: number
  minBtcLockConfirmations :: int
  minXmrLockConfirmations :: int
  btcCancelTimelock :: int
  btcPunishTimelock :: int
  xmrUnlockHeight :: int
  userBtcDepositPubkey :: string
  userBtcRefundPubkey :: string
  asbBtcRedeemPubkey :: string
  userXmrAddress :: string
  asbXmrViewKey :: "string option"
  secretHash :: string
  secret :: "string option"
  btcLockTxId :: "string option"
  btcLockTxVout :: "int option"
  btcLockTxHex :: "string option"
  btcRedeemTxId :: "string option"
  btcRefundTxId :: "string option"
  htlcScript :: "string option"
  xmrLockTxId :: "string option"
  xmrRedeemTxId :: "string option"
  encryptedSignature :: "string option"
  lastError :: "string option"
  errorCount :: int
  network :: NetworkName

text \<open>
  \<open>transitionPhase(state, newPhase, details?)\<close>. The reading of \<open>Date.now()\<close> is the
  argument \<open>now\<close>.
\<close>

definition transitionPhase :: "SwapState \<Rightarrow> SwapPhase \<Rightarrow> string option \<Rightarrow> int \<Rightarrow> SwapState" where
  "transitionPhase state newPhase dets now =
     state\<lparr> phase := newPhase,
            updatedAt := now,
            phaseHistory := phaseHistory state @
              [\<lparr> entryPhase = newPhase, timestamp = now, details = dets \<rparr>] \<rparr>"

text \<open>
  \<open>updateSwapState(state, updates)\<close>: \<open>updates\<close> is a \<open>Partial\<close> of the state without
  \<open>id\<close>, \<open>createdAt\<close> and \<open>phaseHistory\<close>. It is a list of the keys it holds with their
  values, in the order of the object literal; the spread copies them over the state, and
  \<open>updatedAt\<close> is written last. Every key holds a value: an update that sets an optional
  field back to \<open>undefined\<close> does not occur in the source and is not represented.
\<close>

datatype FieldUpdate =
    Set_peerId string
  | Set_updatedAt int
  | Set_phase SwapPhase
  | Set_btcAmount int
  | Set_xmrAmount int
  | Set_exchangeRate number
  | Set_minBtcLockConfirmations int
  | Set_minXmrLockConfirmations int
  | Set_btcCancelTimelock int
  | Set_btcPunishTimelock int
  | Set_xmrUnlockHeight int
  | Set_userBtcDepositPubkey string
  | Set_userBtcRefundPubkey string
  | Set_asbBtcRedeemPubkey string
  | Set_userXmrAddress string
  | Set_asbXmrViewKey string
  | Set_secretHash string
  | Set_secret string
  | Set_btcLockTxId string
  | Set_btcLockTxVout int
  | Set_btcLockTxHex string
  | Set_btcRedeemTxId string
  | Set_btcRefundTxId string
  | Set_htlcScript string
  | Set_xmrLockTxId string
  | Set_xmrRedeemTxId string
  | Set_encryptedSignature string
  | Set_lastError string
  | Set_errorCount int
  | Set_network NetworkName

fun applyField :: "FieldUpdate \<Rightarrow> SwapState \<Rightarrow> SwapState" where
  "applyField (Set_peerId v) s = s\<lparr>peerId := v\<rparr>"
| "applyField (Set_updatedAt v) s = s\<lparr>updatedAt := v\<rparr>"
| "applyField (Set_phase v) s = s\<lparr>phase := v\<rparr>"
| "applyField (Set_btcAmount v) s = s\<lparr>btcAmount := v\<rparr>"
| "applyField (Set_xmrAmount v) s = s\<lparr>xmrAmount := v\<rparr>"
| "applyField (Set_exchangeRate v) s = s\<lparr>exchangeRate := v\<rparr>"
| "applyField (Set_minBtcLockConfirmations v) s = s\<lparr>minBtcLockConfirmations := v\<rparr>"
| "applyField (Set_minXmrLockConfirmations v) s = s\<lparr>minXmrLockConfirmations := v\<rparr>"
| "applyField (Set_btcCancelTimelock v) s = s\<lparr>btcCancelTimelock := v\<rparr>"
| "applyField (Set_btcPunishTimelock v) s = s\<lparr>btcPunishTimelock := v\<rparr>"
| "applyField (Set_xmrUnlockHeight v) s = s\<lparr>xmrUnlockHeight := v\<rparr>"
| "applyField (Set_userBtcDepositPubkey v) s = s\<lparr>userBtcDepositPubkey := v\<rparr>"
| "applyField (Set_userBtcRefundPubkey v) s = s\<lparr>userBtcRefundPubkey := v\<rparr>"
| "applyField (Set_asbBtcRedeemPubkey v) s = s\<lparr>asbBtcRedeemPubkey := v\<rparr>"
| "applyField (Set_userXmrAddress v) s = s\<lparr>userXmrAddress := v\<rparr>"
| "applyField (Set_asbXmrViewKey v) s = s\<lparr>asbXmrViewKey := Some v\<rparr>"
| "applyField (Set_secretHash v) s = s\<lparr>secretHash := v\<rparr>"
| "applyField (Set_secret v) s = s\<lparr>secret := Some v\<rparr>"
| "applyField (Set_btcLockTxId v) s = s\<lparr>btcLockTxId := Some v\<rparr>"
| "applyField (Set_btcLockTxVout v) s = s\<lparr>btcLockTxVout := Some v\<rparr>"
| "applyField (Set_btcLockTxHex v) s = s\<lparr>btcLockTxHex := Some v\<rparr>"
| "applyField (Set_btcRedeemTxId v) s = s\<lparr>btcRedeemTxId := Some v\<rparr>"
| "applyField (Set_btcRefundTxId v) s = s\<lparr>btcRefundTxId := Some v\<rparr>"
| "applyField (Set_htlcScript v) s = s\<lparr>htlcScript := Some v\<rparr>"
| "applyField (Set_xmrLockTxId v) s = s\<lparr>xmrLockTxId := Some v\<rparr>"
| "applyField (Set_xmrRedeemTxId v) s = s\<lparr>xmrRedeemTxId := Some v\<rparr>"
| "applyField (Set_encryptedSignature v) s = s\<lparr>encryptedSignature := Some v\<rparr>"
| "applyField (Set_lastError v) s = s\<lparr>lastError := Some v\<rparr>"
| "applyField (Set_errorCount v) s = s\<lparr>errorCount := v\<rparr>"
| "applyField (Set_network v) s = s\<lparr>network := v\<rparr>"

definition updateSwapState :: "SwapState \<Rightarrow> FieldUpdate list \<Rightarrow> int \<Rightarrow> SwapState" where
  "updateSwapState state updates now = (fold applyField updates state)\<lparr>updatedAt := now\<rparr>"

definition recordSwapError :: "SwapState \<Rightarrow> string \<Rightarrow> int \<Rightarrow> SwapState" where
  "recordSwapError state err now =
     state\<lparr> lastError := Some err, errorCount := errorCount state + 1, updatedAt := now \<rparr>"

definition isTerminalPhase :: "SwapPhase \<Rightarrow> bool" where
  "isTerminalPhase p = (p \<in> set [COMPLETED, REFUNDED, FAILED])"

definition canRefund :: "SwapState \<Rightarrow> int \<Rightarrow> bool" where
  "canRefund state currentBlockHeight =
     (currentBlockHeight \<ge> btcCancelTimelock state \<and>
      phase state \<noteq> BTC_REDEEMED \<and>
      phase state \<noteq> XMR_REDEEMED \<and>
      phase state \<noteq> COMPLETED \<and>
      btcLockTxId state \<noteq> None)"

text \<open>
  \<open>generateSwapId\<close> and \<open>createSwapState\<close>. The two readings of \<open>Date.now()\<close> and the
  eight random bytes are arguments.
\<close>

record CreateParams =
  cp_peerId :: string
  cp_btcAmount :: int
  cp_xmrAmount :: int
  cp_exchangeRate :: number
  cp_userBtcDepositPubkey :: bytes
  cp_userBtcRefundPubkey :: bytes
  cp_asbBtcRedeemPubkey :: bytes
  cp_userXmrAddress :: string
  cp_secretHash :: bytes
  cp_btcCancelTimelock :: int
  cp_btcPunishTimelock :: int
  cp_minBtcLockConfirmations :: int
  cp_minXmrLockConfirmations :: int
  cp_network :: NetworkName

definition generateSwapId :: "int \<Rightarrow> bytes \<Rightarrow> string" where
  "generateSwapId stamp random =
     ''swap_'' @ (if stamp < 0 then ''-'' else []) @ digitsOf 36 (nat \<bar>stamp\<bar>) @ ''_'' @
     take 8 (hex_encode random)"

definition createSwapState :: "CreateParams \<Rightarrow> int \<Rightarrow> bytes \<Rightarrow> int \<Rightarrow> SwapState" where
  "createSwapState params stamp random now =
     \<lparr> id = generateSwapId stamp random,
       peerId = cp_peerId params,
       createdAt = now,
       updatedAt = now,
       phase = SWAP_INITIATED,
       phaseHistory = [\<lparr> entryPhase = SWAP_INITIATED, timestamp = now, details = None \<rparr>],
       btcAmount = cp_btcAmount params,
       xmrAmount = cp_xmrAmount params,
       exchangeRate = cp_exchangeRate params,
       minBtcLockConfirmations = cp_minBtcLockConfirmations params,
       minXmrLockConfirmations = cp_minXmrLockConfirmations params,
       btcCancelTimelock = cp_btcCancelTimelock params,
       btcPunishTimelock = cp_btcPunishTimelock params,
       xmrUnlockHeight = 0,
       userBtcDepositPubkey = hex_encode (cp_userBtcDepositPubkey params),
       userBtcRefundPubkey = hex_encode (cp_userBtcRefundPubkey params),
       asbBtcRedeemPubkey = hex_encode (cp_asbBtcRedeemPubkey params),
       userXmrAddress = cp_userXmrAddress params,
       asbXmrViewKey = None,
       secretHash = hex_encode (cp_secretHash params),
       secret = None,
       btcLockTxId = None,
       btcLockTxVout = None,
       btcLockTxHex = None,
       btcRedeemTxId = None,
       btcRefundTxId = None,
       htlcScript = None,
       xmrLockTxId = None,
       xmrRedeemTxId = None,
       encryptedSignature = None,
       lastError = None,
       errorCount = 0,
       network = cp_network params \<rparr>"

section \<open>Script and transaction factory (lib/bitcoin/transactions.ts)\<close>

datatype Network = MAINNET | TESTNET

record HtlcParams =
  p_secretHash :: bytes
  redeemPubkey :: bytes
  refundPubkey :: bytes
  locktime :: int

text \<open>
  The elements handed to \<open>btc.Script.encode\<close>: an opcode name or a byte array to push.
  \<open>Script.encode\<close> belongs to the signing library, not to this repository; it is modelled
  by what it does on these two kinds of element: an opcode name becomes its one byte, a byte
  array becomes a push with the shortest length prefix, and a push of more than
  \<open>2^32 - 1\<close> bytes cannot be encoded.
\<close>

datatype OpName = IF | ELSE | ENDIF | SIZE | EQUALVERIFY | SHA256 | CHECKLOCKTIMEVERIFY
  | DROP | CHECKSIG

datatype ScriptItem = Op OpName | Data bytes

datatype ScriptError = PushTooLong

fun opByte :: "OpName \<Rightarrow> byte" where
  "opByte IF = 0x63"
| "opByte ELSE = 0x67"
| "opByte ENDIF = 0x68"
| "opByte SIZE = 0x82"
| "opByte EQUALVERIFY = 0x88"
| "opByte SHA256 = 0xa8"
| "opByte CHECKLOCKTIMEVERIFY = 0xb1"
| "opByte DROP = 0x75"
| "opByte CHECKSIG = 0xac"

definition leBytes :: "nat \<Rightarrow> nat \<Rightarrow> bytes" where
  "leBytes k n = map (\<lambda>i. of_nat (n div 256 ^ i)) [0..<k]"

definition pushPrefix :: "nat \<Rightarrow> ScriptError + bytes" where
  "pushPrefix len =
     (if len < 76 then Inr [of_nat len]
      else if len \<le> 0xff then Inr [0x4c, of_nat len]
      else if len \<le> 0xffff then Inr (0x4d # leBytes 2 len)
      else if len \<le> 0xffffffff then Inr (0x4e # leBytes 4 len)
      else Inl PushTooLong)"

fun Script_encode :: "ScriptItem list \<Rightarrow> ScriptError + bytes" where
  "Script_encode [] = Inr []"
| "Script_encode (Op name # rest) =
     (case Script_encode rest of Inl e \<Rightarrow> Inl e | Inr bs \<Rightarrow> Inr (opByte name # bs))"
| "Script_encode (Data d # rest) =
     (case pushPrefix (length d) of
        Inl e \<Rightarrow> Inl e
      | Inr pre \<Rightarrow> (case Script_encode rest of Inl e \<Rightarrow> Inl e | Inr bs \<Rightarrow> Inr (pre @ d @ bs)))"

text \<open>
  \<open>encodeNum\<close>, the local helper of \<open>createHtlcScript\<close>, on an integer. \<open>val & 0xff\<close> and
  \<open>val >>= 8\<close> are 32-bit operations: the operand goes through \<open>ToInt32\<close> first, so after
  the first round \<open>val\<close> is a signed 32-bit value and the loop stops as soon as it is not
  positive. The argument is an integer, as a block height is.
\<close>

definition toInt32 :: "int \<Rightarrow> int" where
  "toInt32 v = (v + 2 ^ 31) mod 2 ^ 32 - 2 ^ 31"

function encodeNumLoop :: "int \<Rightarrow> bytes" where
  "encodeNumLoop val =
     (if val > 0 then of_int (toInt32 val mod 256) # encodeNumLoop (toInt32 val div 256) else [])"
  by pat_completeness auto
termination
proof (relation "measure nat")
  show "wf (measure nat)" by simp
next
  fix val :: int
  assume pos: "0 < val"
  have "(val + 2 ^ 31) mod 2 ^ 32 \<le> val + 2 ^ 31"
    by (rule zmod_le_nonneg_dividend) (use pos in simp)
  then have "toInt32 val \<le> val"
    by (simp add: toInt32_def)
  moreover have "toInt32 val div 256 < val"
  proof (cases "toInt32 val \<le> 0")
    case True
    then have "toInt32 val div 256 \<le> 0" by simp
    with pos show ?thesis by linarith
  next
    case False
    then have "toInt32 val div 256 < toInt32 val" by simp
    with \<open>toInt32 val \<le> val\<close> show ?thesis by linarith
  qed
  ultimately show "(toInt32 val div 256, val) \<in> measure nat"
    using pos by simp
qed

declare encodeNumLoop.simps [simp del]

definition encodeNum :: "int \<Rightarrow> bytes" where
  "encodeNum n =
     (if n = 0 then []
      else if n \<ge> 1 \<and> n \<le> 16 then [0x50 + of_int n]
      else
        (let bs = encodeNumLoop \<bar>n\<bar> in
         case rev bs of
           [] \<Rightarrow> []
         | l # front \<Rightarrow>
             if and l 0x80 \<noteq> 0 then bs @ [if n < 0 then 0x80 else 0x00]
             else if n < 0 then rev front @ [or l 0x80]
             else bs))"

definition createHtlcScript :: "HtlcParams \<Rightarrow> ScriptError + bytes" where
  "createHtlcScript params =
     Script_encode
       [ Op IF,
           Op SIZE,
           Data (encodeNum 32),
           Op EQUALVERIFY,
           Op SHA256,
           Data (p_secretHash params),
           Op EQUALVERIFY,
           Data (redeemPubkey params),
         Op ELSE,
           Data (encodeNum (locktime params)),
           Op CHECKLOCKTIMEVERIFY,
           Op DROP,
           Data (refundPubkey params),
         Op ENDIF,
         Op CHECKSIG ]"

text \<open>
  Addresses are strings. \<open>sha256\<close> belongs to the hashing library;
  \<open>btc.Address(network).encode({type: 'wsh', hash})\<close>, the checks that \<open>tx.addInput\<close> and
  \<open>tx.addOutputAddress\<close> make before they add anything, and the byte form that
  \<open>tx.extract()\<close> gives for a transaction whose inputs are all finalized belong to the
  signing library. They are the fields of a \<open>Library\<close>, a parameter of every function that
  calls them, and every theorem below holds whatever they are.
\<close>

record Utxo =
  txid :: string
  vout :: int
  utxoValue :: int
  script :: bytes

record TxInput =
  in_txid :: string
  in_index :: int
  witnessUtxo_script :: bytes
  witnessUtxo_amount :: int
  finalized :: bool

record TxOutput =
  out_address :: string
  out_amount :: int

record Transaction =
  tx_inputs :: "TxInput list"
  tx_outputs :: "TxOutput list"

record Library =
  sha256 :: "bytes \<Rightarrow> bytes"
  encodeWsh :: "Network \<Rightarrow> bytes \<Rightarrow> string"
  acceptsInput :: "Utxo \<Rightarrow> bool"
  acceptsOutput :: "string \<Rightarrow> int \<Rightarrow> Network \<Rightarrow> bool"
  extractFinal :: "Transaction \<Rightarrow> bytes option"

definition htlcScriptToAddress :: "Library \<Rightarrow> bytes \<Rightarrow> Network \<Rightarrow> string" where
  "htlcScriptToAddress lib htlc net = encodeWsh lib net (sha256 lib htlc)"

record LockTxParams =
  inputs :: "Utxo list"
  lock_htlcScript :: bytes
  amount :: int
  changeAddress :: string
  feeRate :: number
  lock_network :: Network

text \<open>
  The transaction under construction: the inputs and outputs added so far. \<open>tx.addInput\<close>
  and \<open>tx.addOutputAddress\<close> throw when the library rejects what they are given (a txid
  that is not 32 bytes of hex, an amount outside the range of its encoding, an address that
  does not decode), and add it at the end otherwise. An input is added without a signature:
  it is not finalized, and nothing in \<open>createLockTransaction\<close> or in its caller finalizes it.
  \<open>tx.extract()\<close> throws when an input is not finalized.
\<close>

datatype TxError = RangeError | InputRejected | OutputRejected | UnfinalizedInputs | ExtractRejected

definition newTransaction :: Transaction where
  "newTransaction = \<lparr> tx_inputs = [], tx_outputs = [] \<rparr>"

definition addInput :: "Library \<Rightarrow> Utxo \<Rightarrow> Transaction \<Rightarrow> TxError + Transaction" where
  "addInput lib u tx =
     (if acceptsInput lib u
      then Inr (tx\<lparr> tx_inputs := tx_inputs tx @
             [\<lparr> in_txid = txid u, in_index = vout u,
                witnessUtxo_script = script u, witnessUtxo_amount = utxoValue u,
                finalized = False \<rparr>] \<rparr>)
      else Inl InputRejected)"

definition addOutputAddress :: "Library \<Rightarrow> string \<Rightarrow> int \<Rightarrow> Network \<Rightarrow> Transaction \<Rightarrow> TxError + Transaction" where
  "addOutputAddress lib a v net tx =
     (if acceptsOutput lib a v net
      then Inr (tx\<lparr> tx_outputs := tx_outputs tx @ [\<lparr> out_address = a, out_amount = v \<rparr>] \<rparr>)
      else Inl OutputRejected)"

definition Tx_extract :: "Library \<Rightarrow> Transaction \<Rightarrow> TxError + bytes" where
  "Tx_extract lib tx =
     (if list_all finalized (tx_inputs tx)
      then (case extractFinal lib tx of None \<Rightarrow> Inl ExtractRejected | Some raw \<Rightarrow> Inr raw)
      else Inl UnfinalizedInputs)"

text \<open>
  Numbers are IEEE 754 doubles. \<open>toDouble x\<close> is the double nearest to the rational \<open>x\<close>,
  ties to the even significand: it is what a decimal literal denotes and what an arithmetic
  operation returns for the exact result \<open>x\<close>. A double is a significand of at most 53
  bits times a power of two whose exponent is at least \<open>-1074\<close>; a value whose rounded
  significand would need an exponent above \<open>1023 - 52\<close> is infinite. The sign of a zero is
  not kept; nothing below tells \<open>-0\<close> from \<open>0\<close>.
\<close>

definition pow2 :: "int \<Rightarrow> rat" where
  "pow2 e = (if e \<ge> 0 then 2 ^ nat e else 1 / 2 ^ nat (- e))"

function bitLength :: "int \<Rightarrow> nat" where
  "bitLength n = (if n \<le> 0 then 0 else Suc (bitLength (n div 2)))"
  by pat_completeness auto
termination
  by (relation "measure nat") simp_all

declare bitLength.simps [simp del]

text \<open>The exponent \<open>e\<close> with \<open>2^e \<le> a < 2^(e + 1)\<close>, for a positive \<open>a\<close>.\<close>

definition floorLog2 :: "rat \<Rightarrow> int" where
  "floorLog2 a =
     (let k = int (bitLength (fst (quotient_of a))) - int (bitLength (snd (quotient_of a)))
      in if pow2 k \<le> a then k else k - 1)"

definition roundHalfEven :: "rat \<Rightarrow> int" where
  "roundHalfEven m =
     (let f = \<lfloor>m\<rfloor>; d = m - of_int f
      in if d < 1 / 2 then f else if d > 1 / 2 then f + 1 else if even f then f else f + 1)"

definition toDouble :: "rat \<Rightarrow> number" where
  "toDouble x =
     (if x = 0 then Num 0
      else
        let a = \<bar>x\<bar>;
            e = max (floorLog2 a) (- 1022);
            ulp = pow2 (e - 52);
            significand = roundHalfEven (a / ulp)
        in if e > 1023 \<or> (e = 1023 \<and> significand \<ge> 2 ^ 53)
           then (if x > 0 then PosInfinity else NegInfinity)
           else Num (if x > 0 then of_int significand * ulp else - (of_int significand * ulp)))"

text \<open>\<open>estimatedSize * feeRate\<close>, where \<open>estimatedSize\<close> is an integer below \<open>2^53\<close>;
  \<open>Math.ceil\<close>; and \<open>BigInt(...)\<close>, which throws a \<open>RangeError\<close> on a value that is not an
  integer, as \<open>NaN\<close> and the infinities are not.\<close>

fun timesSize :: "nat \<Rightarrow> number \<Rightarrow> number" where
  "timesSize n (Num r) = toDouble (of_nat n * r)"
| "timesSize n NaN = NaN"
| "timesSize n PosInfinity = (if n = 0 then NaN else PosInfinity)"
| "timesSize n NegInfinity = (if n = 0 then NaN else NegInfinity)"

fun Math_ceil :: "number \<Rightarrow> number" where
  "Math_ceil (Num r) = Num (of_int \<lceil>r\<rceil>)"
| "Math_ceil x = x"

fun BigInt_of_number :: "number \<Rightarrow> TxError + int" where
  "BigInt_of_number (Num r) = (if of_int \<lfloor>r\<rfloor> = r then Inr \<lfloor>r\<rfloor> else Inl RangeError)"
| "BigInt_of_number x = Inl RangeError"

definition estimatedFee :: "nat \<Rightarrow> number \<Rightarrow> TxError + int" where
  "estimatedFee inputCount rate = BigInt_of_number (Math_ceil (timesSize (150 + inputCount * 70) rate))"

definition totalInput :: "Utxo list \<Rightarrow> int" where
  "totalInput us = fold (\<lambda>u acc. acc + utxoValue u) us 0"

text \<open>
  \<open>createLockTransaction\<close>. The loop over the inputs stops at the first input the library
  rejects. The witness program of the HTLC script, which the function computes and never
  uses, is left out.
\<close>

fun addInputs :: "Library \<Rightarrow> Utxo list \<Rightarrow> Transaction \<Rightarrow> TxError + Transaction" where
  "addInputs lib [] tx = Inr tx"
| "addInputs lib (u # us) tx =
     (case addInput lib u tx of Inl e \<Rightarrow> Inl e | Inr tx' \<Rightarrow> addInputs lib us tx')"

definition createLockTransaction :: "Library \<Rightarrow> LockTxParams \<Rightarrow> TxError + Transaction" where
  "createLockTransaction lib params =
     (case addInputs lib (inputs params) newTransaction of
        Inl e \<Rightarrow> Inl e
      | Inr tx1 \<Rightarrow>
     (case addOutputAddress lib
             (htlcScriptToAddress lib (lock_htlcScript params) (lock_network params))
             (amount params) (lock_network params) tx1 of
        Inl e \<Rightarrow> Inl e
      | Inr tx2 \<Rightarrow>
     (case estimatedFee (length (inputs params)) (feeRate params) of
        Inl e \<Rightarrow> Inl e
      | Inr fee \<Rightarrow>
          (let change = totalInput (inputs params) - amount params - fee
           in if change > 546
              then addOutputAddress lib (changeAddress params) change (lock_network params) tx2
              else Inr tx2))))"

section \<open>Swap executor (lib/swap/executor.ts)\<close>

text \<open>\<open>hex.decode\<close> of the base library: an even number of hex digits of either case, or it throws.\<close>

definition hexValue :: "char \<Rightarrow> nat option" where
  "hexValue c =
     (let n = (of_char c :: nat)
      in if 48 \<le> n \<and> n \<le> 57 then Some (n - 48)
         else if 97 \<le> n \<and> n \<le> 102 then Some (n - 87)
         else if 65 \<le> n \<and> n \<le> 70 then Some (n - 55)
         else None)"

fun hex_decode :: "string \<Rightarrow> bytes option" where
  "hex_decode [] = Some []"
| "hex_decode [c] = None"
| "hex_decode (a # b # rest) =
     (case (hexValue a, hexValue b, hex_decode rest) of
        (Some h, Some l, Some bs) \<Rightarrow> Some (of_nat (16 * h + l) # bs)
      | _ \<Rightarrow> None)"

record SwapQuote =
  sq_peerId :: string
  sq_btcAmount :: int
  sq_xmrAmount :: int
  sq_exchangeRate :: number
  sq_maxBtc :: int
  sq_minBtc :: int
  sq_expiresAt :: int

record SwapKeys =
  depositPrivateKey :: bytes
  depositPublicKey :: bytes
  depositAddress :: string
  refundPrivateKey :: bytes
  refundPublicKey :: bytes
  refundAddress :: string

record AsbSwapRequest =
  btc_amount :: int
  xmr_address :: string
  btc_refund_pubkey :: bytes
  secret_hash :: bytes

record AsbSwapResponse =
  swap_id :: string
  asb_btc_redeem_pubkey :: bytes
  cancel_timelock :: int
  punish_timelock :: int
  min_btc_lock_confirmations :: int
  min_xmr_lock_confirmations :: int
  xmr_lock_address :: "string option"

record SpendingTx =
  sp_txid :: string
  witness :: "string list"

datatype ExecError =
    NotInitialized
  | InvalidMoneroAddress
  | PeerFailure string
  | ScriptFailure ScriptError
  | TxFailure TxError
  | BroadcastFailed string
  | ChainQueryFailure string
  | NoLockTxId
  | HexDecodeFailure
  | RedeemTimeout
  | SwapNotFound
  | CannotRefund
  | MissingLockData
  | WalletFailure string

text \<open>
  The arguments of \<open>signRefundTransaction\<close>, in the order of the source. \<open>lockTxVout\<close> is
  \<open>state.btcLockTxVout!\<close>: the value of an optional field, handed on as it is.
\<close>

record RefundTxParams =
  rf_lockTxId :: string
  rf_lockTxVout :: "int option"
  rf_lockTxAmount :: int
  rf_htlcScript :: bytes
  rf_refundPrivateKey :: bytes
  rf_destinationAddress :: string
  rf_locktime :: int
  rf_feeRate :: number

text \<open>
  What the executor gets from outside itself: the configuration, the wallet, the peer node,
  the chain explorer, the random source, the libraries and the clock. \<open>clock env n\<close>
  is the \<open>n\<close>-th reading of \<open>Date.now()\<close> in a run; \<open>findSpendingTransaction env k\<close> is
  the answer to the \<open>k\<close>-th query of the redemption monitor; \<open>currentBlockHeight env\<close> is
  what \<open>getCurrentBlockHeight\<close> resolves to, \<open>None\<close> when \<open>parseInt\<close> gives \<open>NaN\<close>;
  \<open>signRefundTransaction env\<close> is the wallet method of that name, which builds and signs
  the refund and returns its hex form. A call that can reject returns a sum. The wallet is
  taken to derive its keys (\<open>getNextDepositKeys\<close>, \<open>getKeysAtIndex\<close>) without failing,
  and callbacks are taken not to throw and are left out.
\<close>

record World =
  isMainnet :: bool
  isValidMoneroAddress :: "string \<Rightarrow> NetworkName \<Rightarrow> bool"
  library :: Library
  randomSecret :: bytes
  randomIdBytes :: bytes
  nextDepositKeys :: SwapKeys
  initiateSwap :: "string \<Rightarrow> AsbSwapRequest \<Rightarrow> ExecError + AsbSwapResponse"
  broadcastTransaction :: "string \<Rightarrow> ExecError + string"
  clock :: "nat \<Rightarrow> int"
  findSpendingTransaction :: "nat \<Rightarrow> string \<Rightarrow> int \<Rightarrow> ExecError + SpendingTx option"
  currentBlockHeight :: "ExecError + int option"
  keysAtIndex :: "int \<Rightarrow> int \<Rightarrow> SwapKeys"
  signRefundTransaction :: "RefundTxParams \<Rightarrow> ExecError + string"

text \<open>The result of a run: every state handed to \<open>saveSwapState\<close>, in order, and what the
  call returned or threw.\<close>

record Run =
  saved :: "SwapState list"
  outcome :: "ExecError + SwapState"

definition hashSecret :: "Library \<Rightarrow> bytes \<Rightarrow> bytes" where
  "hashSecret l s = sha256 l s"

definition showError :: "ExecError \<Rightarrow> string" where
  "showError e = (case e of BroadcastFailed msg \<Rightarrow> ''Error: Broadcast failed: '' @ msg
                          | _ \<Rightarrow> ''Error'')"

text \<open>
  \<open>executeSwap\<close>. \<open>lockTx.extract()\<close> is called on the transaction as
  \<open>createLockTransaction\<close> returns it: nothing signs it in between.
\<close>

definition executeSwap :: "World \<Rightarrow> bool \<Rightarrow> SwapQuote \<Rightarrow> string \<Rightarrow> Utxo list \<Rightarrow> Run" where
  "executeSwap env nodeReady q xmrDestinationAddress utxos =
     (if \<not> nodeReady then \<lparr> saved = [], outcome = Inl NotInitialized \<rparr>
      else if \<not> isValidMoneroAddress env xmrDestinationAddress
                  (if isMainnet env then Mainnet else Testnet)
      then \<lparr> saved = [], outcome = Inl InvalidMoneroAddress \<rparr>
      else
        let generated = randomSecret env;
            hashed = hashSecret (library env) generated;
            keys = nextDepositKeys env;
            swapRequest = \<lparr> btc_amount = sq_btcAmount q,
                            xmr_address = xmrDestinationAddress,
                            btc_refund_pubkey = refundPublicKey keys,
                            secret_hash = hashed \<rparr>
        in (case initiateSwap env (sq_peerId q) swapRequest of
             Inl e \<Rightarrow> \<lparr> saved = [], outcome = Inl e \<rparr>
           | Inr swapResponse \<Rightarrow>
        (let state0 = createSwapState
               \<lparr> cp_peerId = sq_peerId q,
                 cp_btcAmount = sq_btcAmount q,
                 cp_xmrAmount = sq_xmrAmount q,
                 cp_exchangeRate = sq_exchangeRate q,
                 cp_userBtcDepositPubkey = depositPublicKey keys,
                 cp_userBtcRefundPubkey = refundPublicKey keys,
                 cp_asbBtcRedeemPubkey = asb_btc_redeem_pubkey swapResponse,
                 cp_userXmrAddress = xmrDestinationAddress,
                 cp_secretHash = hashed,
                 cp_btcCancelTimelock = cancel_timelock swapResponse,
                 cp_btcPunishTimelock = punish_timelock swapResponse,
                 cp_minBtcLockConfirmations = min_btc_lock_confirmations swapResponse,
                 cp_minXmrLockConfirmations = min_xmr_lock_confirmations swapResponse,
                 cp_network = (if isMainnet env then Mainnet else Testnet) \<rparr>
               (clock env 0) (randomIdBytes env) (clock env 1);
            state1 = updateSwapState state0 [Set_secret (hex_encode generated)] (clock env 2)
        in (case createHtlcScript
                  \<lparr> p_secretHash = hashed,
                    redeemPubkey = asb_btc_redeem_pubkey swapResponse,
                    refundPubkey = refundPublicKey keys,
                    locktime = cancel_timelock swapResponse \<rparr> of
             Inl e \<Rightarrow> \<lparr> saved = [state1], outcome = Inl (ScriptFailure e) \<rparr>
           | Inr htlc \<Rightarrow>
        (let state2 = updateSwapState state1 [Set_htlcScript (hex_encode htlc)] (clock env 3)
        in (case createLockTransaction (library env)
                  \<lparr> inputs = utxos,
                    lock_htlcScript = htlc,
                    amount = sq_btcAmount q,
                    changeAddress = depositAddress keys,
                    feeRate = Num 10,
                    lock_network = (if isMainnet env then MAINNET else TESTNET) \<rparr> of
             Inl e \<Rightarrow> \<lparr> saved = [state1], outcome = Inl (TxFailure e) \<rparr>
           | Inr lockTx \<Rightarrow>
        (let state3 = transitionPhase state2 BTC_LOCK_TX_CREATED None (clock env 4)
        in (case Tx_extract (library env) lockTx of
             Inl e \<Rightarrow> \<lparr> saved = [state1], outcome = Inl (TxFailure e) \<rparr>
           | Inr raw \<Rightarrow>
        (let state4 = updateSwapState state3 [Set_btcLockTxHex (hex_encode raw)] (clock env 5)
        in (case broadcastTransaction env (hex_encode raw) of
             Inl e \<Rightarrow>
               \<lparr> saved = [state1, state4,
                           recordSwapError state4 (''Failed to broadcast lock tx: '' @ showError e)
                             (clock env 6)],
                 outcome = Inl e \<rparr>
           | Inr txId \<Rightarrow>
               let state5 = transitionPhase state4 BTC_LOCK_TX_BROADCAST None (clock env 6);
                   state6 = updateSwapState state5
                              [Set_btcLockTxId txId, Set_btcLockTxVout 0] (clock env 7)
               in \<lparr> saved = [state1, state4, state6], outcome = Inr state6 \<rparr>))))))))))"

text \<open>
  \<open>extractSecretFromWitness\<close> and \<open>waitForBtcRedeem\<close>. The loop of the monitor runs while the
  clock is before \<open>maxWaitTime\<close>; \<open>fuel\<close> bounds the number of rounds the model follows, and
  \<open>None\<close> says that the monitor is still polling after that many rounds. \<open>c\<close> counts the
  clock readings, \<open>k\<close> the queries.
\<close>

definition extractSecretFromWitness :: "SpendingTx \<Rightarrow> ExecError + bytes option" where
  "extractSecretFromWitness spendTx =
     (if length (witness spendTx) \<ge> 2
      then (case hex_decode (witness spendTx ! 1) of
              None \<Rightarrow> Inl HexDecodeFailure
            | Some potentialSecret \<Rightarrow>
                if length potentialSecret = 32 then Inr (Some potentialSecret) else Inr None)
      else Inr None)"

definition redeemed :: "World \<Rightarrow> SwapState \<Rightarrow> SpendingTx \<Rightarrow> bytes \<Rightarrow> nat \<Rightarrow> Run" where
  "redeemed env state spendingTx revealedSecret c =
     (let state1 = transitionPhase state BTC_REDEEMED None (clock env c);
          state2 = updateSwapState state1
                     [Set_btcRedeemTxId (sp_txid spendingTx), Set_secret (hex_encode revealedSecret)]
                     (clock env (c + 1));
          state3 = transitionPhase state2 XMR_REDEEMABLE
                     (Some ''Secret revealed - XMR can be claimed'') (clock env (c + 2))
      in \<lparr> saved = [state2, state3], outcome = Inr state3 \<rparr>)"

fun redeemLoop :: "nat \<Rightarrow> World \<Rightarrow> SwapState \<Rightarrow> string \<Rightarrow> int \<Rightarrow> nat \<Rightarrow> nat \<Rightarrow> Run option" where
  "redeemLoop 0 env state txId maxWaitTime c k = None"
| "redeemLoop (Suc fuel) env state txId maxWaitTime c k =
     (if clock env c < maxWaitTime
      then (case findSpendingTransaction env k txId 0 of
              Inl e \<Rightarrow> Some \<lparr> saved = [], outcome = Inl e \<rparr>
            | Inr None \<Rightarrow> redeemLoop fuel env state txId maxWaitTime (c + 1) (k + 1)
            | Inr (Some spendingTx) \<Rightarrow>
                (case extractSecretFromWitness spendingTx of
                   Inl e \<Rightarrow> Some \<lparr> saved = [], outcome = Inl e \<rparr>
                 | Inr None \<Rightarrow> redeemLoop fuel env state txId maxWaitTime (c + 1) (k + 1)
                 | Inr (Some revealedSecret) \<Rightarrow>
                     Some (redeemed env state spendingTx revealedSecret (c + 1))))
      else Some \<lparr> saved = [], outcome = Inl RedeemTimeout \<rparr>)"

definition waitForBtcRedeem :: "nat \<Rightarrow> World \<Rightarrow> SwapState \<Rightarrow> nat \<Rightarrow> Run option" where
  "waitForBtcRedeem fuel env state c =
     (case btcLockTxId state of
        None \<Rightarrow> Some \<lparr> saved = [], outcome = Inl NoLockTxId \<rparr>
      | Some txId \<Rightarrow>
          if txId = [] then Some \<lparr> saved = [], outcome = Inl NoLockTxId \<rparr>
          else redeemLoop fuel env state txId (clock env c + 3600000) (c + 1) 0)"

text \<open>
  \<open>refundSwap\<close>. \<open>loaded\<close> is what \<open>loadSwapState(swapId)\<close> returned. The result is the
  states handed to \<open>saveSwapState\<close> and the transaction id returned, or what was thrown.
\<close>

record RefundRun =
  refund_saved :: "SwapState list"
  refund_outcome :: "ExecError + string"

definition refundSwap :: "World \<Rightarrow> SwapState option \<Rightarrow> RefundRun" where
  "refundSwap env loaded =
     (case loaded of
        None \<Rightarrow> \<lparr> refund_saved = [], refund_outcome = Inl SwapNotFound \<rparr>
      | Some state \<Rightarrow>
     (case currentBlockHeight env of
        Inl e \<Rightarrow> \<lparr> refund_saved = [], refund_outcome = Inl e \<rparr>
      | Inr currentHeight \<Rightarrow>
     (if \<not> (case currentHeight of None \<Rightarrow> False | Some h \<Rightarrow> canRefund state h)
      then \<lparr> refund_saved = [], refund_outcome = Inl CannotRefund \<rparr>
      else
     (case (btcLockTxId state, htlcScript state) of
        (Some lockTxId, Some scriptHex) \<Rightarrow>
          (if lockTxId = [] \<or> scriptHex = []
           then \<lparr> refund_saved = [], refund_outcome = Inl MissingLockData \<rparr>
           else
          (case hex_decode scriptHex of
             None \<Rightarrow> \<lparr> refund_saved = [], refund_outcome = Inl HexDecodeFailure \<rparr>
           | Some decoded \<Rightarrow>
          (case signRefundTransaction env
                  \<lparr> rf_lockTxId = lockTxId,
                    rf_lockTxVout = btcLockTxVout state,
                    rf_lockTxAmount = btcAmount state,
                    rf_htlcScript = decoded,
                    rf_refundPrivateKey = refundPrivateKey (keysAtIndex env 0 0),
                    rf_destinationAddress = refundAddress (keysAtIndex env 0 0),
                    rf_locktime = btcCancelTimelock state,
                    rf_feeRate = Num 10 \<rparr> of
             Inl e \<Rightarrow> \<lparr> refund_saved = [], refund_outcome = Inl e \<rparr>
           | Inr refundTxHex \<Rightarrow>
          (case broadcastTransaction env refundTxHex of
             Inl e \<Rightarrow> \<lparr> refund_saved = [], refund_outcome = Inl e \<rparr>
           | Inr txId \<Rightarrow>
               let updated1 = transitionPhase state BTC_REFUNDED None (clock env 0);
                   updated2 = updateSwapState updated1 [Set_btcRefundTxId txId] (clock env 1);
                   updated3 = transitionPhase updated2 REFUNDED None (clock env 2)
               in \<lparr> refund_saved = [updated3], refund_outcome = Inr txId \<rparr>))))
      | _ \<Rightarrow> \<lparr> refund_saved = [], refund_outcome = Inl MissingLockData \<rparr>))))"

section \<open>Provider quotes (lib/p2p/discovery.ts and lib/swapProvider.ts)\<close>

record AsbQuoteResponse =
  price :: int
  min_quantity :: int
  max_quantity :: int
  xmr_amount :: int

record DiscoveredProvider =
  dp_peerId :: string
  multiaddrs :: "string list"
  namespace :: string
  quote :: "AsbQuoteResponse option"
  lastSeen :: int
  isOnline :: bool

text \<open>An \<open>Error\<close> with its message.\<close>

datatype QuoteError = Error string

text \<open>
  \<open>ProviderDiscovery.getQuote\<close>: first the body of its \<open>try\<close> block, where a \<open>throw\<close> is
  an \<open>Inl\<close>; then the whole method, whose \<open>catch\<close> logs the error and returns \<open>null\<close>.
\<close>

definition getQuote_try :: "DiscoveredProvider \<Rightarrow> int \<Rightarrow> QuoteError + AsbQuoteResponse option" where
  "getQuote_try provider amt =
     (case quote provider of
        None \<Rightarrow> Inr None
      | Some q \<Rightarrow>
          if amt < min_quantity q
          then Inl (Error (''Amount below minimum: '' @ bigintToString (min_quantity q) @ '' satoshis''))
          else if amt > max_quantity q
          then Inl (Error (''Amount above maximum: '' @ bigintToString (max_quantity q) @ '' satoshis''))
          else Inr (Some q))"

definition ProviderDiscovery_getQuote ::
  "DiscoveredProvider \<Rightarrow> int \<Rightarrow> QuoteError + AsbQuoteResponse option" where
  "ProviderDiscovery_getQuote provider amt =
     (case getQuote_try provider amt of
        Inl error \<Rightarrow> Inr None
      | Inr result \<Rightarrow> Inr result)"

text \<open>
  \<open>SwapProviderService.getQuote\<close> works on decimal strings through floating-point numbers.
  The runtime's \<open>parseFloat\<close>, \<open>toFixed\<close>, division and multiplication are parameters;
  \<open><\<close> and \<open>>\<close> on numbers are exact and are defined here (a comparison with \<open>NaN\<close>
  is false).
\<close>

record FloatOps =
  parseFloat :: "string \<Rightarrow> number"
  toFixed :: "number \<Rightarrow> nat \<Rightarrow> string"
  fdivide :: "number \<Rightarrow> number \<Rightarrow> number"
  ftimes :: "number \<Rightarrow> number \<Rightarrow> number"

fun numLess :: "number \<Rightarrow> number \<Rightarrow> bool" where
  "numLess NaN y = False"
| "numLess x NaN = False"
| "numLess (Num a) (Num b) = (a < b)"
| "numLess (Num a) PosInfinity = True"
| "numLess (Num a) NegInfinity = False"
| "numLess PosInfinity y = False"
| "numLess NegInfinity NegInfinity = False"
| "numLess NegInfinity y = True"

definition numGreater :: "number \<Rightarrow> number \<Rightarrow> bool" where
  "numGreater x y = numLess y x"

record SwapProvider =
  sp_peerId :: string
  multiaddr :: string
  testnet :: bool
  minBtc :: string
  maxBtc :: string
  sp_price :: string
  uptime :: number
  age :: string

record ProviderQuote =
  pq_provider :: SwapProvider
  pq_btcAmount :: string
  pq_xmrAmount :: string
  pq_fee :: string
  pq_rate :: string
  pq_expiresAt :: int

definition SwapProviderService_getQuote ::
  "FloatOps \<Rightarrow> SwapProvider \<Rightarrow> string \<Rightarrow> int \<Rightarrow> QuoteError + ProviderQuote" where
  "SwapProviderService_getQuote fl provider amountText now =
     (let btc = parseFloat fl amountText;
          rate = parseFloat fl (sp_price provider)
      in if numLess btc (parseFloat fl (minBtc provider))
         then Inl (Error (''Amount below minimum: '' @ minBtc provider @ '' BTC''))
         else if numGreater btc (parseFloat fl (maxBtc provider))
         then Inl (Error (''Amount above maximum: '' @ maxBtc provider @ '' BTC''))
         else Inr \<lparr> pq_provider = provider,
                    pq_btcAmount = toFixed fl btc 8,
                    pq_xmrAmount = toFixed fl (fdivide fl btc rate) 12,
                    pq_fee = toFixed fl (ftimes fl btc (Num (1152921504606847 / 1152921504606846976))) 8,
                    pq_rate = toFixed fl rate 8,
                    pq_expiresAt = now + 5 * 60 * 1000 \<rparr>)"

section \<open>Persistence of a swap state (serializeSwapState, deserializeSwapState)\<close>

text \<open>
  JavaScript values, as far as a swap state is made of them, and JSON texts. A JSON text is
  kept as the tree it denotes: \<open>JSON.stringify\<close> writes the tree out and \<open>JSON.parse\<close> reads
  the same tree back, finite numbers included. An object is the list of its keys with
  their values, no key twice.
\<close>

datatype jsval =
    JUndefined
  | JNull
  | JBool bool
  | JNumber number
  | JString string
  | JBigInt int
  | JArray "jsval list"
  | JObject "(string \<times> jsval) list"

datatype json =
    JsonNull
  | JsonBool bool
  | JsonNumber rat
  | JsonString string
  | JsonArray "json list"
  | JsonObject "(string \<times> json) list"

datatype JsonError = TypeError | SyntaxError

text \<open>The replacer of \<open>serializeSwapState\<close>.\<close>

definition replacer :: "jsval \<Rightarrow> jsval" where
  "replacer v = (case v of JBigInt n \<Rightarrow> JString (''bigint:'' @ bigintToString n) | _ \<Rightarrow> v)"

text \<open>
  \<open>JSON.stringify(state, replacer)\<close>: every value goes through the replacer first. A value
  that is then \<open>undefined\<close> is left out of an object and written as \<open>null\<close> in an array; a
  number that is not finite is written as \<open>null\<close>; a \<open>bigint\<close> that is still there is a
  \<open>TypeError\<close>. The result \<open>None\<close> is \<open>undefined\<close>.
\<close>

function serializeProperty :: "jsval \<Rightarrow> JsonError + json option"
  and serializeElements :: "jsval list \<Rightarrow> JsonError + json list"
  and serializeMembers :: "(string \<times> jsval) list \<Rightarrow> JsonError + (string \<times> json) list"
where
  "serializeProperty v =
     (case replacer v of
        JUndefined \<Rightarrow> Inr None
      | JNull \<Rightarrow> Inr (Some JsonNull)
      | JBool b \<Rightarrow> Inr (Some (JsonBool b))
      | JNumber x \<Rightarrow> (case x of Num r \<Rightarrow> Inr (Some (JsonNumber r)) | _ \<Rightarrow> Inr (Some JsonNull))
      | JString s \<Rightarrow> Inr (Some (JsonString s))
      | JBigInt n \<Rightarrow> Inl TypeError
      | JArray xs \<Rightarrow>
          (case serializeElements xs of Inl e \<Rightarrow> Inl e | Inr js \<Rightarrow> Inr (Some (JsonArray js)))
      | JObject kvs \<Rightarrow>
          (case serializeMembers kvs of Inl e \<Rightarrow> Inl e | Inr ms \<Rightarrow> Inr (Some (JsonObject ms))))"
| "serializeElements [] = Inr []"
| "serializeElements (x # xs) =
     (case serializeProperty x of
        Inl e \<Rightarrow> Inl e
      | Inr j \<Rightarrow>
          (case serializeElements xs of
             Inl e \<Rightarrow> Inl e
           | Inr js \<Rightarrow> Inr ((case j of None \<Rightarrow> JsonNull | Some y \<Rightarrow> y) # js)))"
| "serializeMembers [] = Inr []"
| "serializeMembers (kv # kvs) =
     (case serializeProperty (snd kv) of
        Inl e \<Rightarrow> Inl e
      | Inr j \<Rightarrow>
          (case serializeMembers kvs of
             Inl e \<Rightarrow> Inl e
           | Inr ms \<Rightarrow> Inr ((case j of None \<Rightarrow> [] | Some y \<Rightarrow> [(fst kv, y)]) @ ms)))"
  by pat_completeness auto
termination
proof -
  have arr: "v = JArray xs" if "replacer v = JArray xs" for v xs
    using that by (cases v) (simp_all add: replacer_def)
  have obj: "v = JObject kvs" if "replacer v = JObject kvs" for v kvs
    using that by (cases v) (simp_all add: replacer_def)
  show ?thesis
    by (relation "measure (\<lambda>a. case a of
          Inl v \<Rightarrow> 2 * size v + 1
        | Inr (Inl xs) \<Rightarrow> 2 * size_list size xs + 2
        | Inr (Inr kvs) \<Rightarrow> 2 * size_list (\<lambda>kv. Suc (size (snd kv))) kvs + 2)")
      (auto dest!: arr obj simp: size_prod_simp)
qed

declare serializeProperty.simps [simp del]

definition serializeSwapState :: "jsval \<Rightarrow> JsonError + json option" where
  "serializeSwapState state = serializeProperty state"

text \<open>
  \<open>BigInt(text)\<close>: white space and line terminators around the text are dropped (of the
  code units below 256 these are tab, line feed, vertical tab, form feed, carriage return,
  space and the no-break space \<open>U+00A0\<close>); the empty text is 0; the text is a decimal
  numeral with an optional sign, or a numeral in base 16, 8 or 2 after \<open>0x\<close>, \<open>0o\<close> or
  \<open>0b\<close>; anything else is a \<open>SyntaxError\<close> (\<open>None\<close>).
\<close>

definition digitValue :: "char \<Rightarrow> nat option" where
  "digitValue c =
     (let n = (of_char c :: nat)
      in if 48 \<le> n \<and> n \<le> 57 then Some (n - 48)
         else if 97 \<le> n \<and> n \<le> 122 then Some (n - 87)
         else if 65 \<le> n \<and> n \<le> 90 then Some (n - 55)
         else None)"

fun parseNat :: "nat \<Rightarrow> string \<Rightarrow> nat \<Rightarrow> nat option" where
  "parseNat b [] acc = Some acc"
| "parseNat b (c # cs) acc =
     (case digitValue c of
        None \<Rightarrow> None
      | Some d \<Rightarrow> if d < b then parseNat b cs (acc * b + d) else None)"

definition parseDigits :: "nat \<Rightarrow> string \<Rightarrow> nat option" where
  "parseDigits b cs = (if cs = [] then None else parseNat b cs 0)"

definition isBlank :: "char \<Rightarrow> bool" where
  "isBlank c = ((of_char c :: nat) \<in> set [9, 10, 11, 12, 13, 32, 160])"

definition trimBlanks :: "string \<Rightarrow> string" where
  "trimBlanks s = rev (dropWhile isBlank (rev (dropWhile isBlank s)))"

definition BigInt_of_string :: "string \<Rightarrow> int option" where
  "BigInt_of_string text =
     (let s = trimBlanks text
      in if s = [] then Some 0
         else if take 2 s = ''0x'' \<or> take 2 s = ''0X'' then map_option int (parseDigits 16 (drop 2 s))
         else if take 2 s = ''0o'' \<or> take 2 s = ''0O'' then map_option int (parseDigits 8 (drop 2 s))
         else if take 2 s = ''0b'' \<or> take 2 s = ''0B'' then map_option int (parseDigits 2 (drop 2 s))
         else if take 1 s = ''-'' then map_option (\<lambda>n. - int n) (parseDigits 10 (drop 1 s))
         else if take 1 s = ''+'' then map_option int (parseDigits 10 (drop 1 s))
         else map_option int (parseDigits 10 s))"

text \<open>The reviver of \<open>deserializeSwapState\<close>.\<close>

definition startsWith :: "string \<Rightarrow> string \<Rightarrow> bool" where
  "startsWith s p = (take (length p) s = p)"

definition reviver :: "jsval \<Rightarrow> JsonError + jsval" where
  "reviver v =
     (case v of
        JString s \<Rightarrow>
          if startsWith s ''bigint:''
          then (case BigInt_of_string (drop 7 s) of
                  None \<Rightarrow> Inl SyntaxError
                | Some n \<Rightarrow> Inr (JBigInt n))
          else Inr v
      | _ \<Rightarrow> Inr v)"

text \<open>
  \<open>JSON.parse(serialized, reviver)\<close>: the members of a value are revived first, from left to
  right, then the value itself; a member revived to \<open>undefined\<close> is deleted.
\<close>

fun internalize :: "json \<Rightarrow> JsonError + jsval"
  and internalizeElements :: "json list \<Rightarrow> JsonError + jsval list"
  and internalizeMembers :: "(string \<times> json) list \<Rightarrow> JsonError + (string \<times> jsval) list"
where
  "internalize JsonNull = reviver JNull"
| "internalize (JsonBool b) = reviver (JBool b)"
| "internalize (JsonNumber r) = reviver (JNumber (Num r))"
| "internalize (JsonString s) = reviver (JString s)"
| "internalize (JsonArray js) =
     (case internalizeElements js of Inl e \<Rightarrow> Inl e | Inr vs \<Rightarrow> reviver (JArray vs))"
| "internalize (JsonObject ms) =
     (case internalizeMembers ms of Inl e \<Rightarrow> Inl e | Inr kvs \<Rightarrow> reviver (JObject kvs))"
| "internalizeElements [] = Inr []"
| "internalizeElements (j # js) =
     (case internalize j of
        Inl e \<Rightarrow> Inl e
      | Inr v \<Rightarrow> (case internalizeElements js of Inl e \<Rightarrow> Inl e | Inr vs \<Rightarrow> Inr (v # vs)))"
| "internalizeMembers [] = Inr []"
| "internalizeMembers (m # ms) =
     (case internalize (snd m) of
        Inl e \<Rightarrow> Inl e
      | Inr v \<Rightarrow>
          (case internalizeMembers ms of
             Inl e \<Rightarrow> Inl e
           | Inr kvs \<Rightarrow> Inr ((if v = JUndefined then [] else [(fst m, v)]) @ kvs)))"

definition deserializeSwapState :: "json \<Rightarrow> JsonError + jsval" where
  "deserializeSwapState serialized = internalize serialized"

text \<open>
  A swap state as the object it is at run time. A key whose value is \<open>undefined\<close> reads the
  same as a key that is absent, and \<open>JSON.stringify\<close> writes neither, so the object lists
  the optional keys only when they hold a value.
\<close>

fun phaseString :: "SwapPhase \<Rightarrow> string" where
  "phaseString QUOTE_REQUESTED = ''quote_requested''"
| "phaseString QUOTE_RECEIVED = ''quote_received''"
| "phaseString SWAP_INITIATED = ''swap_initiated''"
| "phaseString BTC_LOCK_TX_CREATED = ''btc_lock_tx_created''"
| "phaseString BTC_LOCK_TX_BROADCAST = ''btc_lock_tx_broadcast''"
| "phaseString BTC_LOCK_TX_CONFIRMED = ''btc_lock_tx_confirmed''"
| "phaseString XMR_LOCK_TX_SEEN = ''xmr_lock_tx_seen''"
| "phaseString XMR_LOCK_TX_CONFIRMED = ''xmr_lock_tx_confirmed''"
| "phaseString ENCRYPTED_SIG_SENT = ''encrypted_sig_sent''"
| "phaseString BTC_REDEEMED = ''btc_redeemed''"
| "phaseString XMR_REDEEMABLE = ''xmr_redeemable''"
| "phaseString XMR_REDEEMED = ''xmr_redeemed''"
| "phaseString REFUND_TIMELOCK_EXPIRED = ''refund_timelock_expired''"
| "phaseString BTC_REFUNDED = ''btc_refunded''"
| "phaseString COMPLETED = ''completed''"
| "phaseString REFUNDED = ''refunded''"
| "phaseString FAILED = ''failed''"

definition integer :: "int \<Rightarrow> jsval" where
  "integer n = JNumber (Num (of_int n))"

definition optional :: "string \<Rightarrow> ('a \<Rightarrow> jsval) \<Rightarrow> 'a option \<Rightarrow> (string \<times> jsval) list" where
  "optional key f v = (case v of None \<Rightarrow> [] | Some x \<Rightarrow> [(key, f x)])"

definition entryToJs :: "PhaseEntry \<Rightarrow> jsval" where
  "entryToJs e =
     JObject ([(''phase'', JString (phaseString (entryPhase e))),
               (''timestamp'', integer (timestamp e))] @
              optional ''details'' JString (details e))"

definition stateToJs :: "SwapState \<Rightarrow> jsval" where
  "stateToJs s =
     JObject (
       [(''id'', JString (id s)),
        (''peerId'', JString (peerId s)),
        (''createdAt'', integer (createdAt s)),
        (''updatedAt'', integer (updatedAt s)),
        (''phase'', JString (phaseString (phase s))),
        (''phaseHistory'', JArray (map entryToJs (phaseHistory s))),
        (''btcAmount'', JBigInt (btcAmount s)),
        (''xmrAmount'', JBigInt (xmrAmount s)),
        (''exchangeRate'', JNumber (exchangeRate s)),
        (''minBtcLockConfirmations'', integer (minBtcLockConfirmations s)),
        (''minXmrLockConfirmations'', integer (minXmrLockConfirmations s)),
        (''btcCancelTimelock'', integer (btcCancelTimelock s)),
        (''btcPunishTimelock'', integer (btcPunishTimelock s)),
        (''xmrUnlockHeight'', integer (xmrUnlockHeight s)),
        (''userBtcDepositPubkey'', JString (userBtcDepositPubkey s)),
        (''userBtcRefundPubkey'', JString (userBtcRefundPubkey s)),
        (''asbBtcRedeemPubkey'', JString (asbBtcRedeemPubkey s)),
        (''userXmrAddress'', JString (userXmrAddress s))] @
       optional ''asbXmrViewKey'' JString (asbXmrViewKey s) @
       [(''secretHash'', JString (secretHash s))] @
       optional ''secret'' JString (secret s) @
       optional ''btcLockTxId'' JString (btcLockTxId s) @
       optional ''btcLockTxVout'' integer (btcLockTxVout s) @
       optional ''btcLockTxHex'' JString (btcLockTxHex s) @
       optional ''btcRedeemTxId'' JString (btcRedeemTxId s) @
       optional ''btcRefundTxId'' JString (btcRefundTxId s) @
       optional ''htlcScript'' JString (htlcScript s) @
       optional ''xmrLockTxId'' JString (xmrLockTxId s) @
       optional ''xmrRedeemTxId'' JString (xmrRedeemTxId s) @
       optional ''encryptedSignature'' JString (encryptedSignature s) @
       optional ''lastError'' JString (lastError s) @
       [(''errorCount'', integer (errorCount s)),
        (''network'', JString (case network s of Mainnet \<Rightarrow> ''mainnet'' | Testnet \<Rightarrow> ''testnet''))])"

text \<open>
  Saving and loading again: \<open>deserializeSwapState(serializeSwapState(state))\<close>. Had
  \<open>JSON.stringify\<close> returned \<open>undefined\<close>, \<open>JSON.parse\<close> would raise a \<open>SyntaxError\<close>.
\<close>

definition roundTrip :: "jsval \<Rightarrow> JsonError + jsval" where
  "roundTrip state =
     (case serializeSwapState state of
        Inl e \<Rightarrow> Inl e
      | Inr None \<Rightarrow> Inl SyntaxError
      | Inr (Some serialized) \<Rightarrow> deserializeSwapState serialized)"

section \<open>Values used in the statements and in the concrete instances\<close>

text \<open>
  The output that pays \<open>amount\<close> to the HTLC address, the output that pays what is left
  after \<open>amount\<close> and \<open>fee\<close> to the change address, and the input that \<open>tx.addInput\<close> adds
  for an unspent output. What a transaction spends is the sum of the amounts of the outputs
  its inputs refer to; what it pays out is the sum of its outputs; the difference is the fee
  it leaves to the miner.
\<close>

definition htlcOutput :: "Library \<Rightarrow> LockTxParams \<Rightarrow> TxOutput" where
  "htlcOutput l params =
     \<lparr> out_address = htlcScriptToAddress l (lock_htlcScript params) (lock_network params),
       out_amount = amount params \<rparr>"

definition changeOutput :: "LockTxParams \<Rightarrow> int \<Rightarrow> TxOutput" where
  "changeOutput params fee =
     \<lparr> out_address = changeAddress params,
       out_amount = totalInput (inputs params) - amount params - fee \<rparr>"

definition txInputOf :: "Utxo \<Rightarrow> TxInput" where
  "txInputOf u =
     \<lparr> in_txid = txid u, in_index = vout u,
       witnessUtxo_script = script u, witnessUtxo_amount = utxoValue u, finalized = False \<rparr>"

definition inputSum :: "Transaction \<Rightarrow> int" where
  "inputSum tx = sum_list (map witnessUtxo_amount (tx_inputs tx))"

definition outputSum :: "Transaction \<Rightarrow> int" where
  "outputSum tx = sum_list (map out_amount (tx_outputs tx))"

definition leftAsFee :: "Transaction \<Rightarrow> int" where
  "leftAsFee tx = inputSum tx - outputSum tx"

text \<open>The bytes \<open>Script.encode\<close> emits for one byte array: length prefix, then the data.\<close>

definition pushOf :: "bytes \<Rightarrow> bytes" where
  "pushOf d = (case pushPrefix (length d) of Inl e \<Rightarrow> [] | Inr pre \<Rightarrow> pre @ d)"

text \<open>An update that holds the key \<open>phase\<close>.\<close>

fun setsPhase :: "FieldUpdate \<Rightarrow> bool" where
  "setsPhase (Set_phase v) = True"
| "setsPhase u = False"

text \<open>
  A library to put in the place of the hashing and signing libraries where a concrete
  instance needs one; every theorem below holds for any library. Its digest is 32 copies of
  the length, its address is a prefix and the hex form of the hash, it accepts an input with
  a txid of 64 characters, an output index of 32 bits and an amount of 64 bits, an output
  with an address and an amount that is not negative, and it extracts a finalized
  transaction that has an output and does not pay out more than it spends.
\<close>

definition sampleDigest :: "bytes \<Rightarrow> bytes" where
  "sampleDigest bs = replicate 32 (of_nat (length bs))"

definition sampleLibrary :: Library where
  "sampleLibrary =
     \<lparr> sha256 = sampleDigest,
       encodeWsh = (\<lambda>net h. (case net of MAINNET \<Rightarrow> ''bc1q'' | TESTNET \<Rightarrow> ''tb1q'') @ hex_encode h),
       acceptsInput = (\<lambda>u. length (txid u) = 64 \<and> 0 \<le> vout u \<and> vout u < 2 ^ 32 \<and>
                           0 \<le> utxoValue u \<and> utxoValue u < 2 ^ 64),
       acceptsOutput = (\<lambda>a v net. a \<noteq> [] \<and> 0 \<le> v \<and> v < 2 ^ 63),
       extractFinal = (\<lambda>tx. if tx_outputs tx = [] \<or> inputSum tx < outputSum tx then None
                            else Some [0x02, 0x00, 0x00, 0x00, of_nat (length (tx_inputs tx)),
                                       of_nat (length (tx_outputs tx))]) \<rparr>"

definition sampleTxId :: string where
  "sampleTxId = ''7a1c3e5b9d2f4a6c8e0b1d3f5a7c9e2b4d6f8a0c1e3b5d7f9a2c4e6b8d0f1a3c''"

definition sampleSpendTxId :: string where
  "sampleSpendTxId = ''c4e1a7b2d9f3058e6a1b4c7d0e3f6a9b2c5d8e1f4a7b0c3d6e9f2a5b8c1d4e7f''"

definition sampleXmrAddress :: string where
  "sampleXmrAddress = ''44AFFq5kSiGBoZ4NMDwYtN18obc8AemS33DBLWs3H7otXft3XjrpDtQGv7SqSsaBYBb98uNbr2VBBEt7f2wfn3RVGQBEP3A''"

definition sampleHashA :: string where
  "sampleHashA = ''5e5e5e5e5e5e5e5e5e5e5e5e5e5e5e5e5e5e5e5e5e5e5e5e5e5e5e5e5e5e5e5e''"

definition sampleHashB :: string where
  "sampleHashB = ''c3c3c3c3c3c3c3c3c3c3c3c3c3c3c3c3c3c3c3c3c3c3c3c3c3c3c3c3c3c3c3c3''"

definition sampleState :: SwapState where
  "sampleState =
     \<lparr> id = ''swap_lq2w3e4r_0a1b2c3d'',
       peerId = ''12D3KooWCdMKjesXMJz1SiZ7HgotrxuqhQJbP5sgBm2BwP1cqThi'', createdAt = 1000, updatedAt = 1000,
       phase = SWAP_INITIATED,
       phaseHistory = [\<lparr> entryPhase = SWAP_INITIATED, timestamp = 1000, details = None \<rparr>],
       btcAmount = 100000, xmrAmount = 16000000000000, exchangeRate = Num 160000000,
       minBtcLockConfirmations = 2, minXmrLockConfirmations = 10,
       btcCancelTimelock = 800072, btcPunishTimelock = 800144, xmrUnlockHeight = 0,
       userBtcDepositPubkey = ''021a1a1a1a1a1a1a1a1a1a1a1a1a1a1a1a1a1a1a1a1a1a1a1a1a1a1a1a1a1a1a1a'',
       userBtcRefundPubkey = ''032222222222222222222222222222222222222222222222222222222222222222'',
       asbBtcRedeemPubkey = ''021111111111111111111111111111111111111111111111111111111111111111'',
       userXmrAddress = sampleXmrAddress,
       asbXmrViewKey = None,
       secretHash = sampleHashA,
       secret = None,
       btcLockTxId = None, btcLockTxVout = None, btcLockTxHex = None,
       btcRedeemTxId = None, btcRefundTxId = None, htlcScript = None,
       xmrLockTxId = None, xmrRedeemTxId = None, encryptedSignature = None,
       lastError = None, errorCount = 0, network = Mainnet \<rparr>"

definition sampleUtxo :: "int \<Rightarrow> Utxo" where
  "sampleUtxo v = \<lparr> txid = sampleTxId, vout = 1, utxoValue = v,
                   script = 0x00 # 0x14 # replicate 20 0x33 \<rparr>"

definition sampleLock :: "int list \<Rightarrow> int \<Rightarrow> LockTxParams" where
  "sampleLock values amt =
     \<lparr> inputs = map sampleUtxo values, lock_htlcScript = [0x63, 0x68, 0xac], amount = amt,
       changeAddress = ''bc1qw508d6qejxtdg4y5r3zarvary0c5xw7kv8f3t4'', feeRate = Num 10, lock_network = MAINNET \<rparr>"

definition sampleHtlc :: "nat \<Rightarrow> HtlcParams" where
  "sampleHtlc hashLen =
     \<lparr> p_secretHash = replicate hashLen 0xab, redeemPubkey = 0x02 # replicate 32 0x11,
       refundPubkey = 0x03 # replicate 32 0x22, locktime = 800072 \<rparr>"

text \<open>The request \<open>executeSwap\<close> sends to the peer, and the parameters it hands to
  \<open>createHtlcScript\<close> and to \<open>createLockTransaction\<close>.\<close>

definition swapRequestOf :: "World \<Rightarrow> SwapQuote \<Rightarrow> string \<Rightarrow> AsbSwapRequest" where
  "swapRequestOf env q xmrDestinationAddress =
     \<lparr> btc_amount = sq_btcAmount q,
       xmr_address = xmrDestinationAddress,
       btc_refund_pubkey = refundPublicKey (nextDepositKeys env),
       secret_hash = hashSecret (library env) (randomSecret env) \<rparr>"

definition htlcParamsOf :: "World \<Rightarrow> AsbSwapResponse \<Rightarrow> HtlcParams" where
  "htlcParamsOf env swapResponse =
     \<lparr> p_secretHash = hashSecret (library env) (randomSecret env),
       redeemPubkey = asb_btc_redeem_pubkey swapResponse,
       refundPubkey = refundPublicKey (nextDepositKeys env),
       locktime = cancel_timelock swapResponse \<rparr>"

definition networkOf :: "World \<Rightarrow> Network" where
  "networkOf env = (if isMainnet env then MAINNET else TESTNET)"

definition lockParamsOf :: "World \<Rightarrow> SwapQuote \<Rightarrow> bytes \<Rightarrow> Utxo list \<Rightarrow> LockTxParams" where
  "lockParamsOf env q htlc utxos =
     \<lparr> inputs = utxos,
       lock_htlcScript = htlc,
       amount = sq_btcAmount q,
       changeAddress = depositAddress (nextDepositKeys env),
       feeRate = Num 10,
       lock_network = networkOf env \<rparr>"

text \<open>
  A world for concrete runs: the peer accepts, the broadcast succeeds, every query of the
  monitor finds a spend of the lock output whose second witness element has \<open>n\<close> bytes
  \<open>0x11\<close>, the chain is at height 800100, and the wallet signs a refund of an output whose
  index it is given. The secret generated for a swap is 32 bytes \<open>0x5a\<close>.
\<close>

definition sampleRefundTxId :: string where
  "sampleRefundTxId = ''e9d0c1b2a3f4e5d6c7b8a9f0e1d2c3b4a5f6e7d8c9b0a1f2e3d4c5b6a7f8e9d0''"

definition sampleKeys :: SwapKeys where
  "sampleKeys =
     \<lparr> depositPrivateKey = replicate 32 0x01, depositPublicKey = 0x02 # replicate 32 0x0a,
       depositAddress = ''bc1qw508d6qejxtdg4y5r3zarvary0c5xw7kv8f3t4'', refundPrivateKey = replicate 32 0x02,
       refundPublicKey = 0x03 # replicate 32 0x22, refundAddress = ''bc1qrp33g0q5c5txsp9arysrx4k6zdkfs4nce4xj0gdcccefvpysxf3qccfmv3'' \<rparr>"

definition sampleResponse :: AsbSwapResponse where
  "sampleResponse =
     \<lparr> swap_id = ''s1'', asb_btc_redeem_pubkey = 0x02 # replicate 32 0x11,
       cancel_timelock = 800072, punish_timelock = 800144,
       min_btc_lock_confirmations = 2, min_xmr_lock_confirmations = 10,
       xmr_lock_address = None \<rparr>"

definition sampleSpend :: "nat \<Rightarrow> SpendingTx" where
  "sampleSpend n =
     \<lparr> sp_txid = sampleSpendTxId, witness = [''3044'', concat (replicate n ''11''), ''01'', ''63''] \<rparr>"

definition sampleWorld :: "nat \<Rightarrow> World" where
  "sampleWorld n =
     \<lparr> isMainnet = True,
       isValidMoneroAddress = (\<lambda>a net. True),
       library = sampleLibrary,
       randomSecret = replicate 32 0x5a,
       randomIdBytes = replicate 8 0x01,
       nextDepositKeys = sampleKeys,
       initiateSwap = (\<lambda>peer req. Inr sampleResponse),
       broadcastTransaction = (\<lambda>raw. if take 14 raw = ''02000000000101'' then Inr sampleRefundTxId
                                   else Inr sampleTxId),
       clock = (\<lambda>i. 1000 + int i),
       findSpendingTransaction = (\<lambda>k t v. Inr (Some (sampleSpend n))),
       currentBlockHeight = Inr (Some 800100),
       keysAtIndex = (\<lambda>i j. sampleKeys),
       signRefundTransaction = (\<lambda>p. case rf_lockTxVout p of
           None \<Rightarrow> Inl (WalletFailure ''no output index'')
         | Some v \<Rightarrow> Inr (''02000000000101'' @ rf_lockTxId p @ hex_encode [of_int v])) \<rparr>"

text \<open>A quote for 100000 satoshis, and one for nothing, which a transaction without inputs
  can pay.\<close>

definition sampleQuote :: SwapQuote where
  "sampleQuote =
     \<lparr> sq_peerId = ''12D3KooWCdMKjesXMJz1SiZ7HgotrxuqhQJbP5sgBm2BwP1cqThi'', sq_btcAmount = 100000, sq_xmrAmount = 16000000000000,
       sq_exchangeRate = Num 160000000, sq_maxBtc = 10000000, sq_minBtc = 10000,
       sq_expiresAt = 301000 \<rparr>"

definition emptyQuote :: SwapQuote where
  "emptyQuote = sampleQuote\<lparr> sq_btcAmount := 0, sq_xmrAmount := 0 \<rparr>"

text \<open>The \<open>j\<close>-th answer of the chain explorer shows no spend, or a spend that is not
  taken for a redemption.\<close>

definition unrecognised :: "World \<Rightarrow> string \<Rightarrow> nat \<Rightarrow> bool" where
  "unrecognised env txId j =
     (case findSpendingTransaction env j txId 0 of
        Inl e \<Rightarrow> False
      | Inr None \<Rightarrow> True
      | Inr (Some tx) \<Rightarrow> extractSecretFromWitness tx = Inr None)"

definition sampleProvider :: DiscoveredProvider where
  "sampleProvider =
     \<lparr> dp_peerId = ''12D3KooWCdMKjesXMJz1SiZ7HgotrxuqhQJbP5sgBm2BwP1cqThi'', multiaddrs = [''/onion3/abc:9939''],
       namespace = ''/xmr-btc-swap/0.1.0/discover'',
       quote = Some \<lparr> price = 160000000, min_quantity = 10000, max_quantity = 10000000,
                      xmr_amount = 0 \<rparr>,
       lastSeen = 0, isOnline = True \<rparr>"

text \<open>
  Floating-point operations for concrete instances: decimal strings are read by a table
  that knows the three amounts used below.
\<close>

definition sampleFloat :: FloatOps where
  "sampleFloat =
     \<lparr> parseFloat = (\<lambda>s. if s = ''0.0001'' then Num (1 / 10000)
                          else if s = ''0.1'' then Num (1 / 10)
                          else if s = ''0.00005'' then Num (1 / 20000)
                          else if s = ''0.5'' then Num (1 / 2)
                          else NaN),
       toFixed = (\<lambda>x digits. ''''),
       fdivide = (\<lambda>x y. NaN),
       ftimes = (\<lambda>x y. NaN) \<rparr>"

definition sampleSwapProvider :: SwapProvider where
  "sampleSwapProvider =
     \<lparr> sp_peerId = ''12D3KooWCdMKjesXMJz1SiZ7HgotrxuqhQJbP5sgBm2BwP1cqThi'', multiaddr = ''/onion3/abc:9939'', testnet = False,
       minBtc = ''0.0001'', maxBtc = ''0.1'', sp_price = ''0.0065'', uptime = Num (199 / 2),
       age = ''1 year'' \<rparr>"

text \<open>
  \<open>loadsAs v w\<close>: the value \<open>v\<close> is written by \<open>serializeSwapState\<close> and read back by
  \<open>deserializeSwapState\<close> as \<open>w\<close>. A string is untagged when it does not start with the
  marker of a serialized \<open>bigint\<close>; a state is persistable when its \<open>exchangeRate\<close> is finite
  and all its strings are untagged.
\<close>

definition loadsAs :: "jsval \<Rightarrow> jsval \<Rightarrow> bool" where
  "loadsAs v w = (\<exists>j. serializeProperty v = Inr (Some j) \<and> internalize j = Inr w)"

definition memberLoadsAs :: "string \<times> jsval \<Rightarrow> string \<times> jsval \<Rightarrow> bool" where
  "memberLoadsAs kv kw = (fst kv = fst kw \<and> loadsAs (snd kv) (snd kw))"

definition isDigit :: "char \<Rightarrow> bool" where
  "isDigit c = (48 \<le> (of_char c :: nat) \<and> (of_char c :: nat) \<le> 57)"

definition untagged :: "string \<Rightarrow> bool" where
  "untagged s = (\<not> startsWith s ''bigint:'')"

definition untaggedOpt :: "string option \<Rightarrow> bool" where
  "untaggedOpt v = (case v of None \<Rightarrow> True | Some s \<Rightarrow> untagged s)"

definition persistable :: "SwapState \<Rightarrow> bool" where
  "persistable s =
     ((case exchangeRate s of Num r \<Rightarrow> True | _ \<Rightarrow> False) \<and>
      untagged (id s) \<and> untagged (peerId s) \<and>
      list_all (\<lambda>e. untaggedOpt (details e)) (phaseHistory s) \<and>
      untagged (userBtcDepositPubkey s) \<and> untagged (userBtcRefundPubkey s) \<and>
      untagged (asbBtcRedeemPubkey s) \<and> untagged (userXmrAddress s) \<and>
      untaggedOpt (asbXmrViewKey s) \<and> untagged (secretHash s) \<and> untaggedOpt (secret s) \<and>
      untaggedOpt (btcLockTxId s) \<and> untaggedOpt (btcLockTxHex s) \<and>
      untaggedOpt (btcRedeemTxId s) \<and> untaggedOpt (btcRefundTxId s) \<and>
      untaggedOpt (htlcScript s) \<and> untaggedOpt (xmrLockTxId s) \<and>
      untaggedOpt (xmrRedeemTxId s) \<and> untaggedOpt (encryptedSignature s) \<and>
      untaggedOpt (lastError s))"

text \<open>The object of \<open>sampleState\<close>, with a given value under \<open>exchangeRate\<close> and given
  members for the lock transaction.\<close>

definition sampleObject :: "jsval \<Rightarrow> (string \<times> jsval) list \<Rightarrow> jsval" where
  "sampleObject rate lockTx =
     JObject (
       [(''id'', JString ''swap_lq2w3e4r_0a1b2c3d''),
        (''peerId'', JString ''12D3KooWCdMKjesXMJz1SiZ7HgotrxuqhQJbP5sgBm2BwP1cqThi''),
        (''createdAt'', JNumber (Num 1000)),
        (''updatedAt'', JNumber (Num 1000)),
        (''phase'', JString ''swap_initiated''),
        (''phaseHistory'', JArray [JObject [(''phase'', JString ''swap_initiated''),
                                           (''timestamp'', JNumber (Num 1000))]]),
        (''btcAmount'', JBigInt 100000),
        (''xmrAmount'', JBigInt 16000000000000),
        (''exchangeRate'', rate),
        (''minBtcLockConfirmations'', JNumber (Num 2)),
        (''minXmrLockConfirmations'', JNumber (Num 10)),
        (''btcCancelTimelock'', JNumber (Num 800072)),
        (''btcPunishTimelock'', JNumber (Num 800144)),
        (''xmrUnlockHeight'', JNumber (Num 0)),
        (''userBtcDepositPubkey'', JString ''021a1a1a1a1a1a1a1a1a1a1a1a1a1a1a1a1a1a1a1a1a1a1a1a1a1a1a1a1a1a1a1a''),
        (''userBtcRefundPubkey'', JString ''032222222222222222222222222222222222222222222222222222222222222222''),
        (''asbBtcRedeemPubkey'', JString ''021111111111111111111111111111111111111111111111111111111111111111''),
        (''userXmrAddress'', JString sampleXmrAddress),
        (''secretHash'', JString sampleHashA)] @
       lockTx @
       [(''errorCount'', JNumber (Num 0)),
        (''network'', JString ''mainnet'')])"

section \<open>Properties of the swap state\<close>

text \<open>
  Claim C1. \<open>canRefund(state, currentHeight)\<close> is true exactly when the height has reached
  \<open>btcCancelTimelock\<close>, the phase is none of \<open>BTC_REDEEMED\<close>, \<open>XMR_REDEEMED\<close>, \<open>COMPLETED\<close>,
  and a lock transaction id is present; in one of those three phases it is false at every
  height.
\<close>

theorem canRefund_iff:
  "(canRefund state currentHeight \<longleftrightarrow>
      currentHeight \<ge> btcCancelTimelock state \<and>
      phase state \<notin> {BTC_REDEEMED, XMR_REDEEMED, COMPLETED} \<and>
      (\<exists>txId. btcLockTxId state = Some txId)) \<and>
   (phase state \<in> {BTC_REDEEMED, XMR_REDEEMED, COMPLETED} \<longrightarrow> \<not> canRefund state currentHeight)"
  by (auto simp: canRefund_def)

theorem canRefund_iff_witness:
  "canRefund (sampleState\<lparr>btcLockTxId := Some sampleTxId\<rparr>) 800072 \<and>
   \<not> canRefund (sampleState\<lparr>btcLockTxId := Some sampleTxId\<rparr>) 800071 \<and>
   \<not> canRefund sampleState 800072 \<and>
   phase (sampleState\<lparr>phase := COMPLETED, btcLockTxId := Some sampleTxId\<rparr>)
     \<in> {BTC_REDEEMED, XMR_REDEEMED, COMPLETED} \<and>
   \<not> canRefund (sampleState\<lparr>phase := COMPLETED, btcLockTxId := Some sampleTxId\<rparr>) 900000"
  using canRefund_iff [of "sampleState\<lparr>btcLockTxId := Some sampleTxId\<rparr>" 800072]
        canRefund_iff [of "sampleState\<lparr>btcLockTxId := Some sampleTxId\<rparr>" 800071]
        canRefund_iff [of sampleState 800072]
        canRefund_iff [of "sampleState\<lparr>phase := COMPLETED, btcLockTxId := Some sampleTxId\<rparr>" 900000]
  by (simp add: sampleState_def)

lemma applyField_phase: "\<not> setsPhase u \<Longrightarrow> phase (applyField u s) = phase s"
  by (cases u) simp_all

lemma fold_applyField_phase:
  "list_all (\<lambda>u. \<not> setsPhase u) us \<Longrightarrow> phase (fold applyField us s) = phase s"
  by (induction us arbitrary: s) (simp_all add: applyField_phase)

text \<open>
  Claim C4, as stated: from a terminal phase no operation produces a state with a
  different phase. \<open>transitionPhase\<close> does: it never looks at the current phase. Here a
  \<open>COMPLETED\<close> state is moved to \<open>BTC_REFUNDED\<close>.
\<close>

theorem terminal_phase_counterexample:
  "isTerminalPhase (phase (sampleState\<lparr>phase := COMPLETED\<rparr>)) \<and>
   phase (transitionPhase (sampleState\<lparr>phase := COMPLETED\<rparr>) BTC_REFUNDED None 2000)
     \<noteq> phase (sampleState\<lparr>phase := COMPLETED\<rparr>)"
  by (simp add: isTerminalPhase_def transitionPhase_def sampleState_def)

text \<open>
  Claim C4, amended. \<open>isTerminalPhase\<close> holds exactly for \<open>COMPLETED\<close>, \<open>REFUNDED\<close> and
  \<open>FAILED\<close>, and the state operations do not consult it: \<open>transitionPhase\<close> yields a state
  whose phase is \<open>newPhase\<close> whatever the current phase is; \<open>recordSwapError\<close>, and
  \<open>updateSwapState\<close> with updates that hold no \<open>phase\<close> key, keep the phase.
\<close>

theorem phase_after_operations:
  "(isTerminalPhase p \<longleftrightarrow> p = COMPLETED \<or> p = REFUNDED \<or> p = FAILED) \<and>
   phase (transitionPhase state newPhase dets now) = newPhase \<and>
   phase (recordSwapError state err now) = phase state \<and>
   (list_all (\<lambda>u. \<not> setsPhase u) updates \<longrightarrow>
      phase (updateSwapState state updates now) = phase state)"
  by (auto simp: isTerminalPhase_def transitionPhase_def recordSwapError_def updateSwapState_def
      fold_applyField_phase)

theorem phase_after_operations_witness:
  "isTerminalPhase REFUNDED \<and>
   phase (transitionPhase (sampleState\<lparr>phase := REFUNDED\<rparr>) REFUNDED None 5) = REFUNDED \<and>
   phase (recordSwapError (sampleState\<lparr>phase := REFUNDED\<rparr>) ''x'' 5) = REFUNDED \<and>
   list_all (\<lambda>u. \<not> setsPhase u) [Set_btcRefundTxId sampleTxId] \<and>
   phase (updateSwapState (sampleState\<lparr>phase := REFUNDED\<rparr>) [Set_btcRefundTxId sampleTxId] 5) = REFUNDED"
  using phase_after_operations [of REFUNDED "sampleState\<lparr>phase := REFUNDED\<rparr>" REFUNDED None 5 "''x''"
      "[Set_btcRefundTxId sampleTxId]"]
  by (simp add: sampleState_def)

section \<open>Properties of the script and transaction factory\<close>

lemma addInputs_accepted:
  "list_all (acceptsInput lib) us \<Longrightarrow>
   addInputs lib us tx = Inr (tx\<lparr> tx_inputs := tx_inputs tx @ map txInputOf us \<rparr>)"
  by (induction us arbitrary: tx) (simp_all add: addInput_def txInputOf_def)

lemma addInputs_result:
  "addInputs lib us tx = Inr tx' \<Longrightarrow>
   list_all (acceptsInput lib) us \<and> tx' = tx\<lparr> tx_inputs := tx_inputs tx @ map txInputOf us \<rparr>"
proof (induction us arbitrary: tx)
  case Nil
  then show ?case by simp
next
  case (Cons u us)
  from Cons.prems have ok: "acceptsInput lib u"
    by (auto simp: addInput_def split: if_splits)
  with Cons.prems have
    "addInputs lib us (tx\<lparr> tx_inputs := tx_inputs tx @ [txInputOf u] \<rparr>) = Inr tx'"
    by (simp add: addInput_def txInputOf_def)
  from Cons.IH [OF this] ok show ?case by simp
qed

lemma totalInput_sum: "totalInput us = sum_list (map utxoValue us)"
proof -
  have "fold (\<lambda>u acc. acc + utxoValue u) us a = a + sum_list (map utxoValue us)" for a
    by (induction us arbitrary: a) simp_all
  then show ?thesis by (simp add: totalInput_def)
qed

lemma inputSum_txInputOf:
  "tx_inputs tx = map txInputOf us \<Longrightarrow> inputSum tx = totalInput us"
  by (simp add: inputSum_def totalInput_sum txInputOf_def comp_def)

text \<open>What \<open>createLockTransaction\<close> returns, when it returns.\<close>

lemma createLockTransaction_outputs:
  assumes "createLockTransaction lib params = Inr tx"
    and "estimatedFee (length (inputs params)) (feeRate params) = Inr fee"
  shows "tx_inputs tx = map txInputOf (inputs params) \<and>
     tx_outputs tx =
       (if totalInput (inputs params) - amount params - fee > 546
        then [htlcOutput lib params, changeOutput params fee]
        else [htlcOutput lib params])"
proof -
  from assms obtain tx1 where a: "addInputs lib (inputs params) newTransaction = Inr tx1"
    by (auto simp: createLockTransaction_def split: sum.splits)
  from addInputs_result [OF a]
  have tx1: "tx1 = \<lparr> tx_inputs = map txInputOf (inputs params), tx_outputs = [] \<rparr>"
    by (simp add: newTransaction_def)
  from assms a tx1 show ?thesis
    by (auto simp: createLockTransaction_def addOutputAddress_def Let_def
        htlcOutput_def changeOutput_def split: sum.splits if_splits)
qed

lemma createLockTransaction_fee:
  "createLockTransaction lib params = Inr tx \<Longrightarrow>
   \<exists>fee. estimatedFee (length (inputs params)) (feeRate params) = Inr fee"
  by (auto simp: createLockTransaction_def split: sum.splits)

text \<open>When it returns: the library accepts every input and every output it is given, and
  the fee is a number \<open>BigInt\<close> accepts.\<close>

lemma createLockTransaction_returns:
  assumes "list_all (acceptsInput lib) (inputs params)"
    and "acceptsOutput lib (htlcScriptToAddress lib (lock_htlcScript params) (lock_network params))
           (amount params) (lock_network params)"
    and "estimatedFee (length (inputs params)) (feeRate params) = Inr fee"
    and "totalInput (inputs params) - amount params - fee > 546 \<longrightarrow>
           acceptsOutput lib (changeAddress params)
             (totalInput (inputs params) - amount params - fee) (lock_network params)"
  shows "createLockTransaction lib params =
     Inr \<lparr> tx_inputs = map txInputOf (inputs params),
           tx_outputs =
             (if totalInput (inputs params) - amount params - fee > 546
              then [htlcOutput lib params, changeOutput params fee]
              else [htlcOutput lib params]) \<rparr>"
  using assms
  by (simp add: createLockTransaction_def addInputs_accepted addOutputAddress_def Let_def
      newTransaction_def htlcOutput_def changeOutput_def)

text \<open>The sample parameters: one input of \<open>v\<close> satoshis, an amount of \<open>a\<close>, a fee rate
  of \<open>r\<close>.\<close>

lemma sampleLock_fields:
  "inputs ((sampleLock [v] a)\<lparr>feeRate := r\<rparr>) = [sampleUtxo v]"
  "amount ((sampleLock vs a)\<lparr>feeRate := r\<rparr>) = a"
  "feeRate ((sampleLock vs a)\<lparr>feeRate := r\<rparr>) = r"
  "totalInput [sampleUtxo v] = v"
  "changeAddress ((sampleLock vs a)\<lparr>feeRate := r\<rparr>) = ''bc1qw508d6qejxtdg4y5r3zarvary0c5xw7kv8f3t4''"
  "lock_htlcScript ((sampleLock vs a)\<lparr>feeRate := r\<rparr>) = [0x63, 0x68, 0xac]"
  "lock_network ((sampleLock vs a)\<lparr>feeRate := r\<rparr>) = MAINNET"
  by (simp_all add: sampleLock_def sampleUtxo_def totalInput_def)

lemma sampleLock_rate: "(sampleLock vs a)\<lparr>feeRate := Num 10\<rparr> = sampleLock vs a"
  by (simp add: sampleLock_def)

lemma sample_fees:
  "estimatedFee (Suc 0) (Num 10) = Inr 2200"
  "estimatedFee (Suc 0) (toDouble (1 / 10)) = Inr 22"
  "estimatedFee 0 (Num 10) = Inr 1500"
  by code_simp+

lemma sampleLock_built:
  assumes "0 \<le> v" "v < 2 ^ 63" "0 \<le> a" "a < 2 ^ 63" "estimatedFee (Suc 0) r = Inr fee" "0 \<le> fee"
  shows "createLockTransaction sampleLibrary ((sampleLock [v] a)\<lparr>feeRate := r\<rparr>) =
     Inr \<lparr> tx_inputs = [txInputOf (sampleUtxo v)],
           tx_outputs =
             (if v - a - fee > 546
              then [\<lparr> out_address = htlcScriptToAddress sampleLibrary [0x63, 0x68, 0xac] MAINNET,
                       out_amount = a \<rparr>,
                    \<lparr> out_address = ''bc1qw508d6qejxtdg4y5r3zarvary0c5xw7kv8f3t4'',
                       out_amount = v - a - fee \<rparr>]
              else [\<lparr> out_address = htlcScriptToAddress sampleLibrary [0x63, 0x68, 0xac] MAINNET,
                       out_amount = a \<rparr>]) \<rparr>"
proof -
  let ?P = "(sampleLock [v] a)\<lparr>feeRate := r\<rparr>"
  have "list_all (acceptsInput sampleLibrary) (inputs ?P)"
    using assms(1,2) by (simp add: sampleLock_fields sampleLibrary_def sampleUtxo_def sampleTxId_def)
  moreover have "acceptsOutput sampleLibrary
      (htlcScriptToAddress sampleLibrary (lock_htlcScript ?P) (lock_network ?P)) (amount ?P) (lock_network ?P)"
    using assms(3,4) by (simp add: sampleLock_fields sampleLibrary_def htlcScriptToAddress_def)
  moreover have "estimatedFee (length (inputs ?P)) (feeRate ?P) = Inr fee"
    using assms(5) by (simp add: sampleLock_fields)
  moreover have "totalInput (inputs ?P) - amount ?P - fee > 546 \<longrightarrow>
      acceptsOutput sampleLibrary (changeAddress ?P) (totalInput (inputs ?P) - amount ?P - fee) (lock_network ?P)"
    using assms(2,3,6) by (simp add: sampleLock_fields sampleLibrary_def)
  ultimately show ?thesis
    using createLockTransaction_returns [of sampleLibrary ?P fee]
    by (simp add: sampleLock_fields htlcOutput_def changeOutput_def)
qed

text \<open>
  Claim C5, as stated: \<open>createLockTransaction\<close> raises when the inputs do not cover
  \<open>amount\<close> plus the estimated fee. It does not: with one input of 1000 satoshis, an amount of
  50000 and a fee of \<open>(150 + 70) * 10 = 2200\<close> it returns a transaction.
\<close>

theorem createLockTransaction_insufficient_counterexample:
  "totalInput (inputs (sampleLock [1000] 50000)) < amount (sampleLock [1000] 50000) + 2200 \<and>
   estimatedFee (length (inputs (sampleLock [1000] 50000))) (feeRate (sampleLock [1000] 50000))
     = Inr 2200 \<and>
   createLockTransaction sampleLibrary (sampleLock [1000] 50000)
     = Inr \<lparr> tx_inputs = [txInputOf (sampleUtxo 1000)],
             tx_outputs =
               [\<lparr> out_address = htlcScriptToAddress sampleLibrary [0x63, 0x68, 0xac] MAINNET,
                  out_amount = 50000 \<rparr>] \<rparr>"
proof -
  have "createLockTransaction sampleLibrary (sampleLock [1000] 50000)
     = Inr \<lparr> tx_inputs = [txInputOf (sampleUtxo 1000)],
             tx_outputs =
               [\<lparr> out_address = htlcScriptToAddress sampleLibrary [0x63, 0x68, 0xac] MAINNET,
                  out_amount = 50000 \<rparr>] \<rparr>"
    using sampleLock_built [of 1000 50000 "Num 10" 2200] by (simp add: sample_fees sampleLock_rate)
  moreover have "totalInput (inputs (sampleLock [1000] 50000)) < amount (sampleLock [1000] 50000) + 2200"
    by (simp add: sampleLock_def sampleUtxo_def totalInput_def)
  moreover have "estimatedFee (length (inputs (sampleLock [1000] 50000))) (feeRate (sampleLock [1000] 50000))
     = Inr 2200"
    using sample_fees(1) by (simp add: sampleLock_def)
  ultimately show ?thesis by blast
qed

text \<open>
  Claim C5, amended. \<open>createLockTransaction\<close> does not compare the summed input value with
  \<open>amount\<close> plus the estimated fee. When the inputs are insufficient and nothing else makes
  it raise (the library accepts each input and the HTLC output, and the fee estimate is a
  number \<open>BigInt\<close> accepts), it returns a transaction: one with the given inputs, whose only
  output pays \<open>amount\<close> to the HTLC address.
\<close>

theorem createLockTransaction_insufficient:
  assumes "list_all (acceptsInput lib) (inputs params)"
    and "acceptsOutput lib (htlcScriptToAddress lib (lock_htlcScript params) (lock_network params))
           (amount params) (lock_network params)"
    and "estimatedFee (length (inputs params)) (feeRate params) = Inr fee"
    and "totalInput (inputs params) < amount params + fee"
  shows "createLockTransaction lib params =
     Inr \<lparr> tx_inputs = map txInputOf (inputs params), tx_outputs = [htlcOutput lib params] \<rparr>"
  using createLockTransaction_returns [OF assms(1,2,3)] assms(4) by simp

theorem createLockTransaction_insufficient_witness:
  "list_all (acceptsInput sampleLibrary) (inputs (sampleLock [1000] 50000)) \<and>
   acceptsOutput sampleLibrary
     (htlcScriptToAddress sampleLibrary (lock_htlcScript (sampleLock [1000] 50000))
        (lock_network (sampleLock [1000] 50000)))
     (amount (sampleLock [1000] 50000)) (lock_network (sampleLock [1000] 50000)) \<and>
   estimatedFee (length (inputs (sampleLock [1000] 50000))) (feeRate (sampleLock [1000] 50000))
     = Inr 2200 \<and>
   totalInput (inputs (sampleLock [1000] 50000)) < amount (sampleLock [1000] 50000) + 2200 \<and>
   createLockTransaction sampleLibrary (sampleLock [1000] 50000) =
     Inr \<lparr> tx_inputs = map txInputOf (inputs (sampleLock [1000] 50000)),
           tx_outputs = [htlcOutput sampleLibrary (sampleLock [1000] 50000)] \<rparr>"
proof -
  have acc: "list_all (acceptsInput sampleLibrary) (inputs (sampleLock [1000] 50000))"
    "acceptsOutput sampleLibrary
       (htlcScriptToAddress sampleLibrary (lock_htlcScript (sampleLock [1000] 50000))
          (lock_network (sampleLock [1000] 50000)))
       (amount (sampleLock [1000] 50000)) (lock_network (sampleLock [1000] 50000))"
    by (simp_all add: sampleLock_def sampleLibrary_def sampleUtxo_def sampleTxId_def
        htlcScriptToAddress_def)
  have fee: "estimatedFee (length (inputs (sampleLock [1000] 50000))) (feeRate (sampleLock [1000] 50000))
     = Inr 2200"
    using sample_fees(1) by (simp add: sampleLock_def)
  have short: "totalInput (inputs (sampleLock [1000] 50000)) < amount (sampleLock [1000] 50000) + 2200"
    by (simp add: sampleLock_def sampleUtxo_def totalInput_def)
  from createLockTransaction_insufficient [OF acc fee short] acc fee short
  show ?thesis by simp
qed

text \<open>
  Claim C6. The fee is the one \<open>createLockTransaction\<close> computes:
  \<open>BigInt(Math.ceil((150 + 70 * inputs.length) * feeRate))\<close>, the product rounded as a
  double. A lock transaction built from inputs that cover \<open>amount + fee\<close> has a change output
  exactly when \<open>inputSum - amount - fee > 546\<close>: it is then the second of two outputs, pays
  \<open>inputSum - amount - fee\<close> to the change address, and the transaction leaves \<open>fee\<close> to the
  miner. Otherwise the HTLC output is the only output, and what the transaction leaves to
  the miner is \<open>fee\<close> and the remainder. The inputs of the transaction are the given ones,
  so that what it spends is \<open>inputSum\<close>.
\<close>

theorem createLockTransaction_change_output:
  assumes built: "createLockTransaction lib params = Inr tx"
    and fee: "estimatedFee (length (inputs params)) (feeRate params) = Inr fee"
    and enough: "totalInput (inputs params) \<ge> amount params + fee"
  shows "(length (tx_outputs tx) = 2 \<longleftrightarrow> totalInput (inputs params) - amount params - fee > 546) \<and>
         (totalInput (inputs params) - amount params - fee > 546 \<longrightarrow>
            tx_outputs tx =
              [\<lparr> out_address = htlcScriptToAddress lib (lock_htlcScript params) (lock_network params),
                 out_amount = amount params \<rparr>,
               \<lparr> out_address = changeAddress params,
                 out_amount = totalInput (inputs params) - amount params - fee \<rparr>] \<and>
            leftAsFee tx = fee) \<and>
         (\<not> totalInput (inputs params) - amount params - fee > 546 \<longrightarrow>
            tx_outputs tx =
              [\<lparr> out_address = htlcScriptToAddress lib (lock_htlcScript params) (lock_network params),
                 out_amount = amount params \<rparr>] \<and>
            leftAsFee tx = fee + (totalInput (inputs params) - amount params - fee)) \<and>
         tx_inputs tx = map txInputOf (inputs params) \<and>
         inputSum tx = totalInput (inputs params)"
proof -
  note outs = createLockTransaction_outputs [OF built fee]
  then have ins: "inputSum tx = totalInput (inputs params)"
    using inputSum_txInputOf [of tx "inputs params"] by simp
  show ?thesis
  proof (cases "totalInput (inputs params) - amount params - fee > 546")
    case True
    with outs ins show ?thesis
      by (simp add: leftAsFee_def outputSum_def htlcOutput_def changeOutput_def)
  next
    case False
    with outs ins show ?thesis
      by (simp add: leftAsFee_def outputSum_def htlcOutput_def)
  qed
qed

text \<open>At a fee rate of 0.1 and with one input the fee is 22: the product \<open>220 * 0.1\<close> is the
  double 22. An input of 50569 then leaves a change of 547, an input of 50568 a change of
  546, which is not paid out.\<close>

theorem createLockTransaction_change_output_witness:
  "createLockTransaction sampleLibrary ((sampleLock [50569] 50000)\<lparr>feeRate := toDouble (1 / 10)\<rparr>)
     = Inr \<lparr> tx_inputs = [txInputOf (sampleUtxo 50569)],
             tx_outputs =
               [\<lparr> out_address = htlcScriptToAddress sampleLibrary [0x63, 0x68, 0xac] MAINNET,
                  out_amount = 50000 \<rparr>,
                \<lparr> out_address = ''bc1qw508d6qejxtdg4y5r3zarvary0c5xw7kv8f3t4'', out_amount = 547 \<rparr>] \<rparr> \<and>
   leftAsFee (projr (createLockTransaction sampleLibrary
       ((sampleLock [50569] 50000)\<lparr>feeRate := toDouble (1 / 10)\<rparr>))) = 22 \<and>
   createLockTransaction sampleLibrary ((sampleLock [50568] 50000)\<lparr>feeRate := toDouble (1 / 10)\<rparr>)
     = Inr \<lparr> tx_inputs = [txInputOf (sampleUtxo 50568)],
             tx_outputs =
               [\<lparr> out_address = htlcScriptToAddress sampleLibrary [0x63, 0x68, 0xac] MAINNET,
                  out_amount = 50000 \<rparr>] \<rparr> \<and>
   leftAsFee (projr (createLockTransaction sampleLibrary
       ((sampleLock [50568] 50000)\<lparr>feeRate := toDouble (1 / 10)\<rparr>))) = 568"
proof -
  let ?A = "(sampleLock [50569] 50000)\<lparr>feeRate := toDouble (1 / 10)\<rparr>"
  let ?B = "(sampleLock [50568] 50000)\<lparr>feeRate := toDouble (1 / 10)\<rparr>"
  have builtA: "createLockTransaction sampleLibrary ?A
     = Inr \<lparr> tx_inputs = [txInputOf (sampleUtxo 50569)],
             tx_outputs =
               [\<lparr> out_address = htlcScriptToAddress sampleLibrary [0x63, 0x68, 0xac] MAINNET,
                  out_amount = 50000 \<rparr>,
                \<lparr> out_address = ''bc1qw508d6qejxtdg4y5r3zarvary0c5xw7kv8f3t4'', out_amount = 547 \<rparr>] \<rparr>"
    using sampleLock_built [of 50569 50000 "toDouble (1 / 10)" 22] by (simp add: sample_fees)
  have builtB: "createLockTransaction sampleLibrary ?B
     = Inr \<lparr> tx_inputs = [txInputOf (sampleUtxo 50568)],
             tx_outputs =
               [\<lparr> out_address = htlcScriptToAddress sampleLibrary [0x63, 0x68, 0xac] MAINNET,
                  out_amount = 50000 \<rparr>] \<rparr>"
    using sampleLock_built [of 50568 50000 "toDouble (1 / 10)" 22] by (simp add: sample_fees)
  have feeA: "estimatedFee (length (inputs ?A)) (feeRate ?A) = Inr 22"
    and feeB: "estimatedFee (length (inputs ?B)) (feeRate ?B) = Inr 22"
    by (simp_all add: sampleLock_fields sample_fees)
  have enoughA: "amount ?A + 22 \<le> totalInput (inputs ?A)"
    and enoughB: "amount ?B + 22 \<le> totalInput (inputs ?B)"
    by (simp_all add: sampleLock_fields)
  from createLockTransaction_change_output [OF builtA feeA enoughA]
  have a: "leftAsFee \<lparr> tx_inputs = [txInputOf (sampleUtxo 50569)],
             tx_outputs =
               [\<lparr> out_address = htlcScriptToAddress sampleLibrary [0x63, 0x68, 0xac] MAINNET,
                  out_amount = 50000 \<rparr>,
                \<lparr> out_address = ''bc1qw508d6qejxtdg4y5r3zarvary0c5xw7kv8f3t4'', out_amount = 547 \<rparr>] \<rparr> = 22"
    by (simp add: sampleLock_fields)
  from createLockTransaction_change_output [OF builtB feeB enoughB]
  have b: "leftAsFee \<lparr> tx_inputs = [txInputOf (sampleUtxo 50568)],
             tx_outputs =
               [\<lparr> out_address = htlcScriptToAddress sampleLibrary [0x63, 0x68, 0xac] MAINNET,
                  out_amount = 50000 \<rparr>] \<rparr> = 568"
    by (simp add: sampleLock_fields)
  show ?thesis
    by (simp only: builtA builtB sum.sel a b simp_thms)
qed

section \<open>Properties of the HTLC script\<close>

lemma encodeNumLoop_nonpos [simp]: "v \<le> 0 \<Longrightarrow> encodeNumLoop v = []"
  by (simp add: encodeNumLoop.simps)

lemma encodeNumLoop_pos:
  "0 < v \<Longrightarrow> encodeNumLoop v = of_int (toInt32 v mod 256) # encodeNumLoop (toInt32 v div 256)"
  by (subst encodeNumLoop.simps) simp

lemma toInt32_id: "- (2 ^ 31) \<le> v \<Longrightarrow> v < 2 ^ 31 \<Longrightarrow> toInt32 v = v"
  by (simp add: toInt32_def)

lemma toInt32_range: "- (2 ^ 31) \<le> toInt32 v \<and> toInt32 v < 2 ^ 31"
proof -
  have "0 \<le> (v + 2 ^ 31) mod 2 ^ 32" "(v + 2 ^ 31) mod 2 ^ 32 < (2 ^ 32 :: int)"
    by simp_all
  then show ?thesis by (simp add: toInt32_def)
qed

text \<open>Once \<open>val\<close> is a signed 32-bit value below \<open>256 ^ k\<close>, the loop pushes at most \<open>k\<close> bytes.\<close>

lemma encodeNumLoop_small:
  "v < 256 ^ k \<Longrightarrow> v < 2 ^ 31 \<Longrightarrow> length (encodeNumLoop v) \<le> k"
proof (induction k arbitrary: v)
  case 0
  then have "v \<le> 0" by simp
  then show ?case by simp
next
  case (Suc k)
  show ?case
  proof (cases "v > 0")
    case False
    then show ?thesis by simp
  next
    case True
    then have same: "toInt32 v = v" using Suc.prems by (simp add: toInt32_id)
    have "v div 256 < 256 ^ k"
      using Suc.prems(1) by (simp add: div_less_iff_less_mult mult.commute)
    moreover have "v div 256 < 2 ^ 31" using Suc.prems(2) True by simp
    ultimately have "length (encodeNumLoop (v div 256)) \<le> k" by (rule Suc.IH)
    then show ?thesis using True same by (simp add: encodeNumLoop_pos)
  qed
qed

lemma encodeNumLoop_length: "length (encodeNumLoop v) \<le> 4"
proof (cases "v > 0")
  case False
  then show ?thesis by simp
next
  case True
  have "toInt32 v < 2147483648" using toInt32_range [of v] by simp
  then have "toInt32 v div 256 < 16777216" by linarith
  then have "toInt32 v div 256 < 256 ^ 3" "toInt32 v div 256 < 2 ^ 31" by simp_all
  then have "length (encodeNumLoop (toInt32 v div 256)) \<le> 3"
    by (rule encodeNumLoop_small)
  then show ?thesis using True by (simp add: encodeNumLoop_pos)
qed

lemma encodeNum_length: "length (encodeNum n) \<le> 5"
  using encodeNumLoop_length [of "\<bar>n\<bar>"]
  by (auto simp: encodeNum_def Let_def split: list.splits)

lemma encodeNum_32: "encodeNum 32 = [0x20]"
  by (simp add: encodeNum_def toInt32_def encodeNumLoop_pos)

lemma pushPrefix_Inr: "len \<le> 0xffffffff \<Longrightarrow> \<exists>pre. pushPrefix len = Inr pre"
  by (simp add: pushPrefix_def)

lemma Script_encode_Data:
  "length d \<le> 0xffffffff \<Longrightarrow> Script_encode rest = Inr bs \<Longrightarrow>
   Script_encode (Data d # rest) = Inr (pushOf d @ bs)"
  using pushPrefix_Inr [of "length d"] by (auto simp: pushOf_def)

lemma Script_encode_Op:
  "Script_encode rest = Inr bs \<Longrightarrow> Script_encode (Op name # rest) = Inr (opByte name # bs)"
  by simp

lemma pushOf_encodeNum_32: "pushOf (encodeNum 32) = [0x01, 0x20]"
  by (simp add: encodeNum_32 pushOf_def pushPrefix_def)

lemma sampleHtlc_31_script:
  "createHtlcScript (sampleHtlc 31) =
     Inr ([0x63, 0x82, 0x01, 0x20, 0x88, 0xa8] @ (0x1f # replicate 31 0xab) @ [0x88] @
          (0x21 # 0x02 # replicate 32 0x11) @ [0x67] @ [0x03, 0x48, 0x35, 0x0c] @
          [0xb1, 0x75] @ (0x21 # 0x03 # replicate 32 0x22) @ [0x68, 0xac])"
  by code_simp

text \<open>
  Claim C7, as stated: \<open>createHtlcScript\<close> fails whenever \<open>secretHash\<close> is not exactly 32
  bytes long. It has no such check: for a \<open>secretHash\<close> of 31 bytes it returns a script.
\<close>

theorem createHtlcScript_short_hash_counterexample:
  "length (p_secretHash (sampleHtlc 31)) \<noteq> 32 \<and> \<not> isl (createHtlcScript (sampleHtlc 31))"
  by (simp add: sampleHtlc_31_script) (simp add: sampleHtlc_def)

text \<open>
  Claim C7, amended. \<open>createHtlcScript\<close> does not check the length of \<open>secretHash\<close>: for
  every \<open>HtlcParams\<close> whose byte arrays can be pushed (each shorter than \<open>2^32\<close> bytes) it
  returns a script, namely the fixed opcodes around the pushes of \<open>secretHash\<close>,
  \<open>redeemPubkey\<close>, the encoded \<open>locktime\<close> and \<open>refundPubkey\<close>. It is deterministic: the
  script depends on these four fields only, so identical inputs give a byte-identical
  script.
\<close>

theorem createHtlcScript_any_secretHash:
  assumes "length (p_secretHash params) \<le> 0xffffffff"
    and "length (redeemPubkey params) \<le> 0xffffffff"
    and "length (refundPubkey params) \<le> 0xffffffff"
  shows "createHtlcScript params =
           Inr ([0x63, 0x82, 0x01, 0x20, 0x88, 0xa8] @ pushOf (p_secretHash params) @ [0x88] @
                pushOf (redeemPubkey params) @ [0x67] @ pushOf (encodeNum (locktime params)) @
                [0xb1, 0x75] @ pushOf (refundPubkey params) @ [0x68, 0xac]) \<and>
         (p_secretHash other = p_secretHash params \<and> redeemPubkey other = redeemPubkey params \<and>
          refundPubkey other = refundPubkey params \<and> locktime other = locktime params \<longrightarrow>
          createHtlcScript other = createHtlcScript params)"
proof -
  have n32: "length (encodeNum 32) \<le> 0xffffffff"
    by (simp add: encodeNum_32)
  have lt: "length (encodeNum (locktime params)) \<le> 0xffffffff"
    using encodeNum_length [of "locktime params"] by simp
  have e1: "Script_encode [Op ENDIF, Op CHECKSIG] = Inr [0x68, 0xac]"
    by simp
  note e2 = Script_encode_Data [OF assms(3) e1]
  note e3 = Script_encode_Op [OF Script_encode_Op [OF e2, of DROP], of CHECKLOCKTIMEVERIFY]
  note e4 = Script_encode_Op [OF Script_encode_Data [OF lt e3], of ELSE]
  note e5 = Script_encode_Op [OF Script_encode_Data [OF assms(2) e4], of EQUALVERIFY]
  note e6 = Script_encode_Op [OF Script_encode_Op [OF Script_encode_Data [OF assms(1) e5], of SHA256], of EQUALVERIFY]
  note e7 = Script_encode_Op [OF Script_encode_Op [OF Script_encode_Data [OF n32 e6], of SIZE], of IF]
  have "createHtlcScript params =
           Inr ([0x63, 0x82, 0x01, 0x20, 0x88, 0xa8] @ pushOf (p_secretHash params) @ [0x88] @
                pushOf (redeemPubkey params) @ [0x67] @ pushOf (encodeNum (locktime params)) @
                [0xb1, 0x75] @ pushOf (refundPubkey params) @ [0x68, 0xac])"
    unfolding createHtlcScript_def e7 by (simp add: pushOf_encodeNum_32)
  moreover have "p_secretHash other = p_secretHash params \<and> redeemPubkey other = redeemPubkey params \<and>
          refundPubkey other = refundPubkey params \<and> locktime other = locktime params \<longrightarrow>
          createHtlcScript other = createHtlcScript params"
    by (simp add: createHtlcScript_def)
  ultimately show ?thesis by simp
qed

theorem createHtlcScript_any_secretHash_witness:
  "length (p_secretHash (sampleHtlc 31)) \<le> 0xffffffff \<and>
   length (redeemPubkey (sampleHtlc 31)) \<le> 0xffffffff \<and>
   length (refundPubkey (sampleHtlc 31)) \<le> 0xffffffff \<and>
   createHtlcScript (sampleHtlc 31) =
     Inr ([0x63, 0x82, 0x01, 0x20, 0x88, 0xa8] @ pushOf (p_secretHash (sampleHtlc 31)) @ [0x88] @
          pushOf (redeemPubkey (sampleHtlc 31)) @ [0x67] @
          pushOf (encodeNum (locktime (sampleHtlc 31))) @
          [0xb1, 0x75] @ pushOf (refundPubkey (sampleHtlc 31)) @ [0x68, 0xac])"
proof -
  have l: "length (p_secretHash (sampleHtlc 31)) \<le> 0xffffffff"
    "length (redeemPubkey (sampleHtlc 31)) \<le> 0xffffffff"
    "length (refundPubkey (sampleHtlc 31)) \<le> 0xffffffff"
    by (simp_all add: sampleHtlc_def)
  from createHtlcScript_any_secretHash [OF l, of "sampleHtlc 31"] l show ?thesis
    by blast
qed

section \<open>Properties of the quote validation\<close>

text \<open>
  Claim C9, as stated: for an amount outside the provider's bounds \<open>getQuote\<close> raises a
  bounds-violation error. \<open>ProviderDiscovery.getQuote\<close> does not raise: for 5000 satoshis
  against a minimum of 10000 its \<open>try\<close> block throws, the \<open>catch\<close> of the same method
  takes the error, and the caller receives \<open>null\<close>.
\<close>

theorem getQuote_below_minimum_counterexample:
  "quote sampleProvider \<noteq> None \<and>
   5000 < min_quantity (the (quote sampleProvider)) \<and>
   isl (getQuote_try sampleProvider 5000) \<and>
   ProviderDiscovery_getQuote sampleProvider 5000 = Inr None"
  by (simp add: sampleProvider_def getQuote_try_def ProviderDiscovery_getQuote_def)

text \<open>
  Claim C9, amended. Both methods check the amount against the provider's advertised
  minimum and maximum before they return a quote. \<open>ProviderDiscovery.getQuote\<close> never
  raises: for every amount below the minimum or above the maximum it returns \<open>null\<close> (the
  bounds error is thrown and caught inside the method), and it returns the provider's quote
  exactly when the amount is within the bounds. \<open>SwapProviderService.getQuote\<close> raises an
  error for every amount below the minimum or above the maximum.
\<close>

theorem getQuote_out_of_bounds:
  "\<not> isl (ProviderDiscovery_getQuote provider amt) \<and>
   (quote provider = Some q \<longrightarrow>
      (amt < min_quantity q \<or> amt > max_quantity q \<longrightarrow>
         isl (getQuote_try provider amt) \<and>
         ProviderDiscovery_getQuote provider amt = Inr None) \<and>
      (min_quantity q \<le> amt \<and> amt \<le> max_quantity q \<longrightarrow>
         ProviderDiscovery_getQuote provider amt = Inr (Some q))) \<and>
   (numLess (parseFloat fl amountText) (parseFloat fl (minBtc swapProvider)) \<or>
    numGreater (parseFloat fl amountText) (parseFloat fl (maxBtc swapProvider)) \<longrightarrow>
      isl (SwapProviderService_getQuote fl swapProvider amountText now))"
  by (auto simp: ProviderDiscovery_getQuote_def getQuote_try_def SwapProviderService_getQuote_def
      Let_def split: sum.splits option.splits)

theorem getQuote_out_of_bounds_witness:
  "quote sampleProvider = Some \<lparr> price = 160000000, min_quantity = 10000, max_quantity = 10000000,
                                  xmr_amount = 0 \<rparr> \<and>
   ProviderDiscovery_getQuote sampleProvider 5000 = Inr None \<and>
   ProviderDiscovery_getQuote sampleProvider 20000000 = Inr None \<and>
   ProviderDiscovery_getQuote sampleProvider 1000000 = Inr (quote sampleProvider) \<and>
   numLess (parseFloat sampleFloat ''0.00005'') (parseFloat sampleFloat (minBtc sampleSwapProvider)) \<and>
   isl (SwapProviderService_getQuote sampleFloat sampleSwapProvider ''0.00005'' 0) \<and>
   numGreater (parseFloat sampleFloat ''0.5'') (parseFloat sampleFloat (maxBtc sampleSwapProvider)) \<and>
   isl (SwapProviderService_getQuote sampleFloat sampleSwapProvider ''0.5'' 0)"
  using getQuote_out_of_bounds [of sampleProvider 5000 "the (quote sampleProvider)" sampleFloat
          "''0.00005''" sampleSwapProvider 0]
        getQuote_out_of_bounds [of sampleProvider 20000000 "the (quote sampleProvider)" sampleFloat
          "''0.5''" sampleSwapProvider 0]
        getQuote_out_of_bounds [of sampleProvider 1000000 "the (quote sampleProvider)" sampleFloat
          "''0.5''" sampleSwapProvider 0]
  by (simp add: sampleProvider_def sampleFloat_def sampleSwapProvider_def numGreater_def)

section \<open>Properties of the executor\<close>

lemma extractSecret_iff:
  "extractSecretFromWitness tx = Inr (Some s) \<longleftrightarrow>
     2 \<le> length (witness tx) \<and> hex_decode (witness tx ! 1) = Some s \<and> length s = 32"
  by (auto simp: extractSecretFromWitness_def split: option.splits)

lemma redeemed_phases:
  "map phase (saved (redeemed env st tx s c)) = [BTC_REDEEMED, XMR_REDEEMABLE] \<and>
   (\<exists>final. outcome (redeemed env st tx s c) = Inr final \<and> phase final = XMR_REDEEMABLE \<and>
      secret final = Some (hex_encode s) \<and> btcRedeemTxId final = Some (sp_txid tx)) \<and>
   (\<forall>x \<in> set (saved (redeemed env st tx s c)). secret x = Some (hex_encode s))"
  by (simp add: redeemed_def Let_def transitionPhase_def updateSwapState_def)

text \<open>A run of the monitor either saves nothing and fails, or ends in \<open>redeemed\<close> for a
  spend it was shown.\<close>

lemma redeemLoop_cases:
  "redeemLoop fuel env st txId m c k = Some r \<Longrightarrow>
   (saved r = [] \<and> isl (outcome r)) \<or>
   (\<exists>j tx s c'. findSpendingTransaction env j txId 0 = Inr (Some tx) \<and>
      extractSecretFromWitness tx = Inr (Some s) \<and> r = redeemed env st tx s c')"
proof (induction fuel arbitrary: c k)
  case 0
  then show ?case by simp
next
  case (Suc fuel)
  show ?case
  proof (cases "clock env c < m")
    case False
    with Suc.prems show ?thesis by auto
  next
    case True
    show ?thesis
    proof (cases "findSpendingTransaction env k txId 0")
      case (Inl e)
      with True Suc.prems show ?thesis by auto
    next
      case (Inr found)
      show ?thesis
      proof (cases found)
        case None
        with True Inr Suc.prems have "redeemLoop fuel env st txId m (c + 1) (k + 1) = Some r"
          by simp
        from Suc.IH [OF this] show ?thesis .
      next
        case (Some tx)
        show ?thesis
        proof (cases "extractSecretFromWitness tx")
          case (Inl e)
          with True Inr Some Suc.prems show ?thesis by auto
        next
          case inr: (Inr got)
          show ?thesis
          proof (cases got)
            case None
            with True Inr Some inr Suc.prems
            have "redeemLoop fuel env st txId m (c + 1) (k + 1) = Some r"
              by simp
            from Suc.IH [OF this] show ?thesis .
          next
            case (Some s)
            with True Inr \<open>found = Some tx\<close> inr Suc.prems
            have "r = redeemed env st tx s (c + 1)" by simp
            with Inr \<open>found = Some tx\<close> inr Some show ?thesis by blast
          qed
        qed
      qed
    qed
  qed
qed

lemma redeemLoop_success:
  "redeemLoop fuel env st txId m c k = Some r \<Longrightarrow> outcome r = Inr final \<Longrightarrow>
   \<exists>j tx s c'. findSpendingTransaction env j txId 0 = Inr (Some tx) \<and>
      extractSecretFromWitness tx = Inr (Some s) \<and> r = redeemed env st tx s c'"
  using redeemLoop_cases [of fuel env st txId m c k r] by auto

lemma redeemLoop_found:
  "clock env c < m \<Longrightarrow> findSpendingTransaction env k txId 0 = Inr (Some tx) \<Longrightarrow>
   extractSecretFromWitness tx = Inr (Some s) \<Longrightarrow>
   redeemLoop (Suc fuel) env st txId m c k = Some (redeemed env st tx s (c + 1))"
  by simp

text \<open>
  The rounds of the monitor, counted: after \<open>n\<close> rounds that show nothing to redeem the
  monitor is in its round \<open>n\<close>; there it stops with a timeout if the clock has reached
  \<open>maxWaitTime\<close>, and with the redemption if it is shown one. More fuel than rounds is
  enough for the model to follow it there.
\<close>

lemma redeemLoop_skips:
  "(\<forall>i<n. clock env (c + i) < m \<and> unrecognised env txId (k + i)) \<Longrightarrow> n \<le> fuel \<Longrightarrow>
   redeemLoop fuel env st txId m c k = redeemLoop (fuel - n) env st txId m (c + n) (k + n)"
proof (induction n arbitrary: fuel c k)
  case 0
  show ?case by simp
next
  case (Suc n)
  from Suc.prems(2) obtain fuel' where fuel: "fuel = Suc fuel'" and le: "n \<le> fuel'"
    by (cases fuel) simp_all
  from Suc.prems(1) have first: "clock env c < m" "unrecognised env txId k"
    by (metis add.right_neutral zero_less_Suc)+
  have rest: "\<forall>i<n. clock env (c + 1 + i) < m \<and> unrecognised env txId (k + 1 + i)"
  proof (intro allI impI)
    fix i assume "i < n"
    then have "Suc i < Suc n" by simp
    with Suc.prems(1) have "clock env (c + Suc i) < m \<and> unrecognised env txId (k + Suc i)"
      by blast
    then show "clock env (c + 1 + i) < m \<and> unrecognised env txId (k + 1 + i)" by simp
  qed
  from first have "redeemLoop (Suc fuel') env st txId m c k = redeemLoop fuel' env st txId m (c + 1) (k + 1)"
    by (auto simp: unrecognised_def split: sum.splits option.splits)
  also have "\<dots> = redeemLoop (fuel' - n) env st txId m (c + 1 + n) (k + 1 + n)"
    using Suc.IH [OF rest le] .
  finally show ?case by (simp add: fuel)
qed

lemma redeemLoop_timeout:
  assumes "\<forall>i<n. clock env (c + i) < m \<and> unrecognised env txId (k + i)"
    and "\<not> clock env (c + n) < m" and "n < fuel"
  shows "redeemLoop fuel env st txId m c k = Some \<lparr> saved = [], outcome = Inl RedeemTimeout \<rparr>"
proof -
  from assms(3) obtain f where f: "fuel - n = Suc f" by (cases "fuel - n") simp_all
  from assms(3) have "n \<le> fuel" by simp
  from redeemLoop_skips [OF assms(1) this] show ?thesis
    using assms(2) by (simp add: f)
qed

lemma redeemLoop_finds:
  assumes "\<forall>i<n. clock env (c + i) < m \<and> unrecognised env txId (k + i)"
    and "clock env (c + n) < m"
    and "findSpendingTransaction env (k + n) txId 0 = Inr (Some tx)"
    and "extractSecretFromWitness tx = Inr (Some s)" and "n < fuel"
  shows "redeemLoop fuel env st txId m c k = Some (redeemed env st tx s (c + n + 1))"
proof -
  from assms(5) obtain f where f: "fuel - n = Suc f" by (cases "fuel - n") simp_all
  from assms(5) have "n \<le> fuel" by simp
  from redeemLoop_skips [OF assms(1) this] show ?thesis
    using assms(2,3,4) by (simp add: f)
qed

lemma hex_decode_sample32: "hex_decode (concat (replicate 32 ''11'')) = Some (replicate 32 0x11)"
  by code_simp

lemma hex_decode_sample31: "hex_decode (concat (replicate 31 ''11'')) = Some (replicate 31 0x11)"
  by code_simp

lemma extractSecret_sample32:
  "extractSecretFromWitness (sampleSpend 32) = Inr (Some (replicate 32 0x11))"
  unfolding extractSecret_iff by (simp add: sampleSpend_def hex_decode_sample32)

lemma extractSecret_sample31: "extractSecretFromWitness (sampleSpend 31) = Inr None"
  by (simp add: extractSecretFromWitness_def sampleSpend_def hex_decode_sample31)

lemma sampleWorld_fields:
  "clock (sampleWorld n) i = 1000 + int i"
  "findSpendingTransaction (sampleWorld n) k t v = Inr (Some (sampleSpend n))"
  by (simp_all add: sampleWorld_def)

lemma waitForBtcRedeem_sample:
  "btcLockTxId st = Some sampleTxId \<Longrightarrow>
   waitForBtcRedeem 1 (sampleWorld 32) st 0
     = Some (redeemed (sampleWorld 32) st (sampleSpend 32) (replicate 32 0x11) 2)"
  by (simp add: waitForBtcRedeem_def sampleWorld_fields extractSecret_sample32 numeral_2_eq_2
      sampleTxId_def)

text \<open>
  Claim C2, as stated: a spend is taken for the redemption only after \<open>hash(secret) ==
  secretHash\<close> has been verified. The monitor makes no such check. Here the same spend,
  with the same 32-byte second witness element, is taken for the redemption of two swaps
  whose committed \<open>secretHash\<close> differ, so for at least one of them the hash of the revealed
  value is not the committed one, whatever the hash function.
\<close>

theorem redeem_without_hash_check_counterexample:
  "secretHash (sampleState\<lparr>secretHash := sampleHashA, btcLockTxId := Some sampleTxId\<rparr>)
     \<noteq> secretHash (sampleState\<lparr>secretHash := sampleHashB, btcLockTxId := Some sampleTxId\<rparr>) \<and>
   waitForBtcRedeem 1 (sampleWorld 32) (sampleState\<lparr>secretHash := sampleHashA, btcLockTxId := Some sampleTxId\<rparr>) 0
     = Some (redeemed (sampleWorld 32) (sampleState\<lparr>secretHash := sampleHashA, btcLockTxId := Some sampleTxId\<rparr>)
               (sampleSpend 32) (replicate 32 0x11) 2) \<and>
   waitForBtcRedeem 1 (sampleWorld 32) (sampleState\<lparr>secretHash := sampleHashB, btcLockTxId := Some sampleTxId\<rparr>) 0
     = Some (redeemed (sampleWorld 32) (sampleState\<lparr>secretHash := sampleHashB, btcLockTxId := Some sampleTxId\<rparr>)
               (sampleSpend 32) (replicate 32 0x11) 2) \<and>
   map phase (saved (redeemed (sampleWorld 32) (sampleState\<lparr>secretHash := sampleHashA, btcLockTxId := Some sampleTxId\<rparr>)
               (sampleSpend 32) (replicate 32 0x11) 2)) = [BTC_REDEEMED, XMR_REDEEMABLE] \<and>
   map phase (saved (redeemed (sampleWorld 32) (sampleState\<lparr>secretHash := sampleHashB, btcLockTxId := Some sampleTxId\<rparr>)
               (sampleSpend 32) (replicate 32 0x11) 2)) = [BTC_REDEEMED, XMR_REDEEMABLE]"
proof -
  have a: "btcLockTxId (sampleState\<lparr>secretHash := sampleHashA, btcLockTxId := Some sampleTxId\<rparr>) = Some sampleTxId"
    and b: "btcLockTxId (sampleState\<lparr>secretHash := sampleHashB, btcLockTxId := Some sampleTxId\<rparr>) = Some sampleTxId"
    by simp_all
  show ?thesis
    using waitForBtcRedeem_sample [OF a] waitForBtcRedeem_sample [OF b]
    by (simp add: redeemed_phases sampleHashA_def sampleHashB_def)
qed

text \<open>
  Claim C2, amended. When the monitor finds a transaction spending the lock output, it takes
  the second witness element for the revealed secret exactly when that element decodes to
  32 bytes; it does not compare its hash with \<open>secretHash\<close>. On such a spend it moves the swap
  to \<open>BTC_REDEEMED\<close>, stores the value as the secret, saves, and moves on to
  \<open>XMR_REDEEMABLE\<close>. It reaches these phases in no other way: a spend whose second element is
  not exactly 32 bytes is never taken for a redemption.
\<close>

theorem redemption_recognised:
  "(extractSecretFromWitness tx = Inr (Some s) \<longleftrightarrow>
      2 \<le> length (witness tx) \<and> hex_decode (witness tx ! 1) = Some s \<and> length s = 32) \<and>
   ((\<forall>i<n. clock env (c + i) < maxWaitTime \<and> unrecognised env txId (k + i)) \<and>
    clock env (c + n) < maxWaitTime \<and>
    findSpendingTransaction env (k + n) txId 0 = Inr (Some tx) \<and>
    extractSecretFromWitness tx = Inr (Some s) \<and> n < fuel \<longrightarrow>
      (\<exists>r final. redeemLoop fuel env st txId maxWaitTime c k = Some r \<and>
         map phase (saved r) = [BTC_REDEEMED, XMR_REDEEMABLE] \<and>
         outcome r = Inr final \<and> phase final = XMR_REDEEMABLE \<and>
         secret final = Some (hex_encode s))) \<and>
   (redeemLoop fuel' env st txId maxWaitTime c k = Some r' \<and> outcome r' = Inr final' \<longrightarrow>
      (\<exists>j tx' s'. findSpendingTransaction env j txId 0 = Inr (Some tx') \<and>
         2 \<le> length (witness tx') \<and> hex_decode (witness tx' ! 1) = Some s' \<and> length s' = 32 \<and>
         map phase (saved r') = [BTC_REDEEMED, XMR_REDEEMABLE] \<and>
         phase final' = XMR_REDEEMABLE \<and> secret final' = Some (hex_encode s')))"
proof (intro conjI impI)
  show "extractSecretFromWitness tx = Inr (Some s) \<longleftrightarrow>
      2 \<le> length (witness tx) \<and> hex_decode (witness tx ! 1) = Some s \<and> length s = 32"
    by (rule extractSecret_iff)
next
  assume h: "(\<forall>i<n. clock env (c + i) < maxWaitTime \<and> unrecognised env txId (k + i)) \<and>
    clock env (c + n) < maxWaitTime \<and>
    findSpendingTransaction env (k + n) txId 0 = Inr (Some tx) \<and>
    extractSecretFromWitness tx = Inr (Some s) \<and> n < fuel"
  then have "redeemLoop fuel env st txId maxWaitTime c k = Some (redeemed env st tx s (c + n + 1))"
    using redeemLoop_finds [of n env c maxWaitTime txId k tx s fuel st] by blast
  with redeemed_phases [of env st tx s "c + n + 1"]
  show "\<exists>r final. redeemLoop fuel env st txId maxWaitTime c k = Some r \<and>
         map phase (saved r) = [BTC_REDEEMED, XMR_REDEEMABLE] \<and>
         outcome r = Inr final \<and> phase final = XMR_REDEEMABLE \<and>
         secret final = Some (hex_encode s)"
    by auto
next
  assume h: "redeemLoop fuel' env st txId maxWaitTime c k = Some r' \<and> outcome r' = Inr final'"
  then obtain j tx' s' c' where
    found: "findSpendingTransaction env j txId 0 = Inr (Some tx')"
    and got: "extractSecretFromWitness tx' = Inr (Some s')"
    and r': "r' = redeemed env st tx' s' c'"
    using redeemLoop_success [of fuel' env st txId maxWaitTime c k r' final'] by blast
  from got have w: "2 \<le> length (witness tx') \<and> hex_decode (witness tx' ! 1) = Some s' \<and> length s' = 32"
    by (simp add: extractSecret_iff)
  from redeemed_phases [of env st tx' s' c'] r' h
  have "map phase (saved r') = [BTC_REDEEMED, XMR_REDEEMABLE] \<and>
         phase final' = XMR_REDEEMABLE \<and> secret final' = Some (hex_encode s')"
    by auto
  with found w
  show "\<exists>j tx' s'. findSpendingTransaction env j txId 0 = Inr (Some tx') \<and>
         2 \<le> length (witness tx') \<and> hex_decode (witness tx' ! 1) = Some s' \<and> length s' = 32 \<and>
         map phase (saved r') = [BTC_REDEEMED, XMR_REDEEMABLE] \<and>
         phase final' = XMR_REDEEMABLE \<and> secret final' = Some (hex_encode s')"
    by (intro exI [of _ j] exI [of _ tx'] exI [of _ s']) simp
qed

theorem redemption_recognised_witness:
  "extractSecretFromWitness (sampleSpend 32) = Inr (Some (replicate 32 0x11)) \<and>
   extractSecretFromWitness (sampleSpend 31) \<noteq> Inr (Some (replicate 31 0x11)) \<and>
   clock (sampleWorld 32) 1 < 3601000 \<and>
   findSpendingTransaction (sampleWorld 32) 0 sampleTxId 0 = Inr (Some (sampleSpend 32)) \<and>
   (\<exists>r final. redeemLoop (Suc 0) (sampleWorld 32) sampleState sampleTxId 3601000 1 0 = Some r \<and>
      map phase (saved r) = [BTC_REDEEMED, XMR_REDEEMABLE] \<and>
      outcome r = Inr final \<and> phase final = XMR_REDEEMABLE \<and>
      secret final = Some (hex_encode (replicate 32 0x11))) \<and>
   redeemLoop 3 (sampleWorld 31) sampleState sampleTxId 3601000 1 0 = None"
proof -
  have a: "clock (sampleWorld 32) 1 < 3601000"
    "findSpendingTransaction (sampleWorld 32) 0 sampleTxId 0 = Inr (Some (sampleSpend 32))"
    by (simp_all add: sampleWorld_fields)
  have none: "redeemLoop 3 (sampleWorld 31) sampleState sampleTxId 3601000 1 0 = None"
    by (simp add: numeral_3_eq_3 sampleWorld_fields extractSecret_sample31)
  have short: "extractSecretFromWitness (sampleSpend 31) \<noteq> Inr (Some (replicate 31 0x11))"
    by (simp add: extractSecret_sample31)
  have b: "clock (sampleWorld 32) (1 + 0) < 3601000"
    "findSpendingTransaction (sampleWorld 32) (0 + 0) sampleTxId 0 = Inr (Some (sampleSpend 32))"
    by (simp_all add: sampleWorld_fields)
  have idle: "\<forall>i<0. clock (sampleWorld 32) (1 + i) < 3601000 \<and> unrecognised (sampleWorld 32) sampleTxId (0 + i)"
    by simp
  from redemption_recognised [of "sampleSpend 32" "replicate 32 0x11" 0 "sampleWorld 32" 1 3601000
      sampleTxId 0 "Suc 0" sampleState 0 undefined undefined]
    a b idle extractSecret_sample32 none short
  show ?thesis by blast
qed

lemma redeemLoop_only_output_0:
  assumes "\<And>j t. findSpendingTransaction env' j t 0 = findSpendingTransaction env j t 0"
    and "clock env' = clock env"
  shows "redeemLoop fuel env' st txId m c k = redeemLoop fuel env st txId m c k"
proof (induction fuel arbitrary: c k)
  case 0
  show ?case by simp
next
  case (Suc fuel)
  have "redeemed env' st tx s n = redeemed env st tx s n" for tx s n
    by (simp add: redeemed_def assms(2))
  then show ?case
    by (simp add: assms Suc.IH split: sum.splits option.splits)
qed

lemma waitForBtcRedeem_only_output_0:
  assumes "\<And>j t. findSpendingTransaction env' j t 0 = findSpendingTransaction env j t 0"
    and "clock env' = clock env"
  shows "waitForBtcRedeem fuel env' st c = waitForBtcRedeem fuel env st c"
  using redeemLoop_only_output_0 [OF assms]
  by (simp add: waitForBtcRedeem_def assms(2) split: option.splits)

lemma waitForBtcRedeem_finds:
  assumes "btcLockTxId st = Some lockId" and "lockId \<noteq> []"
    and "\<forall>i<n. clock env (c + 1 + i) < clock env c + 3600000 \<and> unrecognised env lockId (0 + i)"
    and "clock env (c + 1 + n) < clock env c + 3600000"
    and "findSpendingTransaction env (0 + n) lockId 0 = Inr (Some spend)"
    and "extractSecretFromWitness spend = Inr (Some s)" and "n < fuel"
  shows "waitForBtcRedeem fuel env st c = Some (redeemed env st spend s (c + 1 + n + 1))"
  using redeemLoop_finds [OF assms(3,4,5,6,7), of st] assms(1,2)
  by (simp add: waitForBtcRedeem_def)

text \<open>What \<open>executeSwap\<close> has done when it returns a state, and when it returns one.\<close>

lemma executeSwap_returned:
  assumes "outcome (executeSwap env ready q addr utxos) = Inr st"
  shows "\<exists>resp htlc lockTx raw txId.
      initiateSwap env (sq_peerId q) (swapRequestOf env q addr) = Inr resp \<and>
      createHtlcScript (htlcParamsOf env resp) = Inr htlc \<and>
      createLockTransaction (library env) (lockParamsOf env q htlc utxos) = Inr lockTx \<and>
      Tx_extract (library env) lockTx = Inr raw \<and>
      broadcastTransaction env (hex_encode raw) = Inr txId \<and>
      btcLockTxId st = Some txId \<and> btcLockTxVout st = Some 0 \<and>
      btcLockTxHex st = Some (hex_encode raw) \<and> htlcScript st = Some (hex_encode htlc) \<and>
      btcAmount st = sq_btcAmount q \<and> phase st = BTC_LOCK_TX_BROADCAST"
  using assms
  by (auto simp: executeSwap_def swapRequestOf_def htlcParamsOf_def lockParamsOf_def networkOf_def
      Let_def updateSwapState_def transitionPhase_def createSwapState_def
      split: sum.splits if_splits)

lemma executeSwap_broadcasts:
  assumes "ready"
    and "isValidMoneroAddress env addr (if isMainnet env then Mainnet else Testnet)"
    and "initiateSwap env (sq_peerId q) (swapRequestOf env q addr) = Inr resp"
    and "createHtlcScript (htlcParamsOf env resp) = Inr htlc"
    and "createLockTransaction (library env) (lockParamsOf env q htlc utxos) = Inr lockTx"
    and "Tx_extract (library env) lockTx = Inr raw"
    and "broadcastTransaction env (hex_encode raw) = Inr txId"
  shows "\<exists>st. outcome (executeSwap env ready q addr utxos) = Inr st \<and>
      length (saved (executeSwap env ready q addr utxos)) = 3 \<and>
      last (saved (executeSwap env ready q addr utxos)) = st \<and>
      btcLockTxId st = Some txId \<and> btcLockTxVout st = Some 0 \<and>
      htlcScript st = Some (hex_encode htlc) \<and>
      btcCancelTimelock st = cancel_timelock resp \<and> phase st = BTC_LOCK_TX_BROADCAST"
  using assms
  by (simp add: executeSwap_def swapRequestOf_def htlcParamsOf_def lockParamsOf_def networkOf_def
      Let_def updateSwapState_def transitionPhase_def createSwapState_def)

text \<open>What \<open>refundSwap\<close> has done when it returns a transaction id, and when it returns one.\<close>

lemma refundSwap_returned:
  assumes "refund_outcome (refundSwap env (Some st)) = Inr refundTxId"
  shows "\<exists>lockId scriptHex decoded refundTxHex.
      btcLockTxId st = Some lockId \<and> htlcScript st = Some scriptHex \<and>
      hex_decode scriptHex = Some decoded \<and>
      signRefundTransaction env
        \<lparr> rf_lockTxId = lockId, rf_lockTxVout = btcLockTxVout st,
          rf_lockTxAmount = btcAmount st, rf_htlcScript = decoded,
          rf_refundPrivateKey = refundPrivateKey (keysAtIndex env 0 0),
          rf_destinationAddress = refundAddress (keysAtIndex env 0 0),
          rf_locktime = btcCancelTimelock st, rf_feeRate = Num 10 \<rparr> = Inr refundTxHex \<and>
      broadcastTransaction env refundTxHex = Inr refundTxId"
  using assms
  by (auto simp: refundSwap_def Let_def split: sum.splits option.splits if_splits)

lemma refundSwap_refunds:
  assumes "currentBlockHeight env = Inr (Some h)" and "canRefund st h"
    and "btcLockTxId st = Some lockId" and "lockId \<noteq> []"
    and "htlcScript st = Some scriptHex" and "scriptHex \<noteq> []"
    and "hex_decode scriptHex = Some decoded"
    and "signRefundTransaction env
        \<lparr> rf_lockTxId = lockId, rf_lockTxVout = btcLockTxVout st,
          rf_lockTxAmount = btcAmount st, rf_htlcScript = decoded,
          rf_refundPrivateKey = refundPrivateKey (keysAtIndex env 0 0),
          rf_destinationAddress = refundAddress (keysAtIndex env 0 0),
          rf_locktime = btcCancelTimelock st, rf_feeRate = Num 10 \<rparr> = Inr refundTxHex"
    and "broadcastTransaction env refundTxHex = Inr refundTxId"
  shows "refund_outcome (refundSwap env (Some st)) = Inr refundTxId \<and>
         map phase (refund_saved (refundSwap env (Some st))) = [REFUNDED] \<and>
         map btcRefundTxId (refund_saved (refundSwap env (Some st))) = [Some refundTxId]"
  using assms
  by (simp add: refundSwap_def Let_def transitionPhase_def updateSwapState_def)

text \<open>\<open>hex.decode\<close> reads back what \<open>hex.encode\<close> wrote.\<close>

lemma hexValue_hexDigit: "d < 16 \<Longrightarrow> hexValue (hexDigit d) = Some d"
proof -
  have "list_all (\<lambda>d. hexValue (hexDigit d) = Some d) [0..<16]" by code_simp
  then show "d < 16 \<Longrightarrow> hexValue (hexDigit d) = Some d"
    by (simp add: list_all_iff)
qed

lemma hex_decode_encode: "hex_decode (hex_encode bs) = Some bs"
proof (induction bs)
  case Nil
  show ?case by (simp add: hex_encode_def)
next
  case (Cons b bs)
  have "unat b < 256" using unsigned_less [of b] by simp
  then have hi: "unat b div 16 < 16" by simp
  have lo: "unat b mod 16 < 16" by simp
  have "(of_nat (16 * (unat b div 16) + unat b mod 16) :: byte) = b" by simp
  with Cons hexValue_hexDigit [OF hi] hexValue_hexDigit [OF lo] show ?case
    by (simp add: hex_encode_def)
qed

lemma hex_encode_empty: "hex_encode bs = [] \<longleftrightarrow> bs = []"
  by (cases bs) (simp_all add: hex_encode_def)

text \<open>The sample run: no unspent output to spend and nothing to lock, so that the
  transaction has no input that would need a signature.\<close>

lemma sampleWorld_initiates:
  "initiateSwap (sampleWorld n) peer req = Inr sampleResponse"
  by (simp add: sampleWorld_def)

lemma sampleScript:
  "\<exists>htlc. htlc \<noteq> [] \<and> createHtlcScript (htlcParamsOf (sampleWorld n) sampleResponse) = Inr htlc"
  by (simp add: createHtlcScript_def htlcParamsOf_def pushPrefix_def sampleWorld_def sampleKeys_def
      sampleLibrary_def sampleDigest_def hashSecret_def sampleResponse_def
      encodeNum_length [THEN le_less_trans] split: sum.splits)

lemma sampleLockTx:
  "createLockTransaction (library (sampleWorld n)) (lockParamsOf (sampleWorld n) emptyQuote htlc []) =
     Inr \<lparr> tx_inputs = [],
           tx_outputs = [\<lparr> out_address = htlcScriptToAddress sampleLibrary htlc MAINNET,
                           out_amount = 0 \<rparr>] \<rparr>"
proof -
  let ?P = "lockParamsOf (sampleWorld n) emptyQuote htlc []"
  have fields: "inputs ?P = []" "amount ?P = 0" "feeRate ?P = Num 10" "lock_network ?P = MAINNET"
    "lock_htlcScript ?P = htlc" "library (sampleWorld n) = sampleLibrary"
    by (simp_all add: lockParamsOf_def networkOf_def sampleWorld_def emptyQuote_def sampleQuote_def)
  have "createLockTransaction sampleLibrary ?P =
     Inr \<lparr> tx_inputs = map txInputOf (inputs ?P),
           tx_outputs =
             (if totalInput (inputs ?P) - amount ?P - 1500 > 546
              then [htlcOutput sampleLibrary ?P, changeOutput ?P 1500]
              else [htlcOutput sampleLibrary ?P]) \<rparr>"
    by (rule createLockTransaction_returns)
       (simp_all add: fields sample_fees totalInput_def sampleLibrary_def htlcScriptToAddress_def)
  then show ?thesis
    by (simp add: fields totalInput_def htlcOutput_def)
qed

lemma sampleExtract:
  "Tx_extract (library (sampleWorld n))
     \<lparr> tx_inputs = [], tx_outputs = [\<lparr> out_address = a, out_amount = 0 \<rparr>] \<rparr>
   = Inr [0x02, 0x00, 0x00, 0x00, 0x00, 0x01]"
  by (simp add: Tx_extract_def sampleWorld_def sampleLibrary_def inputSum_def outputSum_def)

lemma sampleBroadcast:
  "broadcastTransaction (sampleWorld n) (hex_encode [0x02, 0x00, 0x00, 0x00, 0x00, 0x01]) = Inr sampleTxId"
proof -
  have "hex_encode [0x02, 0x00, 0x00, 0x00, 0x00, 0x01] = ''020000000001''" by code_simp
  then show ?thesis by (simp add: sampleWorld_def)
qed

lemma sampleRefundBroadcast:
  "broadcastTransaction (sampleWorld n) (''02000000000101'' @ rest) = Inr sampleRefundTxId"
  by (simp add: sampleWorld_def)

lemma sampleTxId_nonempty: "sampleTxId \<noteq> []"
  by (simp add: sampleTxId_def)

lemma sampleRun_steps:
  "\<exists>htlc. htlc \<noteq> [] \<and>
     isValidMoneroAddress (sampleWorld n) sampleXmrAddress
       (if isMainnet (sampleWorld n) then Mainnet else Testnet) \<and>
     initiateSwap (sampleWorld n) (sq_peerId emptyQuote)
       (swapRequestOf (sampleWorld n) emptyQuote sampleXmrAddress) = Inr sampleResponse \<and>
     createHtlcScript (htlcParamsOf (sampleWorld n) sampleResponse) = Inr htlc \<and>
     createLockTransaction (library (sampleWorld n)) (lockParamsOf (sampleWorld n) emptyQuote htlc [])
       = Inr \<lparr> tx_inputs = [],
               tx_outputs = [\<lparr> out_address = htlcScriptToAddress sampleLibrary htlc MAINNET,
                               out_amount = 0 \<rparr>] \<rparr> \<and>
     Tx_extract (library (sampleWorld n))
         \<lparr> tx_inputs = [],
           tx_outputs = [\<lparr> out_address = htlcScriptToAddress sampleLibrary htlc MAINNET,
                           out_amount = 0 \<rparr>] \<rparr>
       = Inr [0x02, 0x00, 0x00, 0x00, 0x00, 0x01] \<and>
     broadcastTransaction (sampleWorld n) (hex_encode [0x02, 0x00, 0x00, 0x00, 0x00, 0x01]) = Inr sampleTxId"
proof -
  obtain htlc where "htlc \<noteq> []"
    and "createHtlcScript (htlcParamsOf (sampleWorld n) sampleResponse) = Inr htlc"
    using sampleScript [of n] by blast
  then show ?thesis
    using sampleWorld_initiates sampleLockTx sampleExtract sampleBroadcast
    by (intro exI [of _ htlc]) (simp add: sampleWorld_def)
qed

lemma sampleRun_saves:
  "length (saved (executeSwap (sampleWorld n) True emptyQuote sampleXmrAddress [])) = 3"
proof -
  from sampleRun_steps [of n] obtain htlc where
    "isValidMoneroAddress (sampleWorld n) sampleXmrAddress
       (if isMainnet (sampleWorld n) then Mainnet else Testnet)"
    "initiateSwap (sampleWorld n) (sq_peerId emptyQuote)
       (swapRequestOf (sampleWorld n) emptyQuote sampleXmrAddress) = Inr sampleResponse"
    "createHtlcScript (htlcParamsOf (sampleWorld n) sampleResponse) = Inr htlc"
    "createLockTransaction (library (sampleWorld n)) (lockParamsOf (sampleWorld n) emptyQuote htlc [])
       = Inr \<lparr> tx_inputs = [],
               tx_outputs = [\<lparr> out_address = htlcScriptToAddress sampleLibrary htlc MAINNET,
                               out_amount = 0 \<rparr>] \<rparr>"
    "Tx_extract (library (sampleWorld n))
         \<lparr> tx_inputs = [],
           tx_outputs = [\<lparr> out_address = htlcScriptToAddress sampleLibrary htlc MAINNET,
                           out_amount = 0 \<rparr>] \<rparr>
       = Inr [0x02, 0x00, 0x00, 0x00, 0x00, 0x01]"
    "broadcastTransaction (sampleWorld n) (hex_encode [0x02, 0x00, 0x00, 0x00, 0x00, 0x01]) = Inr sampleTxId"
    by blast
  from executeSwap_broadcasts [OF TrueI this] show ?thesis by blast
qed

lemma executeSwap_saved_secret:
  "\<forall>x \<in> set (saved (executeSwap env ready q addr utxos)).
     secret x = Some (hex_encode (randomSecret env))"
  by (simp add: executeSwap_def Let_def updateSwapState_def transitionPhase_def
      recordSwapError_def split: sum.splits)

lemma executeSwap_first_save:
  assumes "ready"
    and "isValidMoneroAddress env addr (if isMainnet env then Mainnet else Testnet)"
    and "initiateSwap env (sq_peerId q) (swapRequestOf env q addr) = Inr resp"
  shows "saved (executeSwap env ready q addr utxos) \<noteq> [] \<and>
         phase (hd (saved (executeSwap env ready q addr utxos))) = SWAP_INITIATED \<and>
         map entryPhase (phaseHistory (hd (saved (executeSwap env ready q addr utxos))))
           = [SWAP_INITIATED]"
  using assms
  by (simp add: executeSwap_def swapRequestOf_def Let_def updateSwapState_def createSwapState_def
      split: sum.splits)

lemma sampleWorld_accepts:
  "isValidMoneroAddress (sampleWorld n) a net"
  "\<exists>resp. initiateSwap (sampleWorld n) peer req = Inr resp"
  "randomSecret (sampleWorld n) = replicate 32 0x5a"
  by (simp_all add: sampleWorld_def)

text \<open>
  A lock transaction with an input cannot be extracted: \<open>createLockTransaction\<close> adds its
  inputs unsigned, and \<open>executeSwap\<close> calls \<open>extract\<close> on what it returns. A run of
  \<open>executeSwap\<close> that is given an unspent output to spend therefore ends after its first
  save, and throws.
\<close>

lemma lock_transaction_not_final:
  assumes "createLockTransaction lib params = Inr tx" and "inputs params \<noteq> []"
  shows "Tx_extract lib tx = Inl UnfinalizedInputs"
proof -
  from createLockTransaction_fee [OF assms(1)] obtain fee
    where "estimatedFee (length (inputs params)) (feeRate params) = Inr fee" by blast
  from createLockTransaction_outputs [OF assms(1) this]
  have "tx_inputs tx = map txInputOf (inputs params)" by simp
  with assms(2) have "\<not> list_all finalized (tx_inputs tx)"
    by (cases "inputs params") (simp_all add: txInputOf_def)
  then show ?thesis by (simp add: Tx_extract_def)
qed

lemma executeSwap_unsigned_inputs:
  assumes "utxos \<noteq> []"
  shows "isl (outcome (executeSwap env ready q addr utxos)) \<and>
         length (saved (executeSwap env ready q addr utxos)) \<le> 1"
proof -
  have "Tx_extract (library env) lockTx = Inl UnfinalizedInputs"
    if "createLockTransaction (library env)
          \<lparr> inputs = utxos, lock_htlcScript = htlc, amount = a, changeAddress = ca,
            feeRate = r, lock_network = net \<rparr> = Inr lockTx" for lockTx htlc a ca r net
    using lock_transaction_not_final [OF that] assms by simp
  then show ?thesis
    by (simp add: executeSwap_def Let_def split: sum.splits)
qed

lemma hex_encode_inject_sample:
  "hex_encode (replicate 32 (0x5a :: byte)) \<noteq> hex_encode (replicate 32 0x11)"
  by code_simp

text \<open>
  Claim C3, as stated: no state saved before the counterparty's spend is observed holds the
  secret. The first save of \<open>executeSwap\<close> already does: the state is still in
  \<open>SWAP_INITIATED\<close>, nothing but the initial entry is in its history, and its \<open>secret\<close> is
  the hex form of the secret generated for the swap.
\<close>

theorem executeSwap_first_save_counterexample:
  "saved (executeSwap (sampleWorld 32) True sampleQuote sampleXmrAddress [sampleUtxo 200000]) \<noteq> [] \<and>
   phase (hd (saved (executeSwap (sampleWorld 32) True sampleQuote sampleXmrAddress [sampleUtxo 200000])))
     = SWAP_INITIATED \<and>
   map entryPhase (phaseHistory
       (hd (saved (executeSwap (sampleWorld 32) True sampleQuote sampleXmrAddress [sampleUtxo 200000]))))
     = [SWAP_INITIATED] \<and>
   secret (hd (saved (executeSwap (sampleWorld 32) True sampleQuote sampleXmrAddress [sampleUtxo 200000])))
     = Some (hex_encode (replicate 32 0x5a))"
proof -
  obtain resp where
    "initiateSwap (sampleWorld 32) (sq_peerId sampleQuote) (swapRequestOf (sampleWorld 32) sampleQuote sampleXmrAddress)
       = Inr resp"
    using sampleWorld_accepts(2) by blast
  from executeSwap_first_save [OF TrueI sampleWorld_accepts(1) this, of "[sampleUtxo 200000]"]
    executeSwap_saved_secret [of "sampleWorld 32" True sampleQuote sampleXmrAddress "[sampleUtxo 200000]"]
  show ?thesis
    by (simp add: sampleWorld_accepts(3))
qed

text \<open>
  Claim C3, amended. Every state that \<open>executeSwap\<close> saves holds the secret: the first save,
  made right after the swap is initiated and still in phase \<open>SWAP_INITIATED\<close>, stores the
  hex form of the generated secret, and every later save of \<open>executeSwap\<close> keeps it. When the
  monitor is shown the counterparty's spend before its deadline, it saves two states, and
  both hold, in the place of the generated secret, the hex form of the 32 bytes that the
  second witness element of that spend decodes to. The monitor saves nothing else: every
  state it saves holds the bytes decoded from the second witness element of a spend of the
  lock output that the chain explorer reported.
\<close>

theorem executeSwap_persists_secret:
  "(\<forall>x \<in> set (saved (executeSwap env ready q addr utxos)).
      secret x = Some (hex_encode (randomSecret env))) \<and>
   (ready \<and> isValidMoneroAddress env addr (if isMainnet env then Mainnet else Testnet) \<and>
    initiateSwap env (sq_peerId q) (swapRequestOf env q addr) = Inr resp \<longrightarrow>
      saved (executeSwap env ready q addr utxos) \<noteq> [] \<and>
      phase (hd (saved (executeSwap env ready q addr utxos))) = SWAP_INITIATED) \<and>
   ((\<forall>i<n. clock env (c + i) < maxWaitTime \<and> unrecognised env txId (k + i)) \<and>
    clock env (c + n) < maxWaitTime \<and>
    findSpendingTransaction env (k + n) txId 0 = Inr (Some tx) \<and>
    2 \<le> length (witness tx) \<and> hex_decode (witness tx ! 1) = Some revealed \<and>
    length revealed = 32 \<and> n < fuel \<longrightarrow>
      (\<exists>r. redeemLoop fuel env st txId maxWaitTime c k = Some r \<and>
           length (saved r) = 2 \<and>
           (\<forall>x \<in> set (saved r). secret x = Some (hex_encode revealed)))) \<and>
   (redeemLoop fuel' env st txId maxWaitTime c k = Some r' \<longrightarrow>
      saved r' = [] \<or>
      (\<exists>j tx' revealed'. findSpendingTransaction env j txId 0 = Inr (Some tx') \<and>
         2 \<le> length (witness tx') \<and> hex_decode (witness tx' ! 1) = Some revealed' \<and>
         length revealed' = 32 \<and>
         (\<forall>x \<in> set (saved r'). secret x = Some (hex_encode revealed'))))"
proof (intro conjI impI)
  show "\<forall>x \<in> set (saved (executeSwap env ready q addr utxos)).
      secret x = Some (hex_encode (randomSecret env))"
    by (rule executeSwap_saved_secret)
next
  assume "ready \<and> isValidMoneroAddress env addr (if isMainnet env then Mainnet else Testnet) \<and>
    initiateSwap env (sq_peerId q) (swapRequestOf env q addr) = Inr resp"
  then show "saved (executeSwap env ready q addr utxos) \<noteq> []"
    and "phase (hd (saved (executeSwap env ready q addr utxos))) = SWAP_INITIATED"
    using executeSwap_first_save [of ready env addr q resp utxos] by simp_all
next
  assume h: "(\<forall>i<n. clock env (c + i) < maxWaitTime \<and> unrecognised env txId (k + i)) \<and>
    clock env (c + n) < maxWaitTime \<and>
    findSpendingTransaction env (k + n) txId 0 = Inr (Some tx) \<and>
    2 \<le> length (witness tx) \<and> hex_decode (witness tx ! 1) = Some revealed \<and>
    length revealed = 32 \<and> n < fuel"
  then have got: "extractSecretFromWitness tx = Inr (Some revealed)"
    by (simp add: extractSecret_iff)
  from h have "redeemLoop fuel env st txId maxWaitTime c k
      = Some (redeemed env st tx revealed (c + n + 1))"
    using redeemLoop_finds [of n env c maxWaitTime txId k tx revealed fuel st] got by blast
  moreover have "length (saved (redeemed env st tx revealed (c + n + 1))) = 2"
    using redeemed_phases [of env st tx revealed "c + n + 1"]
    by (metis length_map list.size(3,4) One_nat_def Suc_1 add.left_neutral plus_1_eq_Suc)
  ultimately show "\<exists>r. redeemLoop fuel env st txId maxWaitTime c k = Some r \<and>
           length (saved r) = 2 \<and>
           (\<forall>x \<in> set (saved r). secret x = Some (hex_encode revealed))"
    using redeemed_phases [of env st tx revealed "c + n + 1"] by simp
next
  assume "redeemLoop fuel' env st txId maxWaitTime c k = Some r'"
  from redeemLoop_cases [OF this]
  show "saved r' = [] \<or>
      (\<exists>j tx' revealed'. findSpendingTransaction env j txId 0 = Inr (Some tx') \<and>
         2 \<le> length (witness tx') \<and> hex_decode (witness tx' ! 1) = Some revealed' \<and>
         length revealed' = 32 \<and>
         (\<forall>x \<in> set (saved r'). secret x = Some (hex_encode revealed')))"
  proof
    assume "saved r' = [] \<and> isl (outcome r')"
    then show ?thesis by simp
  next
    assume "\<exists>j tx s c'. findSpendingTransaction env j txId 0 = Inr (Some tx) \<and>
      extractSecretFromWitness tx = Inr (Some s) \<and> r' = redeemed env st tx s c'"
    then obtain j tx' s c' where found: "findSpendingTransaction env j txId 0 = Inr (Some tx')"
      and got: "extractSecretFromWitness tx' = Inr (Some s)"
      and r: "r' = redeemed env st tx' s c'"
      by blast
    from got have w: "2 \<le> length (witness tx') \<and> hex_decode (witness tx' ! 1) = Some s \<and> length s = 32"
      by (simp add: extractSecret_iff)
    from redeemed_phases [of env st tx' s c'] r
    have "\<forall>x \<in> set (saved r'). secret x = Some (hex_encode s)" by simp
    with found w show ?thesis by blast
  qed
qed

text \<open>
  A run: the swap is initiated with the generated secret \<open>0x5a \<dots>\<close> and its first state
  is saved with it; the monitor, started on that state, is shown a spend whose second
  witness element is \<open>0x11 \<dots>\<close>, and both states it saves hold that value, which is not
  the generated one. A run with no unspent output to spend, which goes on to the broadcast,
  saves three states, all with the generated secret.
\<close>

theorem executeSwap_persists_secret_witness:
  "isValidMoneroAddress (sampleWorld 32) sampleXmrAddress (if isMainnet (sampleWorld 32) then Mainnet else Testnet) \<and>
   saved (executeSwap (sampleWorld 32) True sampleQuote sampleXmrAddress [sampleUtxo 200000]) \<noteq> [] \<and>
   list_all (\<lambda>x. secret x = Some (hex_encode (replicate 32 0x5a)))
     (saved (executeSwap (sampleWorld 32) True sampleQuote sampleXmrAddress [sampleUtxo 200000])) \<and>
   findSpendingTransaction (sampleWorld 32) 0 sampleTxId 0 = Inr (Some (sampleSpend 32)) \<and>
   hex_decode (witness (sampleSpend 32) ! 1) = Some (replicate 32 0x11) \<and>
   (\<exists>r. redeemLoop (Suc 0) (sampleWorld 32)
           (hd (saved (executeSwap (sampleWorld 32) True sampleQuote sampleXmrAddress [sampleUtxo 200000])))
           sampleTxId 3601000 1 0 = Some r \<and>
        length (saved r) = 2 \<and>
        list_all (\<lambda>x. secret x = Some (hex_encode (replicate 32 0x11))) (saved r)) \<and>
   hex_encode (replicate 32 (0x5a :: byte)) \<noteq> hex_encode (replicate 32 0x11) \<and>
   length (saved (executeSwap (sampleWorld 32) True emptyQuote sampleXmrAddress [])) = 3 \<and>
   list_all (\<lambda>x. secret x = Some (hex_encode (replicate 32 0x5a)))
     (saved (executeSwap (sampleWorld 32) True emptyQuote sampleXmrAddress []))"
proof -
  let ?run = "executeSwap (sampleWorld 32) True sampleQuote sampleXmrAddress [sampleUtxo 200000]"
  obtain resp where init:
    "initiateSwap (sampleWorld 32) (sq_peerId sampleQuote) (swapRequestOf (sampleWorld 32) sampleQuote sampleXmrAddress)
       = Inr resp"
    using sampleWorld_accepts(2) by blast
  have valid: "isValidMoneroAddress (sampleWorld 32) sampleXmrAddress
      (if isMainnet (sampleWorld 32) then Mainnet else Testnet)"
    by (rule sampleWorld_accepts(1))
  have idle: "\<forall>i<0. clock (sampleWorld 32) (1 + i) < 3601000 \<and>
      unrecognised (sampleWorld 32) sampleTxId (0 + i)"
    by simp
  have shown: "clock (sampleWorld 32) (1 + 0) < 3601000"
    "findSpendingTransaction (sampleWorld 32) (0 + 0) sampleTxId 0 = Inr (Some (sampleSpend 32))"
    by (simp_all add: sampleWorld_fields)
  have spend: "2 \<le> length (witness (sampleSpend 32))"
    "hex_decode (witness (sampleSpend 32) ! 1) = Some (replicate 32 0x11)"
    "length (replicate 32 (0x11 :: byte)) = 32"
    using extractSecret_sample32 by (simp_all add: extractSecret_iff)
  note all = executeSwap_persists_secret [of "sampleWorld 32" True sampleQuote sampleXmrAddress
      "[sampleUtxo 200000]" resp 0 1 3601000 sampleTxId 0 "sampleSpend 32" "replicate 32 0x11"
      "Suc 0" "hd (saved ?run)" 0 undefined]
  from all have a: "\<forall>x \<in> set (saved ?run). secret x = Some (hex_encode (randomSecret (sampleWorld 32)))"
    by blast
  from all init valid have b: "saved ?run \<noteq> []" by blast
  from all idle shown spend
  have c: "\<exists>r. redeemLoop (Suc 0) (sampleWorld 32) (hd (saved ?run)) sampleTxId 3601000 1 0 = Some r \<and>
        length (saved r) = 2 \<and>
        (\<forall>x \<in> set (saved r). secret x = Some (hex_encode (replicate 32 0x11)))"
    by simp
  from executeSwap_persists_secret [of "sampleWorld 32" True emptyQuote sampleXmrAddress "[]"]
  have d: "\<forall>x \<in> set (saved (executeSwap (sampleWorld 32) True emptyQuote sampleXmrAddress [])).
      secret x = Some (hex_encode (randomSecret (sampleWorld 32)))"
    by blast
  from a b c d valid shown(2) spend(2) hex_encode_inject_sample sampleRun_saves [of 32]
  show ?thesis
    by (simp add: sampleWorld_accepts(3) list_all_iff)
qed

lemma createLockTransaction_first_output:
  assumes built: "createLockTransaction lib params = Inr tx"
  shows "tx_outputs tx \<noteq> [] \<and> tx_outputs tx ! 0 = htlcOutput lib params \<and>
      out_address (tx_outputs tx ! 0)
        = htlcScriptToAddress lib (lock_htlcScript params) (lock_network params) \<and>
      out_amount (tx_outputs tx ! 0) = amount params \<and>
      (\<forall>i. 0 < i \<and> i < length (tx_outputs tx) \<longrightarrow>
         i = 1 \<and> out_address (tx_outputs tx ! i) = changeAddress params)"
proof -
  from createLockTransaction_fee [OF built] obtain fee
    where fee: "estimatedFee (length (inputs params)) (feeRate params) = Inr fee" by blast
  note outs = createLockTransaction_outputs [OF built fee, THEN conjunct2]
  have a: "tx_outputs tx \<noteq> []" using outs by simp
  have b: "tx_outputs tx ! 0 = htlcOutput lib params" using outs by simp
  have c: "\<forall>i. 0 < i \<and> i < length (tx_outputs tx) \<longrightarrow>
         i = 1 \<and> out_address (tx_outputs tx ! i) = changeAddress params"
    using outs by (auto simp: changeOutput_def less_Suc_eq split: if_splits)
  from a b c show ?thesis by (simp add: htlcOutput_def)
qed

text \<open>
  Claim C10. In every transaction that \<open>createLockTransaction\<close> returns, the output paying
  \<open>amount\<close> to the HTLC address is output 0, and the only other output there can be, at
  index 1, is the change output. The executor relies on it.

  \<^item> When \<open>executeSwap\<close> returns a state, it has built the HTLC script, has built the lock
    transaction with \<open>createLockTransaction\<close> from the quote's amount and the given unspent
    outputs, has handed the hex form of what \<open>extract\<close> gave for it to the chain explorer,
    and the state records the id the explorer answered as \<open>btcLockTxId\<close> and 0 as
    \<open>btcLockTxVout\<close>; output 0 of that transaction pays the quote's amount to the HTLC
    address. It returns such a state whenever each of these steps succeeds.
  \<^item> The redemption monitor asks the chain explorer for the spend of output 0 of
    \<open>btcLockTxId\<close>: when the explorer reports a spend of that output with a 32-byte second
    witness element before the deadline, the monitor ends with the redemption, and what the
    explorer would answer for any other output makes no difference to it.
  \<^item> \<open>refundSwap\<close> hands \<open>btcLockTxId\<close> and \<open>btcLockTxVout\<close> of the stored state to the
    wallet as the output to refund, and broadcasts what the wallet signed; for a state that
    \<open>executeSwap\<close> returned this is output 0 of the lock transaction.
\<close>

theorem lock_output_is_first:
  "(createLockTransaction lib params = Inr tx \<longrightarrow>
      tx_outputs tx \<noteq> [] \<and> tx_outputs tx ! 0 = htlcOutput lib params \<and>
      out_address (tx_outputs tx ! 0)
        = htlcScriptToAddress lib (lock_htlcScript params) (lock_network params) \<and>
      out_amount (tx_outputs tx ! 0) = amount params \<and>
      (\<forall>i. 0 < i \<and> i < length (tx_outputs tx) \<longrightarrow>
         i = 1 \<and> out_address (tx_outputs tx ! i) = changeAddress params)) \<and>
   (outcome (executeSwap env ready q addr utxos) = Inr st \<longrightarrow>
      (\<exists>resp' htlc' lockTx' raw' txId'.
         initiateSwap env (sq_peerId q) (swapRequestOf env q addr) = Inr resp' \<and>
         createHtlcScript (htlcParamsOf env resp') = Inr htlc' \<and>
         createLockTransaction (library env) (lockParamsOf env q htlc' utxos) = Inr lockTx' \<and>
         tx_outputs lockTx' ! 0 =
           \<lparr> out_address = htlcScriptToAddress (library env) htlc' (networkOf env),
             out_amount = sq_btcAmount q \<rparr> \<and>
         Tx_extract (library env) lockTx' = Inr raw' \<and>
         broadcastTransaction env (hex_encode raw') = Inr txId' \<and>
         btcLockTxId st = Some txId' \<and> btcLockTxVout st = Some 0 \<and>
         btcLockTxHex st = Some (hex_encode raw') \<and> htlcScript st = Some (hex_encode htlc') \<and>
         btcAmount st = sq_btcAmount q \<and> phase st = BTC_LOCK_TX_BROADCAST)) \<and>
   (ready \<and> isValidMoneroAddress env addr (if isMainnet env then Mainnet else Testnet) \<and>
    initiateSwap env (sq_peerId q) (swapRequestOf env q addr) = Inr resp \<and>
    createHtlcScript (htlcParamsOf env resp) = Inr htlc \<and>
    createLockTransaction (library env) (lockParamsOf env q htlc utxos) = Inr lockTx \<and>
    Tx_extract (library env) lockTx = Inr raw \<and>
    broadcastTransaction env (hex_encode raw) = Inr txId \<longrightarrow>
      (\<exists>returned. outcome (executeSwap env ready q addr utxos) = Inr returned \<and>
         length (saved (executeSwap env ready q addr utxos)) = 3 \<and>
         last (saved (executeSwap env ready q addr utxos)) = returned \<and>
         btcLockTxId returned = Some txId \<and> btcLockTxVout returned = Some 0 \<and>
         htlcScript returned = Some (hex_encode htlc) \<and>
         btcCancelTimelock returned = cancel_timelock resp \<and>
         phase returned = BTC_LOCK_TX_BROADCAST)) \<and>
   (btcLockTxId stored = Some lockId \<and> lockId \<noteq> [] \<and>
    (\<forall>i<n. clock env (c + 1 + i) < clock env c + 3600000 \<and> unrecognised env lockId (0 + i)) \<and>
    clock env (c + 1 + n) < clock env c + 3600000 \<and>
    findSpendingTransaction env (0 + n) lockId 0 = Inr (Some spend) \<and>
    extractSecretFromWitness spend = Inr (Some s) \<and> n < fuel \<longrightarrow>
      waitForBtcRedeem fuel env stored c = Some (redeemed env stored spend s (c + 1 + n + 1))) \<and>
   ((\<forall>j t. findSpendingTransaction env' j t 0 = findSpendingTransaction env j t 0) \<and>
    clock env' = clock env \<longrightarrow>
      waitForBtcRedeem fuel env' stored c = waitForBtcRedeem fuel env stored c) \<and>
   (refund_outcome (refundSwap env (Some stored)) = Inr refundTxId \<longrightarrow>
      (\<exists>lockId' scriptHex' decoded' refundTxHex'.
         btcLockTxId stored = Some lockId' \<and> htlcScript stored = Some scriptHex' \<and>
         hex_decode scriptHex' = Some decoded' \<and>
         signRefundTransaction env
           \<lparr> rf_lockTxId = lockId', rf_lockTxVout = btcLockTxVout stored,
             rf_lockTxAmount = btcAmount stored, rf_htlcScript = decoded',
             rf_refundPrivateKey = refundPrivateKey (keysAtIndex env 0 0),
             rf_destinationAddress = refundAddress (keysAtIndex env 0 0),
             rf_locktime = btcCancelTimelock stored, rf_feeRate = Num 10 \<rparr> = Inr refundTxHex' \<and>
         broadcastTransaction env refundTxHex' = Inr refundTxId)) \<and>
   (currentBlockHeight env = Inr (Some h) \<and> canRefund stored h \<and>
    btcLockTxId stored = Some lockId \<and> lockId \<noteq> [] \<and>
    htlcScript stored = Some scriptHex \<and> scriptHex \<noteq> [] \<and>
    hex_decode scriptHex = Some decoded \<and>
    signRefundTransaction env
      \<lparr> rf_lockTxId = lockId, rf_lockTxVout = btcLockTxVout stored,
        rf_lockTxAmount = btcAmount stored, rf_htlcScript = decoded,
        rf_refundPrivateKey = refundPrivateKey (keysAtIndex env 0 0),
        rf_destinationAddress = refundAddress (keysAtIndex env 0 0),
        rf_locktime = btcCancelTimelock stored, rf_feeRate = Num 10 \<rparr> = Inr refundTxHex \<and>
    broadcastTransaction env refundTxHex = Inr refundTxId \<longrightarrow>
      refund_outcome (refundSwap env (Some stored)) = Inr refundTxId \<and>
      map phase (refund_saved (refundSwap env (Some stored))) = [REFUNDED])"
proof (intro conjI)
  show "createLockTransaction lib params = Inr tx \<longrightarrow>
      tx_outputs tx \<noteq> [] \<and> tx_outputs tx ! 0 = htlcOutput lib params \<and>
      out_address (tx_outputs tx ! 0)
        = htlcScriptToAddress lib (lock_htlcScript params) (lock_network params) \<and>
      out_amount (tx_outputs tx ! 0) = amount params \<and>
      (\<forall>i. 0 < i \<and> i < length (tx_outputs tx) \<longrightarrow>
         i = 1 \<and> out_address (tx_outputs tx ! i) = changeAddress params)"
    using createLockTransaction_first_output [of lib params tx] by blast
next
  show "outcome (executeSwap env ready q addr utxos) = Inr st \<longrightarrow>
      (\<exists>resp' htlc' lockTx' raw' txId'.
         initiateSwap env (sq_peerId q) (swapRequestOf env q addr) = Inr resp' \<and>
         createHtlcScript (htlcParamsOf env resp') = Inr htlc' \<and>
         createLockTransaction (library env) (lockParamsOf env q htlc' utxos) = Inr lockTx' \<and>
         tx_outputs lockTx' ! 0 =
           \<lparr> out_address = htlcScriptToAddress (library env) htlc' (networkOf env),
             out_amount = sq_btcAmount q \<rparr> \<and>
         Tx_extract (library env) lockTx' = Inr raw' \<and>
         broadcastTransaction env (hex_encode raw') = Inr txId' \<and>
         btcLockTxId st = Some txId' \<and> btcLockTxVout st = Some 0 \<and>
         btcLockTxHex st = Some (hex_encode raw') \<and> htlcScript st = Some (hex_encode htlc') \<and>
         btcAmount st = sq_btcAmount q \<and> phase st = BTC_LOCK_TX_BROADCAST)"
  proof
    assume "outcome (executeSwap env ready q addr utxos) = Inr st"
    from executeSwap_returned [OF this] obtain resp' htlc' lockTx' raw' txId' where
      steps: "initiateSwap env (sq_peerId q) (swapRequestOf env q addr) = Inr resp'"
        "createHtlcScript (htlcParamsOf env resp') = Inr htlc'"
        "createLockTransaction (library env) (lockParamsOf env q htlc' utxos) = Inr lockTx'"
        "Tx_extract (library env) lockTx' = Inr raw'"
        "broadcastTransaction env (hex_encode raw') = Inr txId'"
      and recorded: "btcLockTxId st = Some txId'" "btcLockTxVout st = Some 0"
        "btcLockTxHex st = Some (hex_encode raw')" "htlcScript st = Some (hex_encode htlc')"
        "btcAmount st = sq_btcAmount q" "phase st = BTC_LOCK_TX_BROADCAST"
      by blast
    from createLockTransaction_first_output [OF steps(3)]
    have "tx_outputs lockTx' ! 0 =
           \<lparr> out_address = htlcScriptToAddress (library env) htlc' (networkOf env),
             out_amount = sq_btcAmount q \<rparr>"
      by (simp add: htlcOutput_def lockParamsOf_def)
    with steps recorded show "\<exists>resp' htlc' lockTx' raw' txId'.
         initiateSwap env (sq_peerId q) (swapRequestOf env q addr) = Inr resp' \<and>
         createHtlcScript (htlcParamsOf env resp') = Inr htlc' \<and>
         createLockTransaction (library env) (lockParamsOf env q htlc' utxos) = Inr lockTx' \<and>
         tx_outputs lockTx' ! 0 =
           \<lparr> out_address = htlcScriptToAddress (library env) htlc' (networkOf env),
             out_amount = sq_btcAmount q \<rparr> \<and>
         Tx_extract (library env) lockTx' = Inr raw' \<and>
         broadcastTransaction env (hex_encode raw') = Inr txId' \<and>
         btcLockTxId st = Some txId' \<and> btcLockTxVout st = Some 0 \<and>
         btcLockTxHex st = Some (hex_encode raw') \<and> htlcScript st = Some (hex_encode htlc') \<and>
         btcAmount st = sq_btcAmount q \<and> phase st = BTC_LOCK_TX_BROADCAST"
      by blast
  qed
next
  show "ready \<and> isValidMoneroAddress env addr (if isMainnet env then Mainnet else Testnet) \<and>
    initiateSwap env (sq_peerId q) (swapRequestOf env q addr) = Inr resp \<and>
    createHtlcScript (htlcParamsOf env resp) = Inr htlc \<and>
    createLockTransaction (library env) (lockParamsOf env q htlc utxos) = Inr lockTx \<and>
    Tx_extract (library env) lockTx = Inr raw \<and>
    broadcastTransaction env (hex_encode raw) = Inr txId \<longrightarrow>
      (\<exists>returned. outcome (executeSwap env ready q addr utxos) = Inr returned \<and>
         length (saved (executeSwap env ready q addr utxos)) = 3 \<and>
         last (saved (executeSwap env ready q addr utxos)) = returned \<and>
         btcLockTxId returned = Some txId \<and> btcLockTxVout returned = Some 0 \<and>
         htlcScript returned = Some (hex_encode htlc) \<and>
         btcCancelTimelock returned = cancel_timelock resp \<and>
         phase returned = BTC_LOCK_TX_BROADCAST)"
    using executeSwap_broadcasts [of ready env addr q resp htlc utxos lockTx raw txId] by blast
next
  show "btcLockTxId stored = Some lockId \<and> lockId \<noteq> [] \<and>
    (\<forall>i<n. clock env (c + 1 + i) < clock env c + 3600000 \<and> unrecognised env lockId (0 + i)) \<and>
    clock env (c + 1 + n) < clock env c + 3600000 \<and>
    findSpendingTransaction env (0 + n) lockId 0 = Inr (Some spend) \<and>
    extractSecretFromWitness spend = Inr (Some s) \<and> n < fuel \<longrightarrow>
      waitForBtcRedeem fuel env stored c = Some (redeemed env stored spend s (c + 1 + n + 1))"
    using waitForBtcRedeem_finds [of stored lockId n env c spend s fuel] by blast
next
  show "(\<forall>j t. findSpendingTransaction env' j t 0 = findSpendingTransaction env j t 0) \<and>
    clock env' = clock env \<longrightarrow>
      waitForBtcRedeem fuel env' stored c = waitForBtcRedeem fuel env stored c"
    using waitForBtcRedeem_only_output_0 [of env' env fuel stored c] by blast
next
  show "refund_outcome (refundSwap env (Some stored)) = Inr refundTxId \<longrightarrow>
      (\<exists>lockId' scriptHex' decoded' refundTxHex'.
         btcLockTxId stored = Some lockId' \<and> htlcScript stored = Some scriptHex' \<and>
         hex_decode scriptHex' = Some decoded' \<and>
         signRefundTransaction env
           \<lparr> rf_lockTxId = lockId', rf_lockTxVout = btcLockTxVout stored,
             rf_lockTxAmount = btcAmount stored, rf_htlcScript = decoded',
             rf_refundPrivateKey = refundPrivateKey (keysAtIndex env 0 0),
             rf_destinationAddress = refundAddress (keysAtIndex env 0 0),
             rf_locktime = btcCancelTimelock stored, rf_feeRate = Num 10 \<rparr> = Inr refundTxHex' \<and>
         broadcastTransaction env refundTxHex' = Inr refundTxId)"
    using refundSwap_returned [of env stored refundTxId] by blast
next
  show "currentBlockHeight env = Inr (Some h) \<and> canRefund stored h \<and>
    btcLockTxId stored = Some lockId \<and> lockId \<noteq> [] \<and>
    htlcScript stored = Some scriptHex \<and> scriptHex \<noteq> [] \<and>
    hex_decode scriptHex = Some decoded \<and>
    signRefundTransaction env
      \<lparr> rf_lockTxId = lockId, rf_lockTxVout = btcLockTxVout stored,
        rf_lockTxAmount = btcAmount stored, rf_htlcScript = decoded,
        rf_refundPrivateKey = refundPrivateKey (keysAtIndex env 0 0),
        rf_destinationAddress = refundAddress (keysAtIndex env 0 0),
        rf_locktime = btcCancelTimelock stored, rf_feeRate = Num 10 \<rparr> = Inr refundTxHex \<and>
    broadcastTransaction env refundTxHex = Inr refundTxId \<longrightarrow>
      refund_outcome (refundSwap env (Some stored)) = Inr refundTxId \<and>
      map phase (refund_saved (refundSwap env (Some stored))) = [REFUNDED]"
    using refundSwap_refunds [of env h stored lockId scriptHex decoded refundTxHex refundTxId]
    by blast
qed

text \<open>
  A run. The lock transaction of the sample parameters has the HTLC output first. A swap
  for the empty quote, with no unspent output to spend, is broadcast, and the state returned
  records the explorer's id and output 0; the monitor started on that state finds the spend
  of output 0, and is not disturbed by an explorer that fails for every other output; the
  refund of that state has the wallet sign a spend of output 0 of the lock transaction.
\<close>

theorem lock_output_is_first_witness:
  "tx_outputs (projr (createLockTransaction sampleLibrary (sampleLock [100000] 50000))) ! 0
     = \<lparr> out_address = htlcScriptToAddress sampleLibrary [0x63, 0x68, 0xac] MAINNET,
         out_amount = 50000 \<rparr> \<and>
   length (tx_outputs (projr (createLockTransaction sampleLibrary (sampleLock [100000] 50000)))) = 2 \<and>
   (\<exists>returned.
      outcome (executeSwap (sampleWorld 32) True emptyQuote sampleXmrAddress []) = Inr returned \<and>
      btcLockTxId returned = Some sampleTxId \<and> btcLockTxVout returned = Some 0 \<and>
      findSpendingTransaction (sampleWorld 32) 0 sampleTxId 0 = Inr (Some (sampleSpend 32)) \<and>
      waitForBtcRedeem 1 (sampleWorld 32) returned 8
        = Some (redeemed (sampleWorld 32) returned (sampleSpend 32) (replicate 32 0x11) 10) \<and>
      waitForBtcRedeem 1 (sampleWorld 32\<lparr>findSpendingTransaction :=
          (\<lambda>j t v. if v = 0 then Inr (Some (sampleSpend 32)) else Inl NoLockTxId)\<rparr>) returned 8
        = waitForBtcRedeem 1 (sampleWorld 32) returned 8 \<and>
      (\<exists>p refundTxHex.
         signRefundTransaction (sampleWorld 32) p = Inr refundTxHex \<and>
         rf_lockTxId p = sampleTxId \<and> rf_lockTxVout p = Some 0 \<and>
         broadcastTransaction (sampleWorld 32) refundTxHex = Inr sampleRefundTxId) \<and>
      refund_outcome (refundSwap (sampleWorld 32) (Some returned)) = Inr sampleRefundTxId)"
proof -
  let ?W = "sampleWorld 32"
  let ?W' = "sampleWorld 32\<lparr>findSpendingTransaction :=
          (\<lambda>j t v. if v = 0 then Inr (Some (sampleSpend 32)) else Inl NoLockTxId)\<rparr>"
  let ?resp = sampleResponse
  let ?tx = "projr (createLockTransaction sampleLibrary (sampleLock [100000] 50000))"
  note all = lock_output_is_first [where lib = sampleLibrary and params = "sampleLock [100000] 50000"
      and tx = ?tx and env = ?W and ready = True and q = emptyQuote and addr = sampleXmrAddress
      and utxos = "[]" and env' = ?W']
  have built: "createLockTransaction sampleLibrary (sampleLock [100000] 50000)
     = Inr \<lparr> tx_inputs = [txInputOf (sampleUtxo 100000)],
             tx_outputs =
               [\<lparr> out_address = htlcScriptToAddress sampleLibrary [0x63, 0x68, 0xac] MAINNET,
                  out_amount = 50000 \<rparr>,
                \<lparr> out_address = ''bc1qw508d6qejxtdg4y5r3zarvary0c5xw7kv8f3t4'',
                  out_amount = 47800 \<rparr>] \<rparr>"
    using sampleLock_built [of 100000 50000 "Num 10" 2200] by (simp add: sample_fees sampleLock_rate)
  then have isr: "createLockTransaction sampleLibrary (sampleLock [100000] 50000) = Inr ?tx"
    by simp
  from all [THEN conjunct1, THEN mp, OF isr]
  have first: "tx_outputs ?tx ! 0 = htlcOutput sampleLibrary (sampleLock [100000] 50000)"
    by blast
  have a: "tx_outputs ?tx ! 0
     = \<lparr> out_address = htlcScriptToAddress sampleLibrary [0x63, 0x68, 0xac] MAINNET,
         out_amount = 50000 \<rparr>"
    unfolding first by (simp add: htlcOutput_def sampleLock_def)
  have b: "length (tx_outputs ?tx) = 2"
    by (simp add: built)
  from sampleRun_steps [of 32] obtain htlc where nonempty: "htlc \<noteq> []"
    and steps: "True \<and>
      isValidMoneroAddress ?W sampleXmrAddress (if isMainnet ?W then Mainnet else Testnet) \<and>
      initiateSwap ?W (sq_peerId emptyQuote) (swapRequestOf ?W emptyQuote sampleXmrAddress) = Inr ?resp \<and>
      createHtlcScript (htlcParamsOf ?W ?resp) = Inr htlc \<and>
      createLockTransaction (library ?W) (lockParamsOf ?W emptyQuote htlc [])
        = Inr \<lparr> tx_inputs = [],
                tx_outputs = [\<lparr> out_address = htlcScriptToAddress sampleLibrary htlc MAINNET,
                                out_amount = 0 \<rparr>] \<rparr> \<and>
      Tx_extract (library ?W)
          \<lparr> tx_inputs = [],
            tx_outputs = [\<lparr> out_address = htlcScriptToAddress sampleLibrary htlc MAINNET,
                            out_amount = 0 \<rparr>] \<rparr>
        = Inr [0x02, 0x00, 0x00, 0x00, 0x00, 0x01] \<and>
      broadcastTransaction ?W (hex_encode [0x02, 0x00, 0x00, 0x00, 0x00, 0x01]) = Inr sampleTxId"
    by blast
  from all [THEN conjunct2, THEN conjunct2, THEN conjunct1, THEN mp, OF steps]
  obtain returned where ret: "outcome (executeSwap ?W True emptyQuote sampleXmrAddress []) = Inr returned"
    and lockId: "btcLockTxId returned = Some sampleTxId"
    and lockVout: "btcLockTxVout returned = Some 0"
    and lockScript: "htlcScript returned = Some (hex_encode htlc)"
    and cancel: "btcCancelTimelock returned = 800072"
    and ph: "phase returned = BTC_LOCK_TX_BROADCAST"
    by (auto simp: sampleResponse_def)
  have shown: "findSpendingTransaction ?W 0 sampleTxId 0 = Inr (Some (sampleSpend 32))"
    by (simp add: sampleWorld_fields)
  have watch: "btcLockTxId returned = Some sampleTxId \<and> sampleTxId \<noteq> [] \<and>
      (\<forall>i<0. clock ?W (8 + 1 + i) < clock ?W 8 + 3600000 \<and> unrecognised ?W sampleTxId (0 + i)) \<and>
      clock ?W (8 + 1 + 0) < clock ?W 8 + 3600000 \<and>
      findSpendingTransaction ?W (0 + 0) sampleTxId 0 = Inr (Some (sampleSpend 32)) \<and>
      extractSecretFromWitness (sampleSpend 32) = Inr (Some (replicate 32 0x11)) \<and> 0 < (1 :: nat)"
    using lockId sampleTxId_nonempty extractSecret_sample32 by (simp add: sampleWorld_fields)
  from all [THEN conjunct2, THEN conjunct2, THEN conjunct2, THEN conjunct1, THEN mp, OF watch]
  have c: "waitForBtcRedeem 1 ?W returned 8
        = Some (redeemed ?W returned (sampleSpend 32) (replicate 32 0x11) 10)"
    by simp
  have same: "(\<forall>j t. findSpendingTransaction ?W' j t 0 = findSpendingTransaction ?W j t 0) \<and>
      clock ?W' = clock ?W"
    by (simp add: sampleWorld_def)
  note d = all [THEN conjunct2, THEN conjunct2, THEN conjunct2, THEN conjunct2, THEN conjunct1,
      THEN mp, OF same, of 1 returned 8]
  let ?p = "\<lparr> rf_lockTxId = sampleTxId, rf_lockTxVout = btcLockTxVout returned,
        rf_lockTxAmount = btcAmount returned, rf_htlcScript = htlc,
        rf_refundPrivateKey = refundPrivateKey (keysAtIndex ?W 0 0),
        rf_destinationAddress = refundAddress (keysAtIndex ?W 0 0),
        rf_locktime = btcCancelTimelock returned, rf_feeRate = Num 10 \<rparr>"
  have signed: "signRefundTransaction ?W ?p = Inr (''02000000000101'' @ sampleTxId @ hex_encode [0])"
    by (simp add: sampleWorld_def lockVout)
  have sent: "broadcastTransaction ?W (''02000000000101'' @ sampleTxId @ hex_encode [0]) = Inr sampleRefundTxId"
    by (rule sampleRefundBroadcast)
  have refundable: "currentBlockHeight ?W = Inr (Some 800100) \<and> canRefund returned 800100 \<and>
      btcLockTxId returned = Some sampleTxId \<and> sampleTxId \<noteq> [] \<and>
      htlcScript returned = Some (hex_encode htlc) \<and> hex_encode htlc \<noteq> [] \<and>
      hex_decode (hex_encode htlc) = Some htlc \<and>
      signRefundTransaction ?W ?p = Inr (''02000000000101'' @ sampleTxId @ hex_encode [0]) \<and>
      broadcastTransaction ?W (''02000000000101'' @ sampleTxId @ hex_encode [0]) = Inr sampleRefundTxId"
    using lockId lockScript cancel ph nonempty sampleTxId_nonempty signed sent
    by (simp add: canRefund_def hex_decode_encode hex_encode_empty) (simp add: sampleWorld_def)
  from all [THEN conjunct2, THEN conjunct2, THEN conjunct2, THEN conjunct2, THEN conjunct2,
      THEN conjunct2, THEN mp, OF refundable]
  have e: "refund_outcome (refundSwap ?W (Some returned)) = Inr sampleRefundTxId"
    by simp
  have f: "\<exists>p refundTxHex.
         signRefundTransaction ?W p = Inr refundTxHex \<and>
         rf_lockTxId p = sampleTxId \<and> rf_lockTxVout p = Some 0 \<and>
         broadcastTransaction ?W refundTxHex = Inr sampleRefundTxId"
    using signed sent lockVout
    by (intro exI [of _ ?p] exI [of _ "''02000000000101'' @ sampleTxId @ hex_encode [0]"]) simp
  from ret lockId lockVout shown c d e f
  have "\<exists>returned.
      outcome (executeSwap ?W True emptyQuote sampleXmrAddress []) = Inr returned \<and>
      btcLockTxId returned = Some sampleTxId \<and> btcLockTxVout returned = Some 0 \<and>
      findSpendingTransaction ?W 0 sampleTxId 0 = Inr (Some (sampleSpend 32)) \<and>
      waitForBtcRedeem 1 ?W returned 8
        = Some (redeemed ?W returned (sampleSpend 32) (replicate 32 0x11) 10) \<and>
      waitForBtcRedeem 1 ?W' returned 8 = waitForBtcRedeem 1 ?W returned 8 \<and>
      (\<exists>p refundTxHex.
         signRefundTransaction ?W p = Inr refundTxHex \<and>
         rf_lockTxId p = sampleTxId \<and> rf_lockTxVout p = Some 0 \<and>
         broadcastTransaction ?W refundTxHex = Inr sampleRefundTxId) \<and>
      refund_outcome (refundSwap ?W (Some returned)) = Inr sampleRefundTxId"
    by (intro exI [of _ returned] conjI)
  with a b show ?thesis by (intro conjI)
qed

section \<open>Properties of the persistence\<close>

lemma reviver_not_undefined: "v \<noteq> JUndefined \<Longrightarrow> reviver v \<noteq> Inr JUndefined"
  by (cases v) (auto simp: reviver_def split: option.splits)

lemma internalize_not_undefined: "internalize j \<noteq> Inr JUndefined"
  by (cases j) (auto simp: reviver_not_undefined split: sum.splits)

lemma loadsAs_not_undefined: "loadsAs v w \<Longrightarrow> w \<noteq> JUndefined"
  using internalize_not_undefined by (auto simp: loadsAs_def)

lemma elements_loadAs:
  "list_all2 loadsAs xs ys \<Longrightarrow>
   \<exists>js. serializeElements xs = Inr js \<and> internalizeElements js = Inr ys"
proof (induction xs ys rule: list_all2_induct)
  case Nil
  show ?case by simp
next
  case (Cons x xs y ys)
  from Cons.hyps(1) obtain j where "serializeProperty x = Inr (Some j)" "internalize j = Inr y"
    by (auto simp: loadsAs_def)
  moreover from Cons.IH obtain js where "serializeElements xs = Inr js" "internalizeElements js = Inr ys"
    by blast
  ultimately show ?case by simp
qed

lemma members_loadAs:
  "list_all2 memberLoadsAs kvs kws \<Longrightarrow>
   \<exists>ms. serializeMembers kvs = Inr ms \<and> internalizeMembers ms = Inr kws"
proof (induction kvs kws rule: list_all2_induct)
  case Nil
  show ?case by simp
next
  case (Cons kv kvs kw kws)
  from Cons.hyps(1) obtain j where j: "serializeProperty (snd kv) = Inr (Some j)"
    "internalize j = Inr (snd kw)" and key: "fst kv = fst kw"
    by (auto simp: loadsAs_def memberLoadsAs_def)
  from j(2) have "snd kw \<noteq> JUndefined" using internalize_not_undefined by metis
  moreover from Cons.IH obtain ms where "serializeMembers kvs = Inr ms" "internalizeMembers ms = Inr kws"
    by blast
  ultimately show ?case using j key by simp
qed

lemma loadsAs_JArray: "list_all2 loadsAs xs ys \<Longrightarrow> loadsAs (JArray xs) (JArray ys)"
  using elements_loadAs [of xs ys]
  by (auto simp: loadsAs_def serializeProperty.simps replacer_def reviver_def)

lemma loadsAs_JObject: "list_all2 memberLoadsAs kvs kws \<Longrightarrow> loadsAs (JObject kvs) (JObject kws)"
  using members_loadAs [of kvs kws]
  by (auto simp: loadsAs_def serializeProperty.simps replacer_def reviver_def)

lemma loadsAs_JString: "\<not> startsWith s ''bigint:'' \<Longrightarrow> loadsAs (JString s) (JString s)"
  by (simp add: loadsAs_def serializeProperty.simps replacer_def reviver_def)

lemma loadsAs_tagged:
  "startsWith s ''bigint:'' \<Longrightarrow> BigInt_of_string (drop 7 s) = Some n \<Longrightarrow>
   loadsAs (JString s) (JBigInt n)"
  by (simp add: loadsAs_def serializeProperty.simps replacer_def reviver_def)

lemma loadsAs_Num: "loadsAs (JNumber (Num r)) (JNumber (Num r))"
  by (simp add: loadsAs_def serializeProperty.simps replacer_def reviver_def)

lemma loadsAs_not_finite:
  "(case x of Num r \<Rightarrow> False | _ \<Rightarrow> True) \<Longrightarrow> loadsAs (JNumber x) JNull"
  by (cases x) (simp_all add: loadsAs_def serializeProperty.simps replacer_def reviver_def)

lemma loadsAs_unique: "loadsAs v w \<Longrightarrow> loadsAs v w' \<Longrightarrow> w' = w"
  by (auto simp: loadsAs_def)

lemma roundTrip_loadsAs: "loadsAs v w \<Longrightarrow> roundTrip v = Inr w"
  by (auto simp: loadsAs_def roundTrip_def serializeSwapState_def deserializeSwapState_def)

lemma digitChar_decimal:
  assumes "d < 10"
  shows "digitValue (digitChar d) = Some d" and "isDigit (digitChar d)"
proof -
  from assms have "d \<in> {0, 1, 2, 3, 4, 5, 6, 7, 8, 9}" by auto
  then show "digitValue (digitChar d) = Some d" and "isDigit (digitChar d)"
    by (auto simp: digitChar_def digitValue_def isDigit_def)
qed

lemma parseNat_append:
  "parseNat b (xs @ ys) acc =
     (case parseNat b xs acc of None \<Rightarrow> None | Some a \<Rightarrow> parseNat b ys a)"
  by (induction xs arbitrary: acc) (auto split: option.splits)

lemma digitsOf_decimal:
  "digitsOf 10 m \<noteq> [] \<and> list_all isDigit (digitsOf 10 m) \<and> parseNat 10 (digitsOf 10 m) 0 = Some m"
proof (induction "10 :: nat" m rule: digitsOf.induct)
  case (1 n)
  show ?case
  proof (cases "n < 10")
    case True
    then show ?thesis
      by (subst (1 2 3) digitsOf.simps) (simp add: digitChar_decimal)
  next
    case False
    then have ih: "digitsOf 10 (n div 10) \<noteq> [] \<and> list_all isDigit (digitsOf 10 (n div 10)) \<and>
        parseNat 10 (digitsOf 10 (n div 10)) 0 = Some (n div 10)"
      using 1 by simp
    have step: "digitsOf 10 n = digitsOf 10 (n div 10) @ [digitChar (n mod 10)]"
      using False by (subst digitsOf.simps) simp
    have low: "n mod 10 < 10" by simp
    show ?thesis
      unfolding step using ih digitChar_decimal [OF low]
      by (simp add: parseNat_append)
  qed
qed

lemma isDigit_facts:
  "isDigit c \<Longrightarrow> \<not> isBlank c"
  "isDigit c \<Longrightarrow> c \<notin> set ''xXoObB-+''"
  by (auto simp: isDigit_def isBlank_def)

lemma trimBlanks_id: "s \<noteq> [] \<Longrightarrow> \<not> isBlank (hd s) \<Longrightarrow> \<not> isBlank (last s) \<Longrightarrow> trimBlanks s = s"
proof -
  assume s: "s \<noteq> []" and h: "\<not> isBlank (hd s)" and l: "\<not> isBlank (last s)"
  from s h have "dropWhile isBlank s = s" by (cases s) simp_all
  moreover from s l have "dropWhile isBlank (rev s) = rev s"
    by (cases "rev s") (simp_all add: last_rev [symmetric] hd_rev)
  ultimately show ?thesis by (simp add: trimBlanks_def)
qed

lemma digits_no_prefix:
  assumes "list_all isDigit s"
  shows "take 2 s \<noteq> [a, b] \<or> isDigit b"
  using assms by (cases s; cases "tl s") (auto)

lemma BigInt_of_digits:
  assumes "s \<noteq> []" "list_all isDigit s"
  shows "BigInt_of_string s = map_option int (parseDigits 10 s)"
proof -
  from assms have hd: "isDigit (hd s)" and last: "isDigit (last s)"
    by (auto simp: list_all_iff)
  then have trim: "trimBlanks s = s"
    using assms(1) by (simp add: trimBlanks_id isDigit_facts)
  have two: "take 2 s \<noteq> [a, b]" if "\<not> isDigit b" for a b
    using digits_no_prefix [OF assms(2), of a b] that by blast
  have one: "take 1 s \<noteq> [a]" if "\<not> isDigit a" for a
    using assms hd that by (cases s) auto
  have nd: "\<not> isDigit CHR ''x''" "\<not> isDigit CHR ''X''" "\<not> isDigit CHR ''o''" "\<not> isDigit CHR ''O''"
    "\<not> isDigit CHR ''b''" "\<not> isDigit CHR ''B''" "\<not> isDigit CHR ''-''" "\<not> isDigit CHR ''+''"
    by (simp_all add: isDigit_def)
  show ?thesis
    unfolding BigInt_of_string_def trim Let_def
    using assms(1) two nd one by simp
qed

lemma BigInt_of_negative:
  assumes "ds \<noteq> []" "list_all isDigit ds"
  shows "BigInt_of_string (CHR ''-'' # ds) = map_option (\<lambda>n. - int n) (parseDigits 10 ds)"
proof -
  from assms have last: "isDigit (last ds)" by (auto simp: list_all_iff)
  have "\<not> isBlank CHR ''-''" by (simp add: isBlank_def)
  then have trim: "trimBlanks (CHR ''-'' # ds) = CHR ''-'' # ds"
    using assms(1) last by (simp add: trimBlanks_id isDigit_facts)
  show ?thesis
    unfolding BigInt_of_string_def trim Let_def by simp
qed

lemma BigInt_of_bigintToString: "BigInt_of_string (bigintToString n) = Some n"
proof (cases "n < 0")
  case False
  then show ?thesis
    using digitsOf_decimal [of "nat \<bar>n\<bar>"]
    by (simp add: bigintToString_def BigInt_of_digits parseDigits_def)
next
  case True
  note d = digitsOf_decimal [of "nat \<bar>n\<bar>"]
  have "BigInt_of_string (CHR ''-'' # digitsOf 10 (nat \<bar>n\<bar>)) = Some n"
    using True d by (simp add: BigInt_of_negative parseDigits_def)
  then show ?thesis
    using True by (simp add: bigintToString_def)
qed

lemma loadsAs_JBigInt: "loadsAs (JBigInt n) (JBigInt n)"
  by (simp add: loadsAs_def serializeProperty.simps replacer_def reviver_def startsWith_def
      BigInt_of_bigintToString)

lemma phaseString_untagged: "\<not> startsWith (phaseString p) ''bigint:''"
  by (cases p) (simp_all add: startsWith_def)

lemma member_string: "untagged s \<Longrightarrow> memberLoadsAs (k, JString s) (k, JString s)"
  by (simp add: memberLoadsAs_def loadsAs_JString untagged_def)

lemma member_integer: "memberLoadsAs (k, integer n) (k, integer n)"
  by (simp add: memberLoadsAs_def integer_def loadsAs_Num)

lemma member_bigint: "memberLoadsAs (k, JBigInt n) (k, JBigInt n)"
  by (simp add: memberLoadsAs_def loadsAs_JBigInt)

lemma optional_string:
  "untaggedOpt v \<Longrightarrow> list_all2 memberLoadsAs (optional k JString v) (optional k JString v)"
  by (cases v) (simp_all add: optional_def untaggedOpt_def member_string)

lemma optional_integer: "list_all2 memberLoadsAs (optional k integer v) (optional k integer v)"
  by (cases v) (simp_all add: optional_def member_integer)

lemma entry_loadsAs: "untaggedOpt (details e) \<Longrightarrow> loadsAs (entryToJs e) (entryToJs e)"
  unfolding entryToJs_def
  by (intro loadsAs_JObject list_all2_appendI)
    (simp_all add: member_string member_integer optional_string untagged_def phaseString_untagged)

lemma history_loadsAs:
  "list_all (\<lambda>e. untaggedOpt (details e)) h \<Longrightarrow> list_all2 loadsAs (map entryToJs h) (map entryToJs h)"
  by (induction h) (simp_all add: entry_loadsAs)

lemma state_loadsAs: "persistable s \<Longrightarrow> loadsAs (stateToJs s) (stateToJs s)"
  unfolding stateToJs_def persistable_def
  apply (intro loadsAs_JObject list_all2_appendI)
  apply (simp_all add: member_string member_integer member_bigint optional_string optional_integer
      untagged_def phaseString_untagged)
  apply (auto simp: memberLoadsAs_def loadsAs_JArray history_loadsAs loadsAs_Num startsWith_def
      intro!: loadsAs_JString split: number.splits NetworkName.splits)
  done

lemma sampleObject_loadsAs:
  "loadsAs a b \<Longrightarrow> list_all2 memberLoadsAs kvs kws \<Longrightarrow>
   loadsAs (sampleObject a kvs) (sampleObject b kws)"
  unfolding sampleObject_def
  apply (intro loadsAs_JObject list_all2_appendI)
  apply (simp_all add: memberLoadsAs_def loadsAs_Num loadsAs_JBigInt)
  apply (auto simp: startsWith_def sampleXmrAddress_def sampleHashA_def
      intro!: loadsAs_JString loadsAs_JArray loadsAs_JObject
      simp: memberLoadsAs_def loadsAs_Num)
  done

lemma BigInt_of_7: "BigInt_of_string ''7'' = Some 7"
  by code_simp

lemma BigInt_of_x: "BigInt_of_string ''x'' = None"
  by code_simp

lemma roundTrip_tagged_x:
  "roundTrip (sampleObject (JNumber (Num 160000000)) [(''btcLockTxId'', JString ''bigint:x'')])
     = Inl SyntaxError"
  by (simp add: sampleObject_def roundTrip_def serializeSwapState_def deserializeSwapState_def
      serializeProperty.simps replacer_def reviver_def startsWith_def BigInt_of_bigintToString
      BigInt_of_x sampleXmrAddress_def sampleHashA_def)

text \<open>
  Everywhere else saving and loading is the identity: a state whose \<open>exchangeRate\<close> is finite
  and whose strings do not start with \<open>bigint:\<close> comes back equal in every field, the two
  \<open>bigint\<close> amounts digit for digit.
\<close>

lemma roundTrip_persistable: "persistable s \<Longrightarrow> roundTrip (stateToJs s) = Inr (stateToJs s)"
  by (rule roundTrip_loadsAs) (rule state_loadsAs)

lemma sampleState_persistable: "persistable sampleState"
  by (simp add: persistable_def sampleState_def untagged_def untaggedOpt_def startsWith_def
      sampleXmrAddress_def sampleHashA_def)

lemma roundTrip_sampleState: "roundTrip (stateToJs sampleState) = Inr (stateToJs sampleState)"
  by (rule roundTrip_persistable) (rule sampleState_persistable)

text \<open>
  Claim C8: saving a swap state and loading it again gives a state equal to the original in
  all fields. The evaluation below shows three states for which it does not. With
  \<open>exchangeRate = Infinity\<close> the loaded state holds \<open>null\<close> in its place. With a lock
  transaction id that reads \<open>bigint:7\<close> the loaded state holds the \<open>bigint\<close> 7 where the
  string was. With one that reads \<open>bigint:x\<close> the state is saved, and loading it raises a
  \<open>SyntaxError\<close>.
\<close>

theorem roundTrip_changes_state:
  "stateToJs (sampleState\<lparr>exchangeRate := PosInfinity\<rparr>) = sampleObject (JNumber PosInfinity) [] \<and>
   roundTrip (stateToJs (sampleState\<lparr>exchangeRate := PosInfinity\<rparr>)) = Inr (sampleObject JNull []) \<and>
   stateToJs (sampleState\<lparr>btcLockTxId := Some ''bigint:7''\<rparr>)
     = sampleObject (JNumber (Num 160000000)) [(''btcLockTxId'', JString ''bigint:7'')] \<and>
   roundTrip (stateToJs (sampleState\<lparr>btcLockTxId := Some ''bigint:7''\<rparr>))
     = Inr (sampleObject (JNumber (Num 160000000)) [(''btcLockTxId'', JBigInt 7)]) \<and>
   roundTrip (stateToJs (sampleState\<lparr>btcLockTxId := Some ''bigint:x''\<rparr>)) = Inl SyntaxError"
proof -
  have o1: "stateToJs (sampleState\<lparr>exchangeRate := PosInfinity\<rparr>) = sampleObject (JNumber PosInfinity) []"
    by (simp add: stateToJs_def sampleState_def sampleObject_def optional_def entryToJs_def integer_def)
  have o2: "stateToJs (sampleState\<lparr>btcLockTxId := Some t\<rparr>)
     = sampleObject (JNumber (Num 160000000)) [(''btcLockTxId'', JString t)]" for t
    by (simp add: stateToJs_def sampleState_def sampleObject_def optional_def entryToJs_def integer_def)
  have l1: "loadsAs (sampleObject (JNumber PosInfinity) []) (sampleObject JNull [])"
    by (rule sampleObject_loadsAs) (simp_all add: loadsAs_not_finite)
  have l2: "loadsAs (sampleObject (JNumber (Num 160000000)) [(''btcLockTxId'', JString ''bigint:7'')])
      (sampleObject (JNumber (Num 160000000)) [(''btcLockTxId'', JBigInt 7)])"
    by (rule sampleObject_loadsAs)
      (simp_all add: loadsAs_Num memberLoadsAs_def loadsAs_tagged startsWith_def BigInt_of_7)
  show ?thesis
    unfolding o1 o2 using roundTrip_loadsAs [OF l1] roundTrip_loadsAs [OF l2] roundTrip_tagged_x
    by simp
qed

end
